(* ===== verification/Prelude.thy ===== *)
theory Prelude
  imports Complex_Main "HOL-Library.Multiset"
begin

text \<open>
  Shared vocabulary of the development: the Python exceptions the sources can raise, the
  result type of a fallible operation, and Python's stride-2 slices \<open>xs[::2]\<close> and
  \<open>xs[1::2]\<close> with the list lemmas every component uses about them.
\<close>

named_theorems slice_simps "evaluation rules of the stride-2 slices"

section \<open>Exceptions and results\<close>

text \<open>
  The exceptions raised on the paths the sources take: \<open>IndexError\<close> (indexing an empty
  list or too many indices), \<open>KeyError\<close> (a data name the host does not hold),
  \<open>BroadcastError\<close> (numpy's "operands could not be broadcast together"),
  \<open>NegativeDimension\<close> (\<open>np.tile\<close> with a negative repetition count) and
  \<open>ShapeMismatch\<close> (\<open>np.vstack\<close>/\<open>np.hstack\<close> of arrays of different lengths),
  \<open>AttributeError\<close> (an attribute read on \<open>None\<close> or before it is set) and
  \<open>ValueError\<close> (\<open>np.interp\<close> with no sample points or with sample lists of
  different lengths).
\<close>

datatype err = IndexError | KeyError | BroadcastError | NegativeDimension | ShapeMismatch
  | AttributeError | ValueError

type_synonym 'a result = "err + 'a"

text \<open>
  A method of an object that may raise: the exception or the returned value, each with the
  object's state at that point (assignments made before a raise persist in Python).
\<close>

type_synonym ('s, 'a) outcome = "(err \<times> 's) + ('a \<times> 's)"

definition outcome_state :: "('s, 'a) outcome \<Rightarrow> 's" where
  "outcome_state r = (case r of Inl (e, s) \<Rightarrow> s | Inr (a, s) \<Rightarrow> s)"

lemma outcome_state_simps [simp]: "outcome_state (Inl (e, s)) = s" "outcome_state (Inr (a, s)) = s"
  by (simp_all add: outcome_state_def)

text \<open>Sequencing of fallible calls: the first exception propagates.\<close>

definition rbind :: "'a result \<Rightarrow> ('a \<Rightarrow> 'b result) \<Rightarrow> 'b result" where
  "rbind r f = (case r of Inl e \<Rightarrow> Inl e | Inr a \<Rightarrow> f a)"

lemma rbind_simps [simp]: "rbind (Inl e) f = Inl e" "rbind (Inr a) f = f a"
  by (simp_all add: rbind_def)

section \<open>Lists\<close>

lemma map2_map2_left:
  "length xs = length ys \<Longrightarrow> map2 g (map2 f xs ys) ys = map2 (\<lambda>a b. g (f a b) b) xs ys"
  by (induction xs ys rule: list_induct2) auto

lemma map2_map_both:
  "map2 g (map f xs) (map h ys) = map2 (\<lambda>a b. g (f a) (h b)) xs ys"
  by (simp add: zip_map1 zip_map2 split_def)

lemma map2_replicate [simp]: "map2 f (replicate k x) (replicate k y) = replicate k (f x y)"
  by (induction k) auto

section \<open>Stride-2 slices\<close>

text \<open>\<open>xs[::2]\<close>: the elements at even positions, in order.\<close>

fun py_evens :: "'a list \<Rightarrow> 'a list" where
  "py_evens [] = []"
| "py_evens [x] = [x]"
| "py_evens (x # _ # zs) = x # py_evens zs"

text \<open>\<open>xs[1::2]\<close>: the elements at odd positions, in order.\<close>

definition py_odds :: "'a list \<Rightarrow> 'a list" where
  "py_odds xs = py_evens (drop 1 xs)"

lemma py_odds_simps [simp, slice_simps]:
  "py_odds [] = []" "py_odds [x] = []" "py_odds (x # y # zs) = y # py_odds zs"
  by (simp_all add: py_odds_def split: list.splits)
     (cases zs; simp add: py_odds_def)

lemma length_py_evens [simp]: "length (py_evens xs) = (length xs + 1) div 2"
  by (induction xs rule: py_evens.induct) auto

lemma length_py_odds [simp]: "length (py_odds xs) = length xs div 2"
  by (simp add: py_odds_def)

lemma nth_py_evens [simp]: "i < (length xs + 1) div 2 \<Longrightarrow> py_evens xs ! i = xs ! (2 * i)"
proof (induction xs arbitrary: i rule: py_evens.induct)
  case (3 x y zs)
  then show ?case by (cases i) auto
qed auto

lemma nth_py_odds [simp]: "i < length xs div 2 \<Longrightarrow> py_odds xs ! i = xs ! (2 * i + 1)"
  by (cases xs) (simp_all add: py_odds_def)

lemma py_evens_append [slice_simps]:
  "even (length xs) \<Longrightarrow> py_evens (xs @ ys) = py_evens xs @ py_evens ys"
  by (induction xs rule: py_evens.induct) auto

lemma py_odds_append [slice_simps]:
  "even (length xs) \<Longrightarrow> py_odds (xs @ ys) = py_odds xs @ py_odds ys"
proof (induction xs rule: py_evens.induct)
  case (3 x y zs)
  then show ?case by simp
qed auto

lemma set_py_evens: "set (py_evens xs) \<subseteq> set xs"
  by (induction xs rule: py_evens.induct) auto

lemma set_py_odds: "set (py_odds xs) \<subseteq> set xs"
  by (simp add: py_odds_def) (meson dual_order.trans set_drop_subset set_py_evens)

lemma py_evens_replicate_pair [slice_simps]:
  "py_evens (concat (replicate n [a, b])) = replicate n a"
  by (induction n) auto

lemma py_odds_replicate_pair [slice_simps]:
  "py_odds (concat (replicate n [a, b])) = replicate n b"
  by (induction n) auto

lemma py_evens_map [simp]: "py_evens (map f xs) = map f (py_evens xs)"
  by (induction xs rule: py_evens.induct) auto

lemma py_odds_map [simp]: "py_odds (map f xs) = map f (py_odds xs)"
  by (simp add: py_odds_def drop_map)

text \<open>Moving the first pair of an even-length list to its end permutes each slice.\<close>

lemma mset_py_evens_rotate2:
  "even (length xs) \<Longrightarrow> mset (py_evens (rotate 2 xs)) = mset (py_evens xs)"
proof (cases xs rule: remdups_adj.cases)
  case (3 x y zs)
  then have "even (length zs) \<Longrightarrow> rotate 2 xs = zs @ [x, y]"
    by (simp add: numeral_2_eq_2 rotate1_rotate_swap)
  with 3 show "even (length xs) \<Longrightarrow> ?thesis"
    by (simp add: py_evens_append)
qed auto

lemma mset_py_odds_rotate2:
  "even (length xs) \<Longrightarrow> mset (py_odds (rotate 2 xs)) = mset (py_odds xs)"
proof (cases xs rule: remdups_adj.cases)
  case (3 x y zs)
  then have "rotate 2 xs = zs @ [x, y]"
    by (simp add: numeral_2_eq_2 rotate1_rotate_swap)
  with 3 show "even (length xs) \<Longrightarrow> ?thesis"
    by (simp add: py_odds_append)
qed auto

end
