(* ===== verification/Float64.thy ===== *)
theory Float64
  imports Prelude
begin

text \<open>
  numpy's \<open>float64\<close> values as the sources compute with them: a finite value, \<open>+inf\<close>,
  \<open>-inf\<close> or \<open>nan\<close>. Finite values are exact reals: rounding is not modelled, and every
  zero is \<open>+0.0\<close> (what \<open>x - x\<close> gives under round-to-nearest). The special values follow
  IEEE 754: \<open>nan\<close> absorbs, \<open>inf - inf\<close> is \<open>nan\<close>, a nonzero number divided by zero
  is an infinity of its sign and \<open>0/0\<close> is \<open>nan\<close>. Comparisons with \<open>nan\<close> are false.
  The arithmetic is declared as the library's \<open>+\<close>, \<open>-\<close>, \<open>*\<close>, \<open>/\<close> and \<open><\<close>, so
  that the component theories read like the Python; addition is a commutative monoid,
  which makes the order in which numpy sums irrelevant.
\<close>

datatype fl = Fin real | PInf | NInf | NaN

fun fl_add :: "fl \<Rightarrow> fl \<Rightarrow> fl" where
  "fl_add NaN _ = NaN"
| "fl_add _ NaN = NaN"
| "fl_add PInf NInf = NaN"
| "fl_add NInf PInf = NaN"
| "fl_add PInf _ = PInf"
| "fl_add _ PInf = PInf"
| "fl_add NInf _ = NInf"
| "fl_add _ NInf = NInf"
| "fl_add (Fin a) (Fin b) = Fin (a + b)"

fun fl_neg :: "fl \<Rightarrow> fl" where
  "fl_neg (Fin a) = Fin (- a)"
| "fl_neg PInf = NInf"
| "fl_neg NInf = PInf"
| "fl_neg NaN = NaN"

text \<open>The sign of an infinite product or quotient, from the signs of its operands.\<close>

definition inf_of_sign :: "bool \<Rightarrow> fl" where
  "inf_of_sign pos = (if pos then PInf else NInf)"

fun fl_pos :: "fl \<Rightarrow> bool" where
  "fl_pos (Fin a) = (0 \<le> a)"
| "fl_pos PInf = True"
| "fl_pos NInf = False"
| "fl_pos NaN = False"

fun fl_mul :: "fl \<Rightarrow> fl \<Rightarrow> fl" where
  "fl_mul (Fin a) (Fin b) = Fin (a * b)"
| "fl_mul NaN _ = NaN"
| "fl_mul _ NaN = NaN"
| "fl_mul (Fin a) y = (if a = 0 then NaN else inf_of_sign (fl_pos (Fin a) = fl_pos y))"
| "fl_mul x (Fin b) = (if b = 0 then NaN else inf_of_sign (fl_pos x = fl_pos (Fin b)))"
| "fl_mul x y = inf_of_sign (fl_pos x = fl_pos y)"

fun fl_div :: "fl \<Rightarrow> fl \<Rightarrow> fl" where
  "fl_div NaN _ = NaN"
| "fl_div _ NaN = NaN"
| "fl_div (Fin a) (Fin b) =
     (if b = 0 then (if a = 0 then NaN else inf_of_sign (0 < a)) else Fin (a / b))"
| "fl_div (Fin a) _ = Fin 0"
| "fl_div x (Fin b) = inf_of_sign (fl_pos x = fl_pos (Fin b))"
| "fl_div _ _ = NaN"

fun fl_less :: "fl \<Rightarrow> fl \<Rightarrow> bool" where
  "fl_less (Fin a) (Fin b) = (a < b)"
| "fl_less NInf (Fin _) = True"
| "fl_less NInf PInf = True"
| "fl_less (Fin _) PInf = True"
| "fl_less _ _ = False"

fun fl_le :: "fl \<Rightarrow> fl \<Rightarrow> bool" where
  "fl_le (Fin a) (Fin b) = (a \<le> b)"
| "fl_le NaN _ = False"
| "fl_le _ NaN = False"
| "fl_le NInf _ = True"
| "fl_le _ PInf = True"
| "fl_le _ _ = False"

instantiation fl :: "{comm_monoid_add, uminus, minus, times, inverse, ord}"
begin

definition zero_fl :: fl where "zero_fl = Fin 0"
definition plus_fl :: "fl \<Rightarrow> fl \<Rightarrow> fl" where "plus_fl = fl_add"
definition uminus_fl :: "fl \<Rightarrow> fl" where "uminus_fl = fl_neg"
definition minus_fl :: "fl \<Rightarrow> fl \<Rightarrow> fl" where "minus_fl a b = fl_add a (fl_neg b)"
definition times_fl :: "fl \<Rightarrow> fl \<Rightarrow> fl" where "times_fl = fl_mul"
definition divide_fl :: "fl \<Rightarrow> fl \<Rightarrow> fl" where "divide_fl = fl_div"
definition inverse_fl :: "fl \<Rightarrow> fl" where "inverse_fl = fl_div (Fin 1)"
definition less_fl :: "fl \<Rightarrow> fl \<Rightarrow> bool" where "less_fl = fl_less"
definition less_eq_fl :: "fl \<Rightarrow> fl \<Rightarrow> bool" where "less_eq_fl = fl_le"

instance
proof
  fix a b c :: fl
  show "a + b + c = a + (b + c)"
    by (cases a; cases b; cases c) (simp_all add: plus_fl_def)
  show "a + b = b + a"
    by (cases a; cases b) (simp_all add: plus_fl_def)
  show "0 + a = a"
    by (cases a) (simp_all add: plus_fl_def zero_fl_def)
qed

end

lemmas fl_ops_def = zero_fl_def plus_fl_def uminus_fl_def minus_fl_def times_fl_def
  divide_fl_def less_fl_def less_eq_fl_def

named_theorems fl_simps "arithmetic of the float model on concrete values"

lemma fl_fin_arith [simp, fl_simps]:
  "Fin a + Fin b = Fin (a + b)"
  "Fin a - Fin b = Fin (a - b)"
  "- Fin a = Fin (- a)"
  "Fin a * Fin b = Fin (a * b)"
  "Fin a < Fin b \<longleftrightarrow> a < b"
  "Fin a \<le> Fin b \<longleftrightarrow> a \<le> b"
  "(0::fl) = Fin 0"
  by (simp_all add: fl_ops_def)

lemma fl_fin_div [simp, fl_simps]:
  "Fin a / Fin b = (if b = 0 then (if a = 0 then NaN else inf_of_sign (0 < a)) else Fin (a / b))"
  by (simp add: divide_fl_def)

lemma fl_nan_absorbs [simp, fl_simps]:
  "NaN + x = NaN" "x + NaN = NaN" "NaN - x = NaN" "x - NaN = NaN"
  "NaN / x = NaN" "x / NaN = NaN" "\<not> NaN < x" "\<not> x < NaN"
  by (cases x; simp add: fl_ops_def)+

lemma fl_add_Fin0 [simp, fl_simps]: "x + Fin 0 = x" "Fin 0 + x = x"
  using add_0_right [of x] add_0_left [of x] by (simp_all add: zero_fl_def)

lemma fl_diff_Fin0: "x - Fin 0 = x"
  by (cases x) (simp_all add: fl_ops_def)

text \<open>A value corrected by itself, divided by another corrected by itself, is \<open>nan\<close>.\<close>

lemma fl_self_ratio_nan [simp]: "((x - x) - (y - y)) / (y - y) = NaN"
  by (cases x; cases y) (simp_all add: fl_ops_def)

lemma inf_of_sign_simps [simp, fl_simps]:
  "inf_of_sign True = PInf" "inf_of_sign False = NInf"
  by (simp_all add: inf_of_sign_def)

lemma sum_list_Fin [simp]: "sum_list (map Fin xs) = Fin (sum_list xs)"
  by (induction xs) (simp_all add: zero_fl_def)

section \<open>The mean of a 1D array\<close>

text \<open>
  \<open>a.mean()\<close> of a one-dimensional array: the sum divided by the count. On an empty array
  numpy computes \<open>0/0\<close> and returns \<open>nan\<close> (with a RuntimeWarning), as here.
\<close>

definition fmean :: "fl list \<Rightarrow> fl" where
  "fmean xs = sum_list xs / Fin (real (length xs))"

lemma fmean_Nil [simp]: "fmean [] = NaN"
  by (simp add: fmean_def)

lemma fmean_Fin: "xs \<noteq> [] \<Longrightarrow> fmean (map Fin xs) = Fin (sum_list xs / real (length xs))"
  by (simp add: fmean_def)

lemma fmean_replicate [simp]: "0 < n \<Longrightarrow> fmean (replicate n (Fin a)) = Fin a"
proof -
  assume "0 < n"
  have "fmean (replicate n (Fin a)) = fmean (map Fin (replicate n a))" by simp
  also have "\<dots> = Fin (sum_list (replicate n a) / real n)"
    using \<open>0 < n\<close> by (subst fmean_Fin) simp_all
  finally show ?thesis using \<open>0 < n\<close> by (simp add: sum_list_replicate)
qed

lemma sum_list_replicate_special:
  "0 < n \<Longrightarrow> x \<in> {PInf, NInf, NaN} \<Longrightarrow> sum_list (replicate n x) = x"
proof (induction n)
  case (Suc n)
  then show ?case by (cases n) (auto simp: plus_fl_def)
qed simp

text \<open>The mean of \<open>n > 0\<close> copies of a value is that value, also for \<open>inf\<close> and \<open>nan\<close>.\<close>

lemma fmean_replicate_any [simp]: "0 < n \<Longrightarrow> fmean (replicate n x) = x"
proof (cases x)
  case (Fin a)
  then show "0 < n \<Longrightarrow> ?thesis" by simp
qed (simp_all add: fmean_def sum_list_replicate_special divide_fl_def)

text \<open>The mean does not depend on the order of the values.\<close>

lemma fmean_mset_eq: "mset xs = mset ys \<Longrightarrow> fmean xs = fmean ys"
  unfolding fmean_def
  by (metis mset_eq_length sum_mset_sum_list)

end
