(* ===== verification/NdArray.thy ===== *)
theory NdArray
  imports Float64
begin

text \<open>
  The numpy array operations the sources call, on two-dimensional float arrays: row
  slices \<open>A[::2, :]\<close> and \<open>A[1::2, :]\<close>, \<open>A.mean(axis=0)\<close>, \<open>A.mean()\<close>,
  elementwise arithmetic with numpy's broadcasting, \<open>np.vstack\<close>, \<open>np.hstack\<close>,
  \<open>np.tile\<close>, \<open>np.flip\<close>, \<open>np.roll\<close>, \<open>A.T\<close> and \<open>A += c * noise\<close>. An array keeps its
  column count apart from its rows, so that an array with no rows still has a shape, as
  in numpy (the mean of a \<open>(0, m)\<close> array is \<open>m\<close> nans). These are library semantics,
  written from numpy's documented behaviour; they are not code of the repository.
\<close>

record arr2 =
  ncols :: nat
  rows :: "fl list list"

text \<open>The data a detector exports under one name: a 1D or a 2D array.\<close>

datatype nd = D1 "fl list" | D2 arr2

definition nrows :: "arr2 \<Rightarrow> nat" where
  "nrows A = length (rows A)"

definition wf_arr :: "arr2 \<Rightarrow> bool" where
  "wf_arr A \<longleftrightarrow> list_all (\<lambda>r. length r = ncols A) (rows A)"

definition arr_of_rows :: "nat \<Rightarrow> fl list list \<Rightarrow> arr2" where
  "arr_of_rows m rs = \<lparr>ncols = m, rows = rs\<rparr>"

section \<open>Slices and means\<close>

definition even_rows :: "arr2 \<Rightarrow> arr2" where   \<comment> \<open>\<open>A[::2, :]\<close>\<close>
  "even_rows A = A\<lparr>rows := py_evens (rows A)\<rparr>"

definition odd_rows :: "arr2 \<Rightarrow> arr2" where    \<comment> \<open>\<open>A[1::2, :]\<close>\<close>
  "odd_rows A = A\<lparr>rows := py_odds (rows A)\<rparr>"

definition col :: "arr2 \<Rightarrow> nat \<Rightarrow> fl list" where
  "col A j = map (\<lambda>r. r ! j) (rows A)"

definition mean0 :: "arr2 \<Rightarrow> fl list" where     \<comment> \<open>\<open>A.mean(axis=0)\<close>\<close>
  "mean0 A = map (\<lambda>j. fmean (col A j)) [0..<ncols A]"

definition mean_all :: "arr2 \<Rightarrow> fl" where      \<comment> \<open>\<open>A.mean()\<close>\<close>
  "mean_all A = fmean (concat (rows A))"

section \<open>Broadcasting\<close>

text \<open>
  Two axis lengths broadcast when they are equal or one of them is 1; the result has the
  other length. A 1D operand of length \<open>m\<close> takes part as a \<open>(1, m)\<close> array.
\<close>

definition bdim :: "nat \<Rightarrow> nat \<Rightarrow> nat option" where
  "bdim a b = (if a = b then Some a else if a = 1 then Some b else if b = 1 then Some a else None)"

definition bidx :: "nat \<Rightarrow> nat \<Rightarrow> nat" where
  "bidx n i = (if n = 1 then 0 else i)"

definition bcast :: "(fl \<Rightarrow> fl \<Rightarrow> fl) \<Rightarrow> arr2 \<Rightarrow> arr2 \<Rightarrow> arr2 result" where
  "bcast f A B =
     (case (bdim (nrows A) (nrows B), bdim (ncols A) (ncols B)) of
        (Some r, Some c) \<Rightarrow>
          Inr \<lparr>ncols = c, rows = map (\<lambda>i. map (\<lambda>j.
                 f (rows A ! bidx (nrows A) i ! bidx (ncols A) j)
                   (rows B ! bidx (nrows B) i ! bidx (ncols B) j)) [0..<c]) [0..<r]\<rparr>
      | _ \<Rightarrow> Inl BroadcastError)"

text \<open>\<open>(pon - poff)/poff\<close>, the expression both the model and the CMOS viewer compute.\<close>

definition np_ratio :: "arr2 \<Rightarrow> arr2 \<Rightarrow> arr2 result" where
  "np_ratio on off = rbind (bcast (-) on off) (\<lambda>d. bcast (/) d off)"

definition row_vec :: "fl list \<Rightarrow> arr2" where
  "row_vec v = \<lparr>ncols = length v, rows = [v]\<rparr>"

section \<open>Building arrays\<close>

definition vstack2 :: "fl list \<Rightarrow> fl list \<Rightarrow> arr2 result" where   \<comment> \<open>\<open>np.vstack((a, b))\<close>\<close>
  "vstack2 a b = (if length a = length b then Inr \<lparr>ncols = length a, rows = [a, b]\<rparr>
                  else Inl ShapeMismatch)"

text \<open>\<open>np.hstack((a, b))\<close> of two \<open>(k, 1)\<close> column arrays, given by their entries.\<close>

definition hstack_cols :: "fl list \<Rightarrow> fl list \<Rightarrow> arr2 result" where
  "hstack_cols a b = (if length a = length b then Inr \<lparr>ncols = 2, rows = map2 (\<lambda>x y. [x, y]) a b\<rparr>
                      else Inl ShapeMismatch)"

definition tile_rows :: "int \<Rightarrow> arr2 \<Rightarrow> arr2 result" where   \<comment> \<open>\<open>np.tile(A, (n, 1))\<close>\<close>
  "tile_rows n A = (if n < 0 then Inl NegativeDimension
                    else Inr (A\<lparr>rows := concat (replicate (nat n) (rows A))\<rparr>))"

definition tile_cols :: "int \<Rightarrow> arr2 \<Rightarrow> arr2 result" where   \<comment> \<open>\<open>np.tile(A, n)\<close>\<close>
  "tile_cols n A = (if n < 0 then Inl NegativeDimension
                    else Inr \<lparr>ncols = ncols A * nat n,
                              rows = map (\<lambda>r. concat (replicate (nat n) r)) (rows A)\<rparr>)"

definition transpose0 :: "arr2 \<Rightarrow> arr2" where   \<comment> \<open>\<open>A.T\<close>\<close>
  "transpose0 A = \<lparr>ncols = nrows A, rows = map (col A) [0..<ncols A]\<rparr>"

definition flip0 :: "arr2 \<Rightarrow> arr2" where   \<comment> \<open>\<open>np.flip(A, axis=0)\<close>\<close>
  "flip0 A = A\<lparr>rows := rev (rows A)\<rparr>"

definition roll0 :: "arr2 \<Rightarrow> arr2" where   \<comment> \<open>\<open>np.roll(A, shift=1, axis=0)\<close>\<close>
  "roll0 A = A\<lparr>rows := (if rows A = [] then [] else last (rows A) # butlast (rows A))\<rparr>"

text \<open>\<open>A += amp * np.random.random_sample(A.shape)\<close>, the samples given as a function of the index.\<close>

definition add_noise :: "real \<Rightarrow> (nat \<Rightarrow> nat \<Rightarrow> real) \<Rightarrow> arr2 \<Rightarrow> arr2" where
  "add_noise amp rnd A =
     A\<lparr>rows := map (\<lambda>i. map (\<lambda>j. rows A ! i ! j + Fin (amp * rnd i j))
                             [0..<length (rows A ! i)]) [0..<nrows A]\<rparr>"

section \<open>Lemmas\<close>

named_theorems arr_simps "shape and entry rules of the array operations"

lemma arr_shape [simp, arr_simps]:
  "ncols (even_rows A) = ncols A" "ncols (odd_rows A) = ncols A"
  "rows (even_rows A) = py_evens (rows A)" "rows (odd_rows A) = py_odds (rows A)"
  "ncols (flip0 A) = ncols A" "rows (flip0 A) = rev (rows A)"
  "ncols (row_vec v) = length v" "rows (row_vec v) = [v]" "nrows (row_vec v) = 1"
  "ncols (arr_of_rows m rs) = m" "rows (arr_of_rows m rs) = rs"
  by (simp_all add: even_rows_def odd_rows_def flip0_def row_vec_def nrows_def arr_of_rows_def)

lemma bidx_lt [simp]: "i < n \<Longrightarrow> bidx n i = i"
  by (simp add: bidx_def)

lemma wf_arr_nth: "wf_arr A \<Longrightarrow> i < nrows A \<Longrightarrow> length (rows A ! i) = ncols A"
  by (simp add: wf_arr_def nrows_def list_all_length)

lemma wf_arr_rows: "wf_arr A \<longleftrightarrow> (\<forall>r \<in> set (rows A). length r = ncols A)"
  by (simp add: wf_arr_def list_all_iff)

lemma wf_arr_slices [simp, arr_simps]:
  "wf_arr A \<Longrightarrow> wf_arr (even_rows A)" "wf_arr A \<Longrightarrow> wf_arr (odd_rows A)"
  using set_py_evens set_py_odds by (fastforce simp: wf_arr_rows)+

text \<open>On two arrays of the same shape, broadcasting is elementwise.\<close>

lemma bcast_same_shape:
  assumes "wf_arr A" "wf_arr B" "nrows A = nrows B" "ncols A = ncols B"
  shows "bcast f A B = Inr \<lparr>ncols = ncols A, rows = map2 (map2 f) (rows A) (rows B)\<rparr>"
proof -
  have r: "bdim (nrows A) (nrows B) = Some (nrows A)" and c: "bdim (ncols A) (ncols B) = Some (ncols A)"
    using assms(3,4) by (simp_all add: bdim_def)
  have "map (\<lambda>i. map (\<lambda>j. f (rows A ! bidx (nrows A) i ! bidx (ncols A) j)
                             (rows B ! bidx (nrows B) i ! bidx (ncols B) j)) [0..<ncols A]) [0..<nrows A]
        = map2 (map2 f) (rows A) (rows B)"
    using assms by (auto intro!: nth_equalityI simp: nrows_def wf_arr_nth bidx_def)
  with r c show ?thesis
    by (simp add: bcast_def)
qed

text \<open>A 1D operand of the array's width is applied to every row.\<close>

lemma bcast_row_vec:
  assumes "wf_arr A" "length v = ncols A"
  shows "bcast f A (row_vec v) = Inr \<lparr>ncols = ncols A, rows = map (\<lambda>r. map2 f r v) (rows A)\<rparr>"
proof -
  have r: "bdim (nrows A) 1 = Some (nrows A)" and c: "bdim (ncols A) (length v) = Some (ncols A)"
    using assms(2) by (simp_all add: bdim_def)
  have "map (\<lambda>i. map (\<lambda>j. f (rows A ! bidx (nrows A) i ! bidx (ncols A) j)
                             ([v] ! bidx 1 i ! bidx (length v) j)) [0..<ncols A]) [0..<nrows A]
        = map (\<lambda>r. map2 f r v) (rows A)"
    using assms by (auto intro!: nth_equalityI simp: nrows_def wf_arr_nth bidx_def)
  with r c show ?thesis
    by (simp add: bcast_def)
qed

lemma wf_bcast: "bcast f A B = Inr C \<Longrightarrow> wf_arr C"
  by (auto simp: bcast_def wf_arr_def list_all_iff split: option.splits)

text \<open>The same two facts column by column, as the means over the shots read them.\<close>

lemma col_map2_rows:
  assumes "list_all (\<lambda>r. length r = m) X" "list_all (\<lambda>r. length r = m) Y" "length X = length Y" "j < m"
  shows "map (\<lambda>r. r ! j) (map2 (map2 f) X Y) = map2 f (map (\<lambda>r. r ! j) X) (map (\<lambda>r. r ! j) Y)"
  using assms by (auto intro!: nth_equalityI simp: list_all_length)

lemma bcast_same_shape_cols:
  assumes "wf_arr A" "wf_arr B" "nrows A = nrows B" "ncols A = ncols B"
  obtains C where "bcast f A B = Inr C" "wf_arr C" "nrows C = nrows A" "ncols C = ncols A"
    "\<And>j. j < ncols A \<Longrightarrow> col C j = map2 f (col A j) (col B j)"
proof
  let ?C = "\<lparr>ncols = ncols A, rows = map2 (map2 f) (rows A) (rows B)\<rparr>"
  show "bcast f A B = Inr ?C" using assms by (rule bcast_same_shape)
  then show "wf_arr ?C" by (rule wf_bcast)
  show "nrows ?C = nrows A" using assms(3) by (simp add: nrows_def)
  show "ncols ?C = ncols A" by simp
  show "col ?C j = map2 f (col A j) (col B j)" if "j < ncols A" for j
    using assms that col_map2_rows [of "ncols A" "rows A" "rows B" j f]
    by (simp add: col_def wf_arr_def nrows_def)
qed

lemma bcast_row_vec_cols:
  assumes "wf_arr A" "length v = ncols A"
  obtains C where "bcast f A (row_vec v) = Inr C" "wf_arr C" "nrows C = nrows A" "ncols C = ncols A"
    "\<And>j. j < ncols A \<Longrightarrow> col C j = map (\<lambda>x. f x (v ! j)) (col A j)"
proof
  let ?C = "\<lparr>ncols = ncols A, rows = map (\<lambda>r. map2 f r v) (rows A)\<rparr>"
  show "bcast f A (row_vec v) = Inr ?C" using assms by (rule bcast_row_vec)
  then show "wf_arr ?C" by (rule wf_bcast)
  show "nrows ?C = nrows A" by (simp add: nrows_def)
  show "ncols ?C = ncols A" by simp
  show "col ?C j = map (\<lambda>x. f x (v ! j)) (col A j)" if "j < ncols A" for j
    using assms that by (auto simp: col_def wf_arr_rows)
qed

lemma length_col [simp]: "length (col A j) = nrows A"
  by (simp add: col_def nrows_def)

text \<open>On two arrays of one shape, the ratio is \<open>(a - b)/b\<close> entry by entry, column by column.\<close>

lemma np_ratio_same_shape:
  assumes "wf_arr on" "wf_arr off" "nrows on = nrows off" "ncols on = ncols off"
  obtains R where "np_ratio on off = Inr R" "wf_arr R" "nrows R = nrows on" "ncols R = ncols on"
    "\<And>j. j < ncols on \<Longrightarrow> col R j = map2 (\<lambda>a b. (a - b) / b) (col on j) (col off j)"
proof -
  obtain D where D: "bcast (-) on off = Inr D" "wf_arr D" "nrows D = nrows on" "ncols D = ncols on"
      "\<And>j. j < ncols on \<Longrightarrow> col D j = map2 (-) (col on j) (col off j)"
    using bcast_same_shape_cols [OF assms] by metis
  obtain R where R: "bcast (/) D off = Inr R" "wf_arr R" "nrows R = nrows D" "ncols R = ncols D"
      "\<And>j. j < ncols D \<Longrightarrow> col R j = map2 (/) (col D j) (col off j)"
    using bcast_same_shape_cols [of D off] D assms by metis
  have "col R j = map2 (\<lambda>a b. (a - b) / b) (col on j) (col off j)" if "j < ncols on" for j
    using that R(5) D(3-5) assms(3) by (simp add: map2_map2_left)
  then show ?thesis
    using D R by (intro that [of R]) (simp_all add: np_ratio_def)
qed

lemma nrows_slices [simp, arr_simps]:
  "nrows (even_rows A) = (nrows A + 1) div 2" "nrows (odd_rows A) = nrows A div 2"
  by (simp_all add: nrows_def)

lemma bcast_rows_error:
  "nrows A \<noteq> nrows B \<Longrightarrow> nrows A \<noteq> 1 \<Longrightarrow> nrows B \<noteq> 1 \<Longrightarrow> bcast f A B = Inl BroadcastError"
  by (simp add: bcast_def bdim_def)

text \<open>The column means of an array whose rows are all \<open>v\<close> give \<open>v\<close> back.\<close>

lemma mean0_replicate:
  "0 < k \<Longrightarrow> length v = m \<Longrightarrow> mean0 \<lparr>ncols = m, rows = replicate k v\<rparr> = v"
  by (auto intro!: nth_equalityI simp: mean0_def col_def)

lemma col_replicate [simp]: "j < length v \<Longrightarrow> col \<lparr>ncols = m, rows = replicate k v\<rparr> j = replicate k (v ! j)"
  by (simp add: col_def)

lemma wf_arr_replicate_pair:
  "length u = m \<Longrightarrow> length v = m \<Longrightarrow> wf_arr \<lparr>ncols = m, rows = concat (replicate k [u, v])\<rparr>"
  by (induction k) (simp_all add: wf_arr_def)

lemma length_mean0 [simp]: "length (mean0 A) = ncols A"
  by (simp add: mean0_def)

lemma nth_mean0 [simp]: "j < ncols A \<Longrightarrow> mean0 A ! j = fmean (col A j)"
  by (simp add: mean0_def)

lemma nth_concat_replicate_pair:
  "j < 2 * n \<Longrightarrow> concat (replicate n [x, y]) ! j = (if even j then x else y)"
proof (induction n arbitrary: j)
  case (Suc n)
  show ?case
  proof (cases "j < 2")
    case True
    then show ?thesis by (auto simp: less_2_cases_iff)
  next
    case False
    then obtain k where "j = Suc (Suc k)"
      by (metis add_2_eq_Suc le_add_diff_inverse not_less)
    with Suc show ?thesis by simp
  qed
qed simp

lemma length_concat_replicate_pair [simp]: "length (concat (replicate n [x, y])) = 2 * n"
  by (induction n) auto

text \<open>\<open>np.tile(np.hstack((a, b)), n).T\<close> alternates \<open>a\<close> and \<open>b\<close> as rows, \<open>n\<close> times.\<close>

lemma tile_hstack_transpose:
  assumes "hstack_cols a b = Inr H" "tile_cols n H = Inr T"
  shows "transpose0 T = \<lparr>ncols = length a, rows = concat (replicate (nat n) [a, b])\<rparr>"
proof -
  from assms have len: "length a = length b" and H: "H = \<lparr>ncols = 2, rows = map2 (\<lambda>x y. [x, y]) a b\<rparr>"
    and T: "T = \<lparr>ncols = 2 * nat n, rows = map (\<lambda>r. concat (replicate (nat n) r)) (rows H)\<rparr>"
    by (auto simp: hstack_cols_def tile_cols_def split: if_splits)
  have "map (col T) [0..<2 * nat n] = concat (replicate (nat n) [a, b])"
    using len by (auto intro!: nth_equalityI simp: T H col_def nth_concat_replicate_pair)
  with len show ?thesis
    by (simp add: transpose0_def T H nrows_def)
qed

text \<open>Rolling an alternating stack by one row swaps the order of each pair.\<close>

lemma cons_concat_replicate_pair:
  "b # concat (replicate n [a, b]) = concat (replicate n [b, a]) @ [b]"
  by (induction n) auto

lemma roll0_replicate_pair:
  "roll0 \<lparr>ncols = m, rows = concat (replicate n [a, b])\<rparr>
   = \<lparr>ncols = m, rows = concat (replicate n [b, a])\<rparr>"
proof (cases n)
  case (Suc k)
  have "last (concat (replicate n [a, b])) = b"
    using Suc by (simp add: replicate_append_same [symmetric])
  moreover have "b # butlast (concat (replicate n [a, b])) = concat (replicate n [b, a])"
    using Suc cons_concat_replicate_pair [of b k a] by simp
  ultimately show ?thesis using Suc by (simp add: roll0_def)
qed (simp add: roll0_def)

lemma add_noise_zero [simp]: "add_noise 0 rnd A = A"
proof -
  have "map (\<lambda>i. map (\<lambda>j. rows A ! i ! j + Fin 0) [0..<length (rows A ! i)]) [0..<nrows A]
        = rows A"
    by (auto intro!: nth_equalityI simp: nrows_def)
  then show ?thesis by (simp add: add_noise_def)
qed

lemma mean0_cols:
  "ncols R = m \<Longrightarrow> (\<And>j. j < m \<Longrightarrow> col R j = g j) \<Longrightarrow> mean0 R = map (\<lambda>j. fmean (g j)) [0..<m]"
  by (simp add: mean0_def)

text \<open>
  \<open>(on - off)/off\<close> over \<open>k > 0\<close> copies of one on shot and one off shot, averaged over
  the shots: the ratio of the two shots, channel by channel.
\<close>

lemma np_ratio_replicate:
  assumes "length u = m" "length v = m" "0 < k"
  obtains R where "np_ratio \<lparr>ncols = m, rows = replicate k u\<rparr> \<lparr>ncols = m, rows = replicate k v\<rparr> = Inr R"
    "mean0 R = map2 (\<lambda>x y. (x - y) / y) u v"
proof -
  let ?on = "\<lparr>ncols = m, rows = replicate k u\<rparr>" and ?off = "\<lparr>ncols = m, rows = replicate k v\<rparr>"
  have pre: "wf_arr ?on" "wf_arr ?off" "nrows ?on = nrows ?off" "ncols ?on = ncols ?off"
    using assms by (simp_all add: wf_arr_def list_all_iff nrows_def)
  obtain R where R: "np_ratio ?on ?off = Inr R" "ncols R = m"
      "\<And>j. j < m \<Longrightarrow> col R j = map2 (\<lambda>a b. (a - b) / b) (col ?on j) (col ?off j)"
    using np_ratio_same_shape [OF pre] by auto
  have "mean0 R = map (\<lambda>j. fmean (replicate k ((u ! j - v ! j) / v ! j))) [0..<m]"
    using R(2,3) assms(1,2) by (intro mean0_cols) simp_all
  also have "\<dots> = map2 (\<lambda>x y. (x - y) / y) u v"
    using assms by (auto intro!: nth_equalityI)
  finally show ?thesis using R(1) that by blast
qed

lemma add_noise_shape [simp]:
  "ncols (add_noise amp rnd A) = ncols A" "nrows (add_noise amp rnd A) = nrows A"
  "wf_arr (add_noise amp rnd A) = wf_arr A"
  by (simp_all add: add_noise_def nrows_def wf_arr_def list_all_length)


end
