(* ===== verification/Simulator.thy ===== *)
theory Simulator
  imports NdArray
begin

text \<open>
  The shot simulator \<open>Mock_SingleShot\<close> of \<open>src/.../hardware/cmos_simulator.py\<close>: its
  state (the pump-on and pump-off spectra read from a file, the gas-off background
  spectra, the stabilisation camera's on and off columns and the phase flag
  \<open>FirstShotIsPumpOn\<close>), its constructor and its two grab methods. \<open>random.choice\<close> is
  an input of the model (the coin), \<open>np.load\<close> is the array it returns. The invariant
  \<open>sim_inv\<close> (equal spectrum lengths, the stabilisation columns as built) holds after
  the constructor and is kept by every method; under it \<open>grab_XUV\<close> and \<open>grab_stab\<close>
  return the interleaved bursts stated in \<open>grab_XUV_rows\<close> and \<open>grab_stab_rows\<close>.
\<close>

record mock_singleshot =
  filename :: string
  pon :: "fl list"
  poff :: "fl list"
  bkg_on :: "fl list"
  bkg_off :: "fl list"
  stabpoff :: "fl list"
  stabpon :: "fl list"
  FirstShotIsPumpOn :: bool

text \<open>
  \<open>__init__\<close>: \<open>data[1, :]\<close> and \<open>data[0, :]\<close> of the loaded array (an \<open>IndexError\<close> when
  it has fewer than two rows), backgrounds of 4000 and 2000 counts of the same length,
  the stabilisation columns of 1024 zeros and ones, and a first coin.
\<close>

definition Mock_SingleShot_init :: "string \<Rightarrow> arr2 \<Rightarrow> bool \<Rightarrow> mock_singleshot result" where
  "Mock_SingleShot_init fn data coin =
     (if nrows data < 2 then Inl IndexError
      else (let on = rows data ! 1; off = rows data ! 0 in
        Inr \<lparr>filename = fn, pon = on, poff = off,
             bkg_on = replicate (length on) (Fin 4000),
             bkg_off = replicate (length off) (Fin 2000),
             stabpoff = replicate 1024 (Fin 0),
             stabpon = replicate 1024 (Fin 1),
             FirstShotIsPumpOn = coin\<rparr>))"

text \<open>
  \<open>grab_XUV(nframes, gas_off)\<close>: draw the phase, stack one off/on pair (the backgrounds
  when the gas is off), flip it when the first shot is pump-on, and tile it \<open>nframes\<close>
  times. The new phase is kept by the object even when \<open>np.tile\<close> raises.
\<close>

definition grab_XUV ::
  "mock_singleshot \<Rightarrow> int \<Rightarrow> bool \<Rightarrow> bool \<Rightarrow> (mock_singleshot, arr2) outcome" where
  "grab_XUV s nframes gas_off coin =
     (let s' = s\<lparr>FirstShotIsPumpOn := coin\<rparr>;
          r = rbind (if gas_off then vstack2 (bkg_off s') (bkg_on s') else vstack2 (poff s') (pon s'))
                (\<lambda>one. tile_rows nframes (if FirstShotIsPumpOn s' then flip0 one else one))
      in case r of Inl e \<Rightarrow> Inl (e, s') | Inr tot \<Rightarrow> Inr (tot, s'))"

text \<open>
  \<open>grab_stab(nframes)\<close>: \<open>np.tile(np.hstack((stabpon, stabpoff)), nframes).T\<close>, rolled
  by one row when the first shot is pump-off. It reads the phase and does not change it.
\<close>

definition grab_stab :: "mock_singleshot \<Rightarrow> int \<Rightarrow> arr2 result" where
  "grab_stab s nframes =
     rbind (hstack_cols (stabpon s) (stabpoff s)) (\<lambda>h.
     rbind (tile_cols nframes h) (\<lambda>t.
       (let stab_data = transpose0 t in
        Inr (if \<not> FirstShotIsPumpOn s then roll0 stab_data else stab_data))))"

definition sim_inv :: "mock_singleshot \<Rightarrow> bool" where
  "sim_inv s \<longleftrightarrow> length (pon s) = length (poff s) \<and> length (bkg_on s) = length (pon s)
     \<and> length (bkg_off s) = length (poff s)
     \<and> stabpon s = replicate 1024 (Fin 1) \<and> stabpoff s = replicate 1024 (Fin 0)"

section \<open>The constructor and the invariant\<close>

lemma Mock_SingleShot_init_inv:
  assumes "wf_arr data" "Mock_SingleShot_init fn data coin = Inr s"
  shows "sim_inv s"
proof -
  from assms(2) have "1 < nrows data" by (simp add: Mock_SingleShot_init_def split: if_splits)
  with assms(1) have "length (rows data ! 1) = length (rows data ! 0)"
    by (simp add: wf_arr_nth)
  with assms(2) show ?thesis
    by (auto simp: Mock_SingleShot_init_def sim_inv_def Let_def split: if_splits)
qed

section \<open>grab_XUV\<close>

lemma vstack2_same [simp]: "length a = length b \<Longrightarrow> vstack2 a b = Inr \<lparr>ncols = length a, rows = [a, b]\<rparr>"
  by (simp add: vstack2_def)

text \<open>
  Under the invariant and a non-negative count, \<open>grab_XUV\<close> returns \<open>nframes\<close> pairs of
  shots, pump-on first exactly when the new coin says so, and keeps the new coin.
\<close>

lemma grab_XUV_rows:
  fixes g c :: bool
  assumes "sim_inv s" "0 \<le> n"
  defines "on \<equiv> (if g then bkg_on s else pon s)" and "off \<equiv> (if g then bkg_off s else poff s)"
  shows "grab_XUV s n g c =
           Inr (\<lparr>ncols = length on, rows = concat (replicate (nat n) (if c then [on, off] else [off, on]))\<rparr>,
                s\<lparr>FirstShotIsPumpOn := c\<rparr>)"
  using assms by (auto simp: grab_XUV_def sim_inv_def tile_rows_def flip0_def)

lemma grab_XUV_negative:
  assumes "sim_inv s" "n < 0"
  shows "grab_XUV s n g c = Inl (NegativeDimension, s\<lparr>FirstShotIsPumpOn := c\<rparr>)"
  using assms by (auto simp: grab_XUV_def sim_inv_def tile_rows_def Let_def)

lemma grab_XUV_state: "grab_XUV s n g c = Inr (A, s') \<Longrightarrow> s' = s\<lparr>FirstShotIsPumpOn := c\<rparr>"
  by (auto simp: grab_XUV_def Let_def split: sum.splits)

lemma grab_XUV_inv: "sim_inv s \<Longrightarrow> grab_XUV s n g c = Inr (A, s') \<Longrightarrow> sim_inv s'"
  by (drule grab_XUV_state) (simp add: sim_inv_def)

section \<open>grab_stab\<close>

lemma grab_stab_rows:
  assumes "sim_inv s" "0 \<le> n"
  shows "grab_stab s n =
           Inr \<lparr>ncols = 1024, rows = concat (replicate (nat n)
                  (if FirstShotIsPumpOn s then [stabpon s, stabpoff s] else [stabpoff s, stabpon s]))\<rparr>"
proof -
  from assms(1) have len: "length (stabpon s) = 1024" "length (stabpoff s) = 1024"
    by (simp_all add: sim_inv_def)
  then obtain H where H: "hstack_cols (stabpon s) (stabpoff s) = Inr H"
    by (simp add: hstack_cols_def)
  with assms(2) obtain T where T: "tile_cols n H = Inr T"
    by (simp add: tile_cols_def)
  from H T have "transpose0 T = \<lparr>ncols = 1024, rows = concat (replicate (nat n) [stabpon s, stabpoff s])\<rparr>"
    using len by (simp add: tile_hstack_transpose)
  with H T show ?thesis
    by (simp add: grab_stab_def roll0_replicate_pair)
qed


section \<open>The two grabs agree on the phase\<close>

text \<open>
  C18. After \<open>grab_XUV\<close> with \<open>nframes \<ge> 1\<close> draws the coin \<open>c\<close>, its first shot is the
  pump-on spectrum exactly when \<open>c\<close> holds, and a \<open>grab_stab\<close> of \<open>m \<ge> 1\<close> pairs on the
  object it leaves starts with the pump-on column (ones) exactly when \<open>c\<close> holds: the
  camera burst and the stabilisation signal are in phase.
\<close>

theorem grab_XUV_stab_in_phase:
  fixes g c :: bool
  assumes "sim_inv s" "0 < n" "0 < m" "grab_XUV s n g c = Inr (A, s')"
  defines "on \<equiv> (if g then bkg_on s else pon s)" and "off \<equiv> (if g then bkg_off s else poff s)"
  shows "\<exists>S. grab_stab s' m = Inr S \<and> nrows S = 2 * nat m \<and> nrows A = 2 * nat n \<and>
           rows A ! 0 = (if c then on else off) \<and> rows A ! 1 = (if c then off else on) \<and>
           rows S ! 0 = (if c then replicate 1024 (Fin 1) else replicate 1024 (Fin 0)) \<and>
           rows S ! 1 = (if c then replicate 1024 (Fin 0) else replicate 1024 (Fin 1))"
proof -
  have A: "A = \<lparr>ncols = length on, rows = concat (replicate (nat n) (if c then [on, off] else [off, on]))\<rparr>"
    and s': "s' = s\<lparr>FirstShotIsPumpOn := c\<rparr>"
    using grab_XUV_rows [OF assms(1), of n g c] assms(2,4) by (simp_all add: on_def off_def)
  have inv': "sim_inv s'" using assms(1) s' by (simp add: sim_inv_def)
  have S: "grab_stab s' m = Inr \<lparr>ncols = 1024, rows = concat (replicate (nat m)
             (if c then [replicate 1024 (Fin 1), replicate 1024 (Fin 0)]
              else [replicate 1024 (Fin 0), replicate 1024 (Fin 1)]))\<rparr>"
    using grab_stab_rows [OF inv', of m] assms(1,3) s' by (simp add: sim_inv_def)
  have pos: "0 < nat n" "0 < nat m" using assms(2,3) by simp_all
  show ?thesis
    using S pos by (simp add: A nrows_def nth_concat_replicate_pair)
qed

theorem grab_XUV_stab_in_phase_witness:
  "\<exists>S. grab_stab (\<lparr>filename = ''ponoff_transient.npy'', pon = [Fin 4], poff = [Fin 2],
          bkg_on = [Fin 4000], bkg_off = [Fin 2000], stabpoff = replicate 1024 (Fin 0),
          stabpon = replicate 1024 (Fin 1), FirstShotIsPumpOn = True\<rparr>\<lparr>FirstShotIsPumpOn := False\<rparr>) 1 = Inr S
     \<and> nrows S = 2 * nat 1 \<and> nrows \<lparr>ncols = 1, rows = [[Fin 2], [Fin 4]]\<rparr> = 2 * nat 1 \<and>
     rows \<lparr>ncols = 1, rows = [[Fin 2], [Fin 4]]\<rparr> ! 0 = [Fin 2] \<and>
     rows \<lparr>ncols = 1, rows = [[Fin 2], [Fin 4]]\<rparr> ! 1 = [Fin 4] \<and>
     rows S ! 0 = replicate 1024 (Fin 0) \<and> rows S ! 1 = replicate 1024 (Fin 1)"
proof -
  let ?s = "\<lparr>filename = ''ponoff_transient.npy'', pon = [Fin 4], poff = [Fin 2],
          bkg_on = [Fin 4000], bkg_off = [Fin 2000], stabpoff = replicate 1024 (Fin 0),
          stabpon = replicate 1024 (Fin 1), FirstShotIsPumpOn = True\<rparr>"
  have inv: "sim_inv ?s" by (simp add: sim_inv_def)
  have "grab_XUV ?s 1 False False = Inr (\<lparr>ncols = 1, rows = [[Fin 2], [Fin 4]]\<rparr>, ?s\<lparr>FirstShotIsPumpOn := False\<rparr>)"
    using grab_XUV_rows [OF inv, of 1 False False] by simp
  from grab_XUV_stab_in_phase [OF inv _ _ this, of 1] show ?thesis by simp
qed

end
