(* ===== verification/DeltaR.thy ===== *)
theory DeltaR
  imports NdArray
begin

text \<open>
  The data-mixer model \<open>DataMixerModelDeltaR\<close> of \<open>src/.../models/dR_model.py\<close>: the
  differential signal \<open>(on - off)/off\<close> of a camera burst whose shots alternate pump-on
  and pump-off, the phase of the burst decided from a second (on/off) signal, with an
  optional background captured from an earlier burst. Its state is the held background,
  the \<open>doing_bkg\<close> flag of the capture state machine, the settings it reads and writes
  and the number of acquisitions it has asked the host for (\<open>data_mixer.snap()\<close>).
  The host's exported data is an association list from full names to arrays. The
  arithmetic on the host's \<open>DataWithAxes\<close> objects (\<open>pon - poff\<close>, \<open>/ poff\<close>,
  \<open>.mean(axis=0)\<close>) is modelled as numpy's elementwise arithmetic with broadcasting on
  their single channel, as the background subtraction of lines 89--90 is; shape checks
  the host library may add on top of numpy are not modelled.
\<close>

record drmodel =
  bkg_poff :: "fl list option"
  bkg_pon :: "fl list option"
  doing_bkg :: bool
  set_camera :: "string option"
  set_on_off_signal :: "string option"
  camera_limits :: "string list"
  on_off_limits :: "string list"
  set_do_bkg :: bool
  snaps :: nat

text \<open>
  The model as the host builds it from \<open>params\<close>, before \<open>ini_model\<close>: both push
  buttons off, the two list settings with no choices and no value.
\<close>

definition dr_params :: drmodel where
  "dr_params = \<lparr>bkg_poff = None, bkg_pon = None, doing_bkg = False, set_camera = None,
     set_on_off_signal = None, camera_limits = [], on_off_limits = [], set_do_bkg = False,
     snaps = 0\<rparr>"

section \<open>Settings\<close>

text \<open>
  \<open>update_data_list\<close>: the 2D names become the camera's choices and the first one its
  value, then the 1D names the on/off signal's. \<open>data_list[0]\<close> of an empty list raises
  \<open>IndexError\<close> after the assignments before it.
\<close>

definition update_data_list :: "string list \<Rightarrow> string list \<Rightarrow> drmodel \<Rightarrow> (drmodel, unit) outcome" where
  "update_data_list list1D list2D s =
     (let s1 = s\<lparr>camera_limits := list2D\<rparr> in
      if list2D = [] then Inl (IndexError, s1) else
      let s2 = s1\<lparr>set_camera := Some (hd list2D), on_off_limits := list1D\<rparr> in
      if list1D = [] then Inl (IndexError, s2) else
      Inr ((), s2\<lparr>set_on_off_signal := Some (hd list1D)\<rparr>))"

definition ini_model :: "string list \<Rightarrow> string list \<Rightarrow> drmodel \<Rightarrow> (drmodel, unit) outcome" where
  "ini_model list1D list2D s =
     (case update_data_list list1D list2D s of
        Inl (e, s1) \<Rightarrow> Inl (e, s1)
      | Inr (_, s1) \<Rightarrow> Inr ((), s1\<lparr>bkg_poff := None, bkg_pon := None, doing_bkg := False\<rparr>))"

text \<open>\<open>do_bkg\<close>: arm the capture and ask the host for one more acquisition.\<close>

definition do_bkg :: "drmodel \<Rightarrow> drmodel" where
  "do_bkg s = s\<lparr>doing_bkg := True, snaps := Suc (snaps s)\<rparr>"

definition update_settings ::
  "string \<Rightarrow> string list \<Rightarrow> string list \<Rightarrow> drmodel \<Rightarrow> (drmodel, unit) outcome" where
  "update_settings pname list1D list2D s =
     (let s1 = (if pname = ''do_bkg'' then do_bkg s else s) in
      if pname = ''get_data'' then update_data_list list1D list2D s1 else Inr ((), s1))"

text \<open>
  \<open>settings.child("do_bkg").setValue(False)\<close>. The host's parameter tree reports a
  change of value to \<open>update_settings\<close>; whether it does so for a change made by the
  model itself is the host's choice, the flag \<open>echo\<close>. When it does, the reset of a
  pressed button runs \<open>update_settings\<close> on \<open>do_bkg\<close>, that is \<open>do_bkg()\<close>.
\<close>

definition reset_do_bkg :: "bool \<Rightarrow> drmodel \<Rightarrow> drmodel" where
  "reset_do_bkg echo s =
     (let s1 = s\<lparr>set_do_bkg := False\<rparr> in if echo \<and> set_do_bkg s then do_bkg s1 else s1)"

section \<open>Processing one acquisition\<close>

definition dte_get :: "(string \<times> nd) list \<Rightarrow> string option \<Rightarrow> nd result" where
  "dte_get dte name =
     (case name of None \<Rightarrow> Inl KeyError
      | Some n \<Rightarrow> (case map_of dte n of None \<Rightarrow> Inl KeyError | Some d \<Rightarrow> Inr d))"

text \<open>
  \<open>first_is_on = dwa_onoff.isig[::2].mean() > dwa_onoff.isig[1::2].mean()\<close>: the mean
  of the even-indexed shots against the odd-indexed ones (all values of the selected
  rows for a 2D signal). A \<open>nan\<close> mean makes it false.
\<close>

fun first_is_on :: "nd \<Rightarrow> bool" where
  "first_is_on (D1 v) = (fmean (py_odds v) < fmean (py_evens v))"
| "first_is_on (D2 A) = (mean_all (odd_rows A) < mean_all (even_rows A))"

text \<open>\<open>dwa.isig[1::2, :]\<close> needs two axes: on a 1D array it raises \<open>IndexError\<close>.\<close>

fun cam_frames :: "nd \<Rightarrow> arr2 result" where
  "cam_frames (D2 A) = Inr A"
| "cam_frames (D1 _) = Inl IndexError"

text \<open>The pump-on and pump-off shots of a burst, by the phase.\<close>

definition split_onoff :: "bool \<Rightarrow> arr2 \<Rightarrow> arr2 \<times> arr2" where
  "split_onoff fio A = (if fio then (even_rows A, odd_rows A) else (odd_rows A, even_rows A))"

text \<open>
  The capture branch: the column means of the on and off shots become the background,
  replacing any earlier one; then the button is reset and the capture disarmed.
\<close>

definition capture_bkg :: "bool \<Rightarrow> bool \<Rightarrow> arr2 \<Rightarrow> drmodel \<Rightarrow> drmodel" where
  "capture_bkg echo fio A s =
     (let (on, off) = split_onoff fio A;
          s1 = s\<lparr>bkg_poff := Some (mean0 off), bkg_pon := Some (mean0 on)\<rparr>;
          s2 = reset_do_bkg echo s1
      in s2\<lparr>doing_bkg := False\<rparr>)"

text \<open>
  The ratio branch: subtract the background, if both halves are held, from every off and
  every on shot (in that order), then \<open>(pon - poff)/poff\<close> elementwise with numpy's
  broadcasting, and its mean over the shots.
\<close>

definition ratio_frames :: "bool \<Rightarrow> arr2 \<Rightarrow> drmodel \<Rightarrow> arr2 result" where
  "ratio_frames fio A s =
     (let (on, off) = split_onoff fio A in
      rbind (case (bkg_poff s, bkg_pon s) of
               (Some boff, Some bon) \<Rightarrow>
                 rbind (bcast (-) off (row_vec boff)) (\<lambda>off'.
                 rbind (bcast (-) on (row_vec bon)) (\<lambda>on'. Inr (on', off')))
             | _ \<Rightarrow> Inr (on, off))
      (\<lambda>(on', off'). np_ratio on' off'))"

definition process_dte ::
  "bool \<Rightarrow> (string \<times> nd) list \<Rightarrow> drmodel \<Rightarrow> (drmodel, (string \<times> fl list) list) outcome" where
  "process_dte echo dte s =
     (if set_camera s = Some '''' then Inr ([], s) else
      case dte_get dte (set_camera s) of Inl e \<Rightarrow> Inl (e, s) | Inr dwa \<Rightarrow>
      case dte_get dte (set_on_off_signal s) of Inl e \<Rightarrow> Inl (e, s) | Inr dwa_onoff \<Rightarrow>
      (let fio = first_is_on dwa_onoff in
       case cam_frames dwa of Inl e \<Rightarrow> Inl (e, s) | Inr A \<Rightarrow>
       if doing_bkg s then Inr ([], capture_bkg echo fio A s)
       else (case ratio_frames fio A s of
               Inl e \<Rightarrow> Inl (e, s)
             | Inr r \<Rightarrow> Inr ([(''dR over R'', mean0 r)], s))))"

section \<open>The model as a state machine\<close>

text \<open>
  What the host does to the model: a button pressed in its settings (the button's value
  set, then \<open>update_settings\<close> called with the names of the detector data the host
  holds at that moment), or an acquisition processed (\<open>process_dte\<close>). An exception
  raised by either is logged by the host; the state the model reached stays.
\<close>

datatype dr_event = Press string "string list" "string list" | Acquire bool "(string \<times> nd) list"

fun dr_event_step :: "drmodel \<Rightarrow> dr_event \<Rightarrow> drmodel" where
  "dr_event_step s (Press p list1D list2D) =
     outcome_state (update_settings p list1D list2D (if p = ''do_bkg'' then s\<lparr>set_do_bkg := True\<rparr> else s))"
| "dr_event_step s (Acquire echo dte) = outcome_state (process_dte echo dte s)"

inductive dr_reach :: "drmodel \<Rightarrow> bool" where
  start: "ini_model list1D list2D dr_params = Inr ((), s) \<Longrightarrow> dr_reach s"
| step: "dr_reach s \<Longrightarrow> dr_reach (dr_event_step s ev)"

text \<open>Both halves of the background are held or neither, and they have the same width.\<close>

definition dr_inv :: "drmodel \<Rightarrow> bool" where
  "dr_inv s \<longleftrightarrow> (case (bkg_pon s, bkg_poff s) of
                   (None, None) \<Rightarrow> True
                 | (Some on, Some off) \<Rightarrow> length on = length off
                 | _ \<Rightarrow> False)"

section \<open>The ratio branch\<close>

lemma split_onoff_shape:
  assumes "split_onoff fio A = (on, off)"
  shows "ncols on = ncols A" "ncols off = ncols A"
    and "wf_arr A \<Longrightarrow> wf_arr on" "wf_arr A \<Longrightarrow> wf_arr off"
    and "even (nrows A) \<Longrightarrow> nrows on = nrows A div 2" "even (nrows A) \<Longrightarrow> nrows off = nrows A div 2"
  using assms by (auto simp: split_onoff_def split: if_splits)

text \<open>Without a background, each channel of the ratio is \<open>(on - off)/off\<close> shot by shot.\<close>

lemma ratio_frames_nobkg:
  assumes "wf_arr A" "even (nrows A)" "bkg_pon s = None" "split_onoff fio A = (on, off)"
  obtains R where "ratio_frames fio A s = Inr R" "ncols R = ncols A"
    "\<And>j. j < ncols A \<Longrightarrow> col R j = map2 (\<lambda>a b. (a - b) / b) (col on j) (col off j)"
proof -
  note sh = split_onoff_shape [OF assms(4)]
  have pre: "wf_arr on" "wf_arr off" "nrows on = nrows off" "ncols on = ncols off"
    using sh assms(1,2) by simp_all
  obtain R where R: "np_ratio on off = Inr R" "ncols R = ncols on"
      "\<And>j. j < ncols on \<Longrightarrow> col R j = map2 (\<lambda>a b. (a - b) / b) (col on j) (col off j)"
    using np_ratio_same_shape [OF pre] by blast
  have "ratio_frames fio A s = Inr R"
    using assms(3,4) R(1) by (simp add: ratio_frames_def split: option.splits)
  then show ?thesis
    using R sh(1) by (intro that [of R]) auto
qed

text \<open>With a background, it is subtracted from every shot before the ratio is taken.\<close>

lemma ratio_frames_bkg:
  assumes "wf_arr A" "even (nrows A)" "bkg_poff s = Some boff" "bkg_pon s = Some bon"
    "length boff = ncols A" "length bon = ncols A" "split_onoff fio A = (on, off)"
  obtains R where "ratio_frames fio A s = Inr R" "ncols R = ncols A"
    "\<And>j. j < ncols A \<Longrightarrow>
       col R j = map2 (\<lambda>a b. ((a - bon ! j) - (b - boff ! j)) / (b - boff ! j)) (col on j) (col off j)"
proof -
  note sh = split_onoff_shape [OF assms(7)]
  obtain F where F: "bcast (-) off (row_vec boff) = Inr F" "wf_arr F" "nrows F = nrows off"
      "ncols F = ncols off" "\<And>j. j < ncols off \<Longrightarrow> col F j = map (\<lambda>x. x - boff ! j) (col off j)"
    using bcast_row_vec_cols [OF sh(4) [OF assms(1)], of boff] sh(2) assms(5) by auto
  obtain N where N: "bcast (-) on (row_vec bon) = Inr N" "wf_arr N" "nrows N = nrows on"
      "ncols N = ncols on" "\<And>j. j < ncols on \<Longrightarrow> col N j = map (\<lambda>x. x - bon ! j) (col on j)"
    using bcast_row_vec_cols [OF sh(3) [OF assms(1)], of bon] sh(1) assms(6) by auto
  obtain R where R: "np_ratio N F = Inr R" "ncols R = ncols N"
      "\<And>j. j < ncols N \<Longrightarrow> col R j = map2 (\<lambda>a b. (a - b) / b) (col N j) (col F j)"
  proof (rule np_ratio_same_shape [of N F])
    show "wf_arr N" "wf_arr F" by (fact N(2), fact F(2))
    show "nrows N = nrows F" "ncols N = ncols F" using N(3,4) F(3,4) sh assms(2) by simp_all
  qed blast
  have "ratio_frames fio A s = Inr R"
    using assms(3,4,7) F(1) N(1) R(1) by (simp add: ratio_frames_def)
  moreover have "col R j = map2 (\<lambda>a b. ((a - bon ! j) - (b - boff ! j)) / (b - boff ! j))
                   (col on j) (col off j)" if j: "j < ncols A" for j
    using j R(3) N(4,5) F(5) sh by (simp only: map2_map_both)
  ultimately show ?thesis
    using R(2) N(4) sh(1) by (intro that [of R]) auto
qed

section \<open>process_dte on valid data\<close>

text \<open>Once both names resolve and the camera data is 2D, the flag chooses the branch.\<close>

lemma process_dte_valid:
  assumes "set_camera s \<noteq> Some ''''" "dte_get dte (set_camera s) = Inr (D2 A)"
    "dte_get dte (set_on_off_signal s) = Inr sig"
  shows "process_dte echo dte s =
           (if doing_bkg s then Inr ([], capture_bkg echo (first_is_on sig) A s)
            else case ratio_frames (first_is_on sig) A s of
                   Inl e \<Rightarrow> Inl (e, s)
                 | Inr r \<Rightarrow> Inr ([(''dR over R'', mean0 r)], s))"
  using assms by (simp add: process_dte_def)

lemma capture_bkg_eq:
  "split_onoff fio A = (on, off) \<Longrightarrow>
   capture_bkg echo fio A s =
     s\<lparr>bkg_poff := Some (mean0 off), bkg_pon := Some (mean0 on), doing_bkg := False,
       set_do_bkg := False, snaps := (if echo \<and> set_do_bkg s then Suc (snaps s) else snaps s)\<rparr>"
  by (simp add: capture_bkg_def reset_do_bkg_def do_bkg_def Let_def)


section \<open>The differential ratio\<close>

text \<open>
  C1. On an even burst with no background held, \<open>process_dte\<close> returns one vector
  "dR over R" whose channel \<open>j\<close> is the mean over the shot pairs of
  \<open>(on - off)/off\<close> in that channel, the on and off shots chosen by the phase of the
  on/off signal, and leaves the model unchanged.
\<close>

theorem process_dte_ratio:
  assumes "\<not> doing_bkg s" "set_camera s \<noteq> Some ''''"
    "dte_get dte (set_camera s) = Inr (D2 A)" "dte_get dte (set_on_off_signal s) = Inr sig"
    "wf_arr A" "even (nrows A)" "bkg_pon s = None"
    "split_onoff (first_is_on sig) A = (on, off)"
  shows "process_dte echo dte s =
           Inr ([(''dR over R'',
                  map (\<lambda>j. fmean (map2 (\<lambda>a b. (a - b) / b) (col on j) (col off j))) [0..<ncols A])], s)"
proof -
  obtain R where "ratio_frames (first_is_on sig) A s = Inr R" "ncols R = ncols A"
    "\<And>j. j < ncols A \<Longrightarrow> col R j = map2 (\<lambda>a b. (a - b) / b) (col on j) (col off j)"
    using ratio_frames_nobkg [OF assms(5-8)] by blast
  then show ?thesis
    using assms(1-4) by (simp add: process_dte_valid mean0_cols)
qed

text \<open>The example of the specification: shots \<open>[10,10],[2,2],[10,10],[2,2]\<close> give \<open>[4, 4]\<close>.\<close>

theorem process_dte_ratio_witness:
  "process_dte False
     [(''cam'', D2 \<lparr>ncols = 2, rows = [[Fin 10, Fin 10], [Fin 2, Fin 2], [Fin 10, Fin 10], [Fin 2, Fin 2]]\<rparr>),
      (''sig'', D1 [Fin 1, Fin 0, Fin 1, Fin 0])]
     (dr_params\<lparr>set_camera := Some ''cam'', set_on_off_signal := Some ''sig''\<rparr>)
   = Inr ([(''dR over R'', [Fin 4, Fin 4])],
          dr_params\<lparr>set_camera := Some ''cam'', set_on_off_signal := Some ''sig''\<rparr>)"
proof -
  let ?s = "dr_params\<lparr>set_camera := Some ''cam'', set_on_off_signal := Some ''sig''\<rparr>"
  let ?A = "\<lparr>ncols = 2, rows = [[Fin 10, Fin 10], [Fin 2, Fin 2], [Fin 10, Fin 10], [Fin 2, Fin 2]]\<rparr>"
  let ?sig = "D1 [Fin 1, Fin 0, Fin 1, Fin 0]"
  let ?dte = "[(''cam'', D2 ?A), (''sig'', ?sig)]"
  let ?on = "\<lparr>ncols = 2, rows = [[Fin 10, Fin 10], [Fin 10, Fin 10]]\<rparr>"
  let ?off = "\<lparr>ncols = 2, rows = [[Fin 2, Fin 2], [Fin 2, Fin 2]]\<rparr>"
  have "process_dte False ?dte ?s =
          Inr ([(''dR over R'', map (\<lambda>j. fmean (map2 (\<lambda>a b. (a - b) / b) (col ?on j) (col ?off j)))
                                  [0..<ncols ?A])], ?s)"
    by (rule process_dte_ratio [where sig = ?sig])
       (simp_all add: dr_params_def dte_get_def wf_arr_def nrows_def split_onoff_def
                      even_rows_def odd_rows_def fmean_def)
  also have "\<dots> = Inr ([(''dR over R'', [Fin 4, Fin 4])], ?s)"
    by (simp add: col_def fmean_def upt_rec)
  finally show ?thesis .
qed


text \<open>
  C2. With a background held (both halves, of the burst's width), every on shot has
  \<open>bkg_pon\<close> and every off shot \<open>bkg_poff\<close> subtracted before the ratio is taken:
  channel \<open>j\<close> is the mean of \<open>((on - bon_j) - (off - boff_j)) / (off - boff_j)\<close>.
\<close>

theorem process_dte_ratio_bkg:
  assumes "\<not> doing_bkg s" "set_camera s \<noteq> Some ''''"
    "dte_get dte (set_camera s) = Inr (D2 A)" "dte_get dte (set_on_off_signal s) = Inr sig"
    "wf_arr A" "even (nrows A)" "bkg_poff s = Some boff" "bkg_pon s = Some bon"
    "length boff = ncols A" "length bon = ncols A"
    "split_onoff (first_is_on sig) A = (on, off)"
  shows "process_dte echo dte s =
           Inr ([(''dR over R'',
                  map (\<lambda>j. fmean (map2 (\<lambda>a b. ((a - bon ! j) - (b - boff ! j)) / (b - boff ! j))
                                       (col on j) (col off j))) [0..<ncols A])], s)"
proof -
  obtain R where "ratio_frames (first_is_on sig) A s = Inr R" "ncols R = ncols A"
    "\<And>j. j < ncols A \<Longrightarrow>
       col R j = map2 (\<lambda>a b. ((a - bon ! j) - (b - boff ! j)) / (b - boff ! j)) (col on j) (col off j)"
    using ratio_frames_bkg [OF assms(5-11)] by blast
  then show ?thesis
    using assms(1-4) by (simp add: process_dte_valid mean0_cols)
qed

theorem process_dte_ratio_bkg_witness:
  "process_dte False
     [(''cam'', D2 \<lparr>ncols = 2, rows = [[Fin 10, Fin 10], [Fin 2, Fin 2], [Fin 10, Fin 10], [Fin 2, Fin 2]]\<rparr>),
      (''sig'', D1 [Fin 1, Fin 0, Fin 1, Fin 0])]
     (dr_params\<lparr>set_camera := Some ''cam'', set_on_off_signal := Some ''sig'',
                bkg_poff := Some [Fin 1, Fin 1], bkg_pon := Some [Fin 4, Fin 4]\<rparr>)
   = Inr ([(''dR over R'', [Fin 5, Fin 5])],
          dr_params\<lparr>set_camera := Some ''cam'', set_on_off_signal := Some ''sig'',
                     bkg_poff := Some [Fin 1, Fin 1], bkg_pon := Some [Fin 4, Fin 4]\<rparr>)"
proof -
  let ?s = "dr_params\<lparr>set_camera := Some ''cam'', set_on_off_signal := Some ''sig'',
                      bkg_poff := Some [Fin 1, Fin 1], bkg_pon := Some [Fin 4, Fin 4]\<rparr>"
  let ?A = "\<lparr>ncols = 2, rows = [[Fin 10, Fin 10], [Fin 2, Fin 2], [Fin 10, Fin 10], [Fin 2, Fin 2]]\<rparr>"
  let ?sig = "D1 [Fin 1, Fin 0, Fin 1, Fin 0]"
  let ?on = "\<lparr>ncols = 2, rows = [[Fin 10, Fin 10], [Fin 10, Fin 10]]\<rparr>"
  let ?off = "\<lparr>ncols = 2, rows = [[Fin 2, Fin 2], [Fin 2, Fin 2]]\<rparr>"
  have "process_dte False [(''cam'', D2 ?A), (''sig'', ?sig)] ?s =
          Inr ([(''dR over R'', map (\<lambda>j. fmean (map2 (\<lambda>a b. ((a - [Fin 4, Fin 4] ! j) - (b - [Fin 1, Fin 1] ! j))
                                   / (b - [Fin 1, Fin 1] ! j)) (col ?on j) (col ?off j))) [0..<ncols ?A])], ?s)"
    by (rule process_dte_ratio_bkg [where sig = ?sig])
       (simp_all add: dr_params_def dte_get_def wf_arr_def nrows_def split_onoff_def
                      even_rows_def odd_rows_def fmean_def)
  also have "\<dots> = Inr ([(''dR over R'', [Fin 5, Fin 5])], ?s)"
    by (simp add: col_def fmean_def upt_rec)
  finally show ?thesis .
qed

section \<open>Background capture\<close>

text \<open>
  C3. When a capture is armed, the next burst with valid data is consumed: no output,
  the background becomes the column means of its on and off shots (whatever was held
  before), the button is reset and the capture is disarmed, also when the host reports
  the reset back to \<open>update_settings\<close> (which re-arms it and asks for one more
  acquisition before line 78 disarms it).
\<close>

theorem process_dte_capture:
  assumes "doing_bkg s" "set_camera s \<noteq> Some ''''"
    "dte_get dte (set_camera s) = Inr (D2 A)" "dte_get dte (set_on_off_signal s) = Inr sig"
    "split_onoff (first_is_on sig) A = (on, off)"
  shows "process_dte echo dte s =
           Inr ([], s\<lparr>bkg_poff := Some (mean0 off), bkg_pon := Some (mean0 on), doing_bkg := False,
                     set_do_bkg := False,
                     snaps := (if echo \<and> set_do_bkg s then Suc (snaps s) else snaps s)\<rparr>)"
  using assms by (simp add: process_dte_valid capture_bkg_eq)

theorem process_dte_capture_witness:
  "process_dte True
     [(''cam'', D2 \<lparr>ncols = 2, rows = [[Fin 10, Fin 10], [Fin 2, Fin 2], [Fin 10, Fin 10], [Fin 2, Fin 2]]\<rparr>),
      (''sig'', D1 [Fin 1, Fin 0, Fin 1, Fin 0])]
     (dr_params\<lparr>set_camera := Some ''cam'', set_on_off_signal := Some ''sig'',
                doing_bkg := True, set_do_bkg := True, snaps := 1\<rparr>)
   = Inr ([], dr_params\<lparr>set_camera := Some ''cam'', set_on_off_signal := Some ''sig'',
                        bkg_poff := Some [Fin 2, Fin 2], bkg_pon := Some [Fin 10, Fin 10], snaps := 2\<rparr>)"
proof -
  let ?s = "dr_params\<lparr>set_camera := Some ''cam'', set_on_off_signal := Some ''sig'',
                      doing_bkg := True, set_do_bkg := True, snaps := 1\<rparr>"
  let ?A = "\<lparr>ncols = 2, rows = [[Fin 10, Fin 10], [Fin 2, Fin 2], [Fin 10, Fin 10], [Fin 2, Fin 2]]\<rparr>"
  let ?sig = "D1 [Fin 1, Fin 0, Fin 1, Fin 0]"
  let ?on = "\<lparr>ncols = 2, rows = [[Fin 10, Fin 10], [Fin 10, Fin 10]]\<rparr>"
  let ?off = "\<lparr>ncols = 2, rows = [[Fin 2, Fin 2], [Fin 2, Fin 2]]\<rparr>"
  have "process_dte True [(''cam'', D2 ?A), (''sig'', ?sig)] ?s =
          Inr ([], ?s\<lparr>bkg_poff := Some (mean0 ?off), bkg_pon := Some (mean0 ?on), doing_bkg := False,
                      set_do_bkg := False,
                      snaps := (if True \<and> set_do_bkg ?s then Suc (snaps ?s) else snaps ?s)\<rparr>)"
    by (rule process_dte_capture [where sig = ?sig and A = ?A])
       (simp_all add: dr_params_def dte_get_def split_onoff_def even_rows_def odd_rows_def fmean_def)
  also have "\<dots> = Inr ([], dr_params\<lparr>set_camera := Some ''cam'', set_on_off_signal := Some ''sig'',
                        bkg_poff := Some [Fin 2, Fin 2], bkg_pon := Some [Fin 10, Fin 10], snaps := 2\<rparr>)"
    by (simp add: dr_params_def mean0_def col_def fmean_def upt_rec)
  finally show ?thesis .
qed

text \<open>
  C4. Outside a capture, processing an acquisition never changes the model: the held
  background in particular is only ever written by a capture (errors included).
\<close>

theorem process_dte_idle_keeps_state:
  "\<not> doing_bkg s \<Longrightarrow> outcome_state (process_dte echo dte s) = s"
  by (auto simp: process_dte_def Let_def split: sum.splits)

theorem process_dte_idle_keeps_state_witness:
  "\<not> doing_bkg (dr_params\<lparr>bkg_pon := Some [Fin 1], bkg_poff := Some [Fin 1]\<rparr>) \<and>
   outcome_state (process_dte False [] (dr_params\<lparr>bkg_pon := Some [Fin 1], bkg_poff := Some [Fin 1]\<rparr>))
     = dr_params\<lparr>bkg_pon := Some [Fin 1], bkg_poff := Some [Fin 1]\<rparr>"
  using process_dte_idle_keeps_state [of "dr_params\<lparr>bkg_pon := Some [Fin 1], bkg_poff := Some [Fin 1]\<rparr>" False "[]"]
  by (simp add: dr_params_def)


section \<open>Bursts of identical pairs\<close>

text \<open>A burst of \<open>k\<close> identical pairs splits into \<open>k\<close> copies of each shot.\<close>

lemma split_onoff_pairs:
  assumes "A = \<lparr>ncols = m, rows = concat (replicate k [u, v])\<rparr>"
  shows "split_onoff fio A =
           (if fio then (\<lparr>ncols = m, rows = replicate k u\<rparr>, \<lparr>ncols = m, rows = replicate k v\<rparr>)
            else (\<lparr>ncols = m, rows = replicate k v\<rparr>, \<lparr>ncols = m, rows = replicate k u\<rparr>))"
  using assms by (simp add: split_onoff_def even_rows_def odd_rows_def slice_simps)

lemma ratio_frames_pair_burst:
  assumes "bkg_pon s = None" "length u = m" "length v = m" "0 < k"
  obtains R where "ratio_frames fio \<lparr>ncols = m, rows = concat (replicate k [u, v])\<rparr> s = Inr R"
    "mean0 R = (if fio then map2 (\<lambda>x y. (x - y) / y) u v else map2 (\<lambda>x y. (x - y) / y) v u)"
proof -
  let ?U = "\<lparr>ncols = m, rows = replicate k u\<rparr>" and ?V = "\<lparr>ncols = m, rows = replicate k v\<rparr>"
  have rf: "ratio_frames fio \<lparr>ncols = m, rows = concat (replicate k [u, v])\<rparr> s
              = (if fio then np_ratio ?U ?V else np_ratio ?V ?U)"
    using assms(1) by (cases "bkg_poff s") (simp_all add: ratio_frames_def split_onoff_pairs)
  obtain R1 where "np_ratio ?U ?V = Inr R1" "mean0 R1 = map2 (\<lambda>x y. (x - y) / y) u v"
    using np_ratio_replicate [OF assms(2-4)] by blast
  moreover obtain R2 where "np_ratio ?V ?U = Inr R2" "mean0 R2 = map2 (\<lambda>x y. (x - y) / y) v u"
    using np_ratio_replicate [OF assms(3,2,4)] by blast
  ultimately show ?thesis
    using that rf by (cases fio) simp_all
qed

text \<open>
  C5. On a burst of \<open>k > 0\<close> identical on/off pairs \<open>(u, v)\<close> with the phase read
  right and no background, the output is \<open>(u - v)/v\<close> channel by channel: each channel is
  computed on its own, and an off value of 0 gives \<open>inf\<close> (or \<open>nan\<close> for \<open>0/0\<close>) in that
  channel without any error or flag.
\<close>

theorem process_dte_pair_burst:
  assumes "\<not> doing_bkg s" "set_camera s \<noteq> Some ''''"
    "dte_get dte (set_camera s) = Inr (D2 A)" "dte_get dte (set_on_off_signal s) = Inr sig"
    "first_is_on sig" "bkg_pon s = None"
    "A = \<lparr>ncols = m, rows = concat (replicate k [u, v])\<rparr>" "length u = m" "length v = m" "0 < k"
  shows "process_dte echo dte s = Inr ([(''dR over R'', map2 (\<lambda>x y. (x - y) / y) u v)], s)"
proof -
  obtain R where "ratio_frames (first_is_on sig) A s = Inr R"
      "mean0 R = (if first_is_on sig then map2 (\<lambda>x y. (x - y) / y) u v else map2 (\<lambda>x y. (x - y) / y) v u)"
    using ratio_frames_pair_burst [OF assms(6,8-10)] assms(7) by blast
  then show ?thesis
    using assms(1-5) by (simp add: process_dte_valid)
qed

text \<open>Shots \<open>[1, 10]\<close> and \<open>[0, 2]\<close>: the first channel divides by zero, the second is 4.\<close>

theorem process_dte_pair_burst_witness:
  "process_dte False
     [(''cam'', D2 \<lparr>ncols = 2, rows = [[Fin 1, Fin 10], [Fin 0, Fin 2]]\<rparr>), (''sig'', D1 [Fin 1, Fin 0])]
     (dr_params\<lparr>set_camera := Some ''cam'', set_on_off_signal := Some ''sig''\<rparr>)
   = Inr ([(''dR over R'', [PInf, Fin 4])],
          dr_params\<lparr>set_camera := Some ''cam'', set_on_off_signal := Some ''sig''\<rparr>)"
proof -
  let ?s = "dr_params\<lparr>set_camera := Some ''cam'', set_on_off_signal := Some ''sig''\<rparr>"
  let ?A = "\<lparr>ncols = 2, rows = concat (replicate 1 [[Fin 1, Fin 10], [Fin 0, Fin 2]])\<rparr>"
  have "process_dte False [(''cam'', D2 ?A), (''sig'', D1 [Fin 1, Fin 0])] ?s =
          Inr ([(''dR over R'', map2 (\<lambda>x y. (x - y) / y) [Fin 1, Fin 10] [Fin 0, Fin 2])], ?s)"
    by (rule process_dte_pair_burst [where sig = "D1 [Fin 1, Fin 0]" and A = ?A and k = 1 and m = 2])
       (simp_all add: dr_params_def dte_get_def fmean_def)
  then show ?thesis by simp
qed

text \<open>
  C6. Capturing a background from a burst of identical pairs and then processing the same
  burst again gives \<open>nan\<close> in every channel: the corrected off shots are exactly 0, so
  every ratio is \<open>0/0\<close> (the specification expects a ratio close to 0).
\<close>

theorem capture_then_same_burst_nan:
  assumes "doing_bkg s" "set_camera s \<noteq> Some ''''"
    "dte_get dte (set_camera s) = Inr (D2 A)" "dte_get dte (set_on_off_signal s) = Inr sig"
    "A = \<lparr>ncols = m, rows = concat (replicate k [u, v])\<rparr>" "length u = m" "length v = m" "0 < k"
    "process_dte echo dte s = Inr (out, s1)"
  shows "process_dte echo' dte s1 = Inr ([(''dR over R'', replicate m NaN)], s1)"
proof -
  obtain x y where sp: "split_onoff (first_is_on sig) A =
      (\<lparr>ncols = m, rows = replicate k x\<rparr>, \<lparr>ncols = m, rows = replicate k y\<rparr>)"
    and xy: "length x = m" "length y = m"
  proof (cases "first_is_on sig")
    case True
    then show ?thesis using that [of u v] assms(5-7) by (simp add: split_onoff_pairs)
  next
    case False
    then show ?thesis using that [of v u] assms(5-7) by (simp add: split_onoff_pairs)
  qed
  have s1: "s1 = s\<lparr>bkg_poff := Some y, bkg_pon := Some x, doing_bkg := False, set_do_bkg := False,
                   snaps := (if echo \<and> set_do_bkg s then Suc (snaps s) else snaps s)\<rparr>"
    using assms(1-4,8,9) sp xy by (simp add: process_dte_valid capture_bkg_eq mean0_replicate)
  have wf: "wf_arr A" and ev: "even (nrows A)"
    using assms(5-7) by (simp_all add: wf_arr_replicate_pair nrows_def)
  obtain R where R: "ratio_frames (first_is_on sig) A s1 = Inr R" "ncols R = ncols A"
    "\<And>j. j < ncols A \<Longrightarrow> col R j = map2 (\<lambda>a b. ((a - x ! j) - (b - y ! j)) / (b - y ! j))
                                         (col \<lparr>ncols = m, rows = replicate k x\<rparr> j)
                                         (col \<lparr>ncols = m, rows = replicate k y\<rparr> j)"
    using ratio_frames_bkg [OF wf ev _ _ _ _ sp, of s1 y x] s1 xy assms(5) by auto
  have "mean0 R = map (\<lambda>j. fmean (replicate k NaN)) [0..<m]"
    using R(2,3) assms(5) xy by (intro mean0_cols) simp_all
  then have "mean0 R = replicate m NaN"
    using assms(8) by (simp add: map_replicate_const)
  then show ?thesis
    using assms(2-4) R(1) s1 by (simp add: process_dte_valid)
qed

theorem capture_then_same_burst_nan_witness:
  "process_dte False
     [(''cam'', D2 \<lparr>ncols = 2, rows = [[Fin 10, Fin 10], [Fin 2, Fin 2]]\<rparr>), (''sig'', D1 [Fin 1, Fin 0])]
     (dr_params\<lparr>set_camera := Some ''cam'', set_on_off_signal := Some ''sig'',
                bkg_poff := Some [Fin 2, Fin 2], bkg_pon := Some [Fin 10, Fin 10]\<rparr>)
   = Inr ([(''dR over R'', [NaN, NaN])],
          dr_params\<lparr>set_camera := Some ''cam'', set_on_off_signal := Some ''sig'',
                     bkg_poff := Some [Fin 2, Fin 2], bkg_pon := Some [Fin 10, Fin 10]\<rparr>)"
proof -
  let ?s = "dr_params\<lparr>set_camera := Some ''cam'', set_on_off_signal := Some ''sig'', doing_bkg := True\<rparr>"
  let ?A = "\<lparr>ncols = 2, rows = concat (replicate 1 [[Fin 10, Fin 10], [Fin 2, Fin 2]])\<rparr>"
  let ?dte = "[(''cam'', D2 ?A), (''sig'', D1 [Fin 1, Fin 0])]"
  let ?s1 = "dr_params\<lparr>set_camera := Some ''cam'', set_on_off_signal := Some ''sig'',
                       bkg_poff := Some [Fin 2, Fin 2], bkg_pon := Some [Fin 10, Fin 10]\<rparr>"
  have cap: "process_dte False ?dte ?s = Inr ([], ?s1)"
    by (simp add: process_dte_def dr_params_def dte_get_def capture_bkg_def reset_do_bkg_def
                  split_onoff_def even_rows_def odd_rows_def mean0_def col_def fmean_def upt_rec)
  have "process_dte False ?dte ?s1 = Inr ([(''dR over R'', replicate 2 NaN)], ?s1)"
    by (rule capture_then_same_burst_nan [where sig = "D1 [Fin 1, Fin 0]" and A = ?A and k = 1
          and u = "[Fin 10, Fin 10]" and v = "[Fin 2, Fin 2]", OF _ _ _ _ _ _ _ _ cap])
       (simp_all add: dr_params_def dte_get_def numeral_2_eq_2)
  then show ?thesis by (simp add: numeral_2_eq_2)
qed

section \<open>Odd bursts and the phase test\<close>

text \<open>
  C7. Outside a capture and with no background held, a burst with an odd number
  \<open>2k + 1 \<ge> 5\<close> of shots is rejected with numpy's broadcast error (\<open>k + 1\<close> shots of one
  kind against \<open>k\<close> of the other), and the model is unchanged.
\<close>

theorem process_dte_odd_burst:
  assumes "\<not> doing_bkg s" "set_camera s \<noteq> Some ''''"
    "dte_get dte (set_camera s) = Inr (D2 A)" "dte_get dte (set_on_off_signal s) = Inr sig"
    "nrows A = 2 * k + 1" "2 \<le> k" "bkg_pon s = None"
  shows "process_dte echo dte s = Inl (BroadcastError, s)"
proof -
  have "ratio_frames (first_is_on sig) A s = Inl BroadcastError"
    using assms(5-7)
    by (cases "first_is_on sig")
       (simp_all add: ratio_frames_def np_ratio_def split_onoff_def bcast_rows_error split: option.splits)
  then show ?thesis using assms(1-4) by (simp add: process_dte_valid)
qed

theorem process_dte_odd_burst_witness:
  "process_dte False
     [(''cam'', D2 \<lparr>ncols = 1, rows = [[Fin 10], [Fin 2], [Fin 10], [Fin 2], [Fin 10]]\<rparr>),
      (''sig'', D1 [Fin 1, Fin 0])]
     (dr_params\<lparr>set_camera := Some ''cam'', set_on_off_signal := Some ''sig''\<rparr>)
   = Inl (BroadcastError, dr_params\<lparr>set_camera := Some ''cam'', set_on_off_signal := Some ''sig''\<rparr>)"
  by (rule process_dte_odd_burst [where sig = "D1 [Fin 1, Fin 0]" and k = 2
        and A = "\<lparr>ncols = 1, rows = [[Fin 10], [Fin 2], [Fin 10], [Fin 2], [Fin 10]]\<rparr>"])
     (simp_all add: dr_params_def dte_get_def nrows_def)

text \<open>
  C8. The phase test is invariant under moving the first on/off pair of an even-length
  on/off signal to its end.
\<close>

theorem first_is_on_rotate2:
  "even (length v) \<Longrightarrow> first_is_on (D1 (rotate 2 v)) = first_is_on (D1 v)"
  by (simp add: fmean_mset_eq [OF mset_py_evens_rotate2] fmean_mset_eq [OF mset_py_odds_rotate2])

theorem first_is_on_rotate2_witness:
  "even (length [Fin 3, Fin 1, Fin 5, Fin 0]) \<and>
   first_is_on (D1 (rotate 2 [Fin 3, Fin 1, Fin 5, Fin 0])) = first_is_on (D1 [Fin 3, Fin 1, Fin 5, Fin 0])"
  using first_is_on_rotate2 [of "[Fin 3, Fin 1, Fin 5, Fin 0]"] by simp



text \<open>Subtracting a zero row from a well-formed stack leaves it as it is.\<close>

lemma bcast_minus_zero:
  assumes "wf_arr X"
  shows "bcast (-) X (row_vec (replicate (ncols X) (Fin 0))) = Inr X"
proof -
  have "map (\<lambda>r. map2 (-) r (replicate (ncols X) (Fin 0))) (rows X) = rows X"
    using assms by (auto simp: wf_arr_def list_all_iff zip_replicate2 fl_diff_Fin0 intro!: map_idI)
  then show ?thesis using bcast_row_vec [OF assms, of "replicate (ncols X) (Fin 0)"] by simp
qed

lemma ratio_frames_zero_bkg:
  assumes "wf_arr A" "bkg_poff s = None"
  shows "ratio_frames fio A (s\<lparr>bkg_poff := Some (replicate (ncols A) (Fin 0)),
                                bkg_pon := Some (replicate (ncols A) (Fin 0))\<rparr>) = ratio_frames fio A s"
proof -
  obtain on off where sp: "split_onoff fio A = (on, off)" by fastforce
  note sh = split_onoff_shape [OF sp]
  have "bcast (-) off (row_vec (replicate (ncols A) (Fin 0))) = Inr off"
    using bcast_minus_zero [OF sh(4) [OF assms(1)]] sh(2) by simp
  moreover have "bcast (-) on (row_vec (replicate (ncols A) (Fin 0))) = Inr on"
    using bcast_minus_zero [OF sh(3) [OF assms(1)]] sh(1) by simp
  ultimately show ?thesis using sp assms(2) by (simp add: ratio_frames_def)
qed

text \<open>
  C26. A background of zeros is invisible in everything the model returns: outside a
  capture, for any well-formed camera array (of any number of shots), processing an
  acquisition with no background held and with a zero background of the array's width
  gives the same result, the same error or the same emitted vectors, and neither changes
  the model. The only emitted value, the \<open>dR over R\<close> vector, carries no indication of
  whether a correction was applied (the specification's \<open>MissingBackground\<close> asks that a
  skipped correction be distinguishable from a correction by exactly zero).
\<close>

theorem zero_background_indistinguishable:
  assumes "\<not> doing_bkg s" "bkg_pon s = None" "bkg_poff s = None"
    "dte_get dte (set_camera s) = Inr (D2 A)" "wf_arr A"
  shows "process_dte echo dte (s\<lparr>bkg_poff := Some (replicate (ncols A) (Fin 0)),
                                 bkg_pon := Some (replicate (ncols A) (Fin 0))\<rparr>) =
           (case process_dte echo dte s of
              Inl (e, _) \<Rightarrow> Inl (e, s\<lparr>bkg_poff := Some (replicate (ncols A) (Fin 0)),
                                      bkg_pon := Some (replicate (ncols A) (Fin 0))\<rparr>)
            | Inr (out, _) \<Rightarrow> Inr (out, s\<lparr>bkg_poff := Some (replicate (ncols A) (Fin 0)),
                                          bkg_pon := Some (replicate (ncols A) (Fin 0))\<rparr>))"
  using assms ratio_frames_zero_bkg [OF assms(5,3)]
  by (auto simp: process_dte_def Let_def split: sum.splits)

theorem zero_background_indistinguishable_witness:
  "process_dte False
       [(''cam'', D2 \<lparr>ncols = 2, rows = [[Fin 10, Fin 10], [Fin 2, Fin 2], [Fin 10, Fin 10], [Fin 2, Fin 2]]\<rparr>),
        (''sig'', D1 [Fin 1, Fin 0, Fin 1, Fin 0])]
       (dr_params\<lparr>set_camera := Some ''cam'', set_on_off_signal := Some ''sig'',
                  bkg_poff := Some [Fin 0, Fin 0], bkg_pon := Some [Fin 0, Fin 0]\<rparr>)
     = Inr ([(''dR over R'', [Fin 4, Fin 4])],
            dr_params\<lparr>set_camera := Some ''cam'', set_on_off_signal := Some ''sig'',
                  bkg_poff := Some [Fin 0, Fin 0], bkg_pon := Some [Fin 0, Fin 0]\<rparr>)"
proof -
  let ?s = "dr_params\<lparr>set_camera := Some ''cam'', set_on_off_signal := Some ''sig''\<rparr>"
  let ?A = "\<lparr>ncols = 2, rows = [[Fin 10, Fin 10], [Fin 2, Fin 2], [Fin 10, Fin 10], [Fin 2, Fin 2]]\<rparr>"
  let ?dte = "[(''cam'', D2 ?A), (''sig'', D1 [Fin 1, Fin 0, Fin 1, Fin 0])]"
  have "process_dte False ?dte (?s\<lparr>bkg_poff := Some (replicate (ncols ?A) (Fin 0)),
                                    bkg_pon := Some (replicate (ncols ?A) (Fin 0))\<rparr>) =
          (case process_dte False ?dte ?s of
             Inl (e, _) \<Rightarrow> Inl (e, ?s\<lparr>bkg_poff := Some (replicate (ncols ?A) (Fin 0)),
                                     bkg_pon := Some (replicate (ncols ?A) (Fin 0))\<rparr>)
           | Inr (out, _) \<Rightarrow> Inr (out, ?s\<lparr>bkg_poff := Some (replicate (ncols ?A) (Fin 0)),
                                         bkg_pon := Some (replicate (ncols ?A) (Fin 0))\<rparr>))"
    by (rule zero_background_indistinguishable) (simp_all add: dr_params_def dte_get_def wf_arr_def)
  moreover have "process_dte False ?dte ?s = Inr ([(''dR over R'', [Fin 4, Fin 4])], ?s)"
    by (simp add: process_dte_def dte_get_def dr_params_def ratio_frames_def split_onoff_def even_rows_def
                  odd_rows_def np_ratio_def bcast_def bdim_def bidx_def mean0_def col_def fmean_def
                  fl_ops_def nrows_def Let_def numeral_2_eq_2)
  ultimately show ?thesis by (simp add: numeral_2_eq_2)
qed

section \<open>Reachable states\<close>

lemma update_data_list_bkg [simp]:
  "bkg_pon (outcome_state (update_data_list list1D list2D s)) = bkg_pon s"
  "bkg_poff (outcome_state (update_data_list list1D list2D s)) = bkg_poff s"
  by (simp_all add: update_data_list_def Let_def)

lemma update_settings_bkg [simp]:
  "bkg_pon (outcome_state (update_settings p list1D list2D s)) = bkg_pon s"
  "bkg_poff (outcome_state (update_settings p list1D list2D s)) = bkg_poff s"
  by (simp_all add: update_settings_def do_bkg_def Let_def)

lemma dr_inv_cong: "bkg_pon s' = bkg_pon s \<Longrightarrow> bkg_poff s' = bkg_poff s \<Longrightarrow> dr_inv s' = dr_inv s"
  by (simp add: dr_inv_def)

text \<open>\<open>process_dte\<close> either keeps the state or is a capture of some burst.\<close>

lemma process_dte_state_cases:
  "outcome_state (process_dte echo dte s) = s \<or>
   (\<exists>A fio. outcome_state (process_dte echo dte s) = capture_bkg echo fio A s)"
  by (auto simp: process_dte_def Let_def split: sum.splits)

lemma process_dte_inv:
  assumes "dr_inv s"
  shows "dr_inv (outcome_state (process_dte echo dte s))"
  using process_dte_state_cases [of echo dte s]
proof
  assume "outcome_state (process_dte echo dte s) = s"
  with assms show ?thesis by simp
next
  assume "\<exists>A fio. outcome_state (process_dte echo dte s) = capture_bkg echo fio A s"
  then obtain A fio where eq: "outcome_state (process_dte echo dte s) = capture_bkg echo fio A s"
    by blast
  obtain on off where sp: "split_onoff fio A = (on, off)" by fastforce
  show ?thesis
    using eq split_onoff_shape(1,2) [OF sp] by (simp add: capture_bkg_eq [OF sp] dr_inv_def)
qed

lemma dr_event_step_inv:
  assumes "dr_inv s"
  shows "dr_inv (dr_event_step s ev)"
proof (cases ev)
  case (Press p list1D list2D)
  let ?s' = "if p = ''do_bkg'' then s\<lparr>set_do_bkg := True\<rparr> else s"
  have "dr_inv (outcome_state (update_settings p list1D list2D ?s')) = dr_inv s"
    by (rule dr_inv_cong) simp_all
  with assms Press show ?thesis by simp
next
  case (Acquire echo dte)
  with assms show ?thesis by (simp add: process_dte_inv)
qed

text \<open>
  C9. In every state the host can drive the model into, the two halves of the
  background are held together and have the same width, so the test of line 88
  (both halves not \<open>None\<close>) never sees only one of them.
\<close>

theorem dr_reach_inv: "dr_reach s \<Longrightarrow> dr_inv s"
proof (induction rule: dr_reach.induct)
  case (start list1D list2D s)
  then show ?case
    by (auto simp: ini_model_def dr_inv_def split: sum.splits prod.splits)
next
  case (step s ev)
  from step.IH show ?case by (rule dr_event_step_inv)
qed

theorem dr_reach_inv_witness:
  "dr_reach (dr_event_step (dr_event_step (dr_params\<lparr>set_camera := Some ''cam'',
       set_on_off_signal := Some ''sig'', camera_limits := [''cam''], on_off_limits := [''sig'']\<rparr>)
     (Press ''do_bkg'' [''sig''] [''cam'']))
     (Acquire True [(''cam'', D2 \<lparr>ncols = 1, rows = [[Fin 5], [Fin 3]]\<rparr>), (''sig'', D1 [Fin 1, Fin 0])])) \<and>
   dr_inv (dr_event_step (dr_event_step (dr_params\<lparr>set_camera := Some ''cam'',
       set_on_off_signal := Some ''sig'', camera_limits := [''cam''], on_off_limits := [''sig'']\<rparr>)
     (Press ''do_bkg'' [''sig''] [''cam'']))
     (Acquire True [(''cam'', D2 \<lparr>ncols = 1, rows = [[Fin 5], [Fin 3]]\<rparr>), (''sig'', D1 [Fin 1, Fin 0])]))"
proof -
  have "ini_model [''sig''] [''cam''] dr_params =
          Inr ((), dr_params\<lparr>set_camera := Some ''cam'', set_on_off_signal := Some ''sig'',
                             camera_limits := [''cam''], on_off_limits := [''sig'']\<rparr>)"
    by (simp add: ini_model_def update_data_list_def dr_params_def)
  then have r: "dr_reach (dr_event_step (dr_event_step (dr_params\<lparr>set_camera := Some ''cam'',
       set_on_off_signal := Some ''sig'', camera_limits := [''cam''], on_off_limits := [''sig'']\<rparr>)
     (Press ''do_bkg'' [''sig''] [''cam'']))
     (Acquire True [(''cam'', D2 \<lparr>ncols = 1, rows = [[Fin 5], [Fin 3]]\<rparr>), (''sig'', D1 [Fin 1, Fin 0])]))"
    by (intro dr_reach.step dr_reach.start)
  then show ?thesis using dr_reach_inv [OF r] by (rule conjI)
qed

section \<open>Sequences of host events\<close>

text \<open>
  C19. Pressing \<open>do_bkg\<close> and then processing one acquisition with valid data captures
  that acquisition as the background and ends with the capture disarmed and the button
  reset. The model asks the host for one acquisition, or for two when the host reports
  the model's own reset of the button to \<open>update_settings\<close> (\<open>echo\<close>): the second
  request is made after the capture it was meant for.
\<close>

theorem press_do_bkg_then_acquire:
  assumes "set_camera s \<noteq> Some ''''" "dte_get dte (set_camera s) = Inr (D2 A)"
    "dte_get dte (set_on_off_signal s) = Inr sig" "split_onoff (first_is_on sig) A = (on, off)"
  shows "dr_event_step (dr_event_step s (Press ''do_bkg'' list1D list2D)) (Acquire echo dte) =
           s\<lparr>bkg_poff := Some (mean0 off), bkg_pon := Some (mean0 on), doing_bkg := False,
             set_do_bkg := False, snaps := (if echo then snaps s + 2 else snaps s + 1)\<rparr>"
proof -
  have p: "dr_event_step s (Press ''do_bkg'' list1D list2D) =
             s\<lparr>set_do_bkg := True, doing_bkg := True, snaps := Suc (snaps s)\<rparr>"
    by (simp add: update_settings_def do_bkg_def)
  let ?s1 = "s\<lparr>set_do_bkg := True, doing_bkg := True, snaps := Suc (snaps s)\<rparr>"
  have "process_dte echo dte ?s1 = Inr ([], capture_bkg echo (first_is_on sig) A ?s1)"
    using process_dte_valid [of ?s1 dte A sig echo] assms(1-3) by simp
  then show ?thesis
    using p assms(4) by (simp add: capture_bkg_eq)
qed

theorem press_do_bkg_then_acquire_witness:
  "dr_event_step (dr_event_step (dr_params\<lparr>set_camera := Some ''cam'', set_on_off_signal := Some ''sig''\<rparr>)
       (Press ''do_bkg'' [''sig''] [''cam'']))
     (Acquire True [(''cam'', D2 \<lparr>ncols = 1, rows = [[Fin 5], [Fin 3]]\<rparr>), (''sig'', D1 [Fin 1, Fin 0])])
   = dr_params\<lparr>set_camera := Some ''cam'', set_on_off_signal := Some ''sig'',
       bkg_poff := Some [Fin 3], bkg_pon := Some [Fin 5], snaps := 2\<rparr>"
proof -
  let ?s = "dr_params\<lparr>set_camera := Some ''cam'', set_on_off_signal := Some ''sig''\<rparr>"
  let ?A = "\<lparr>ncols = 1, rows = [[Fin 5], [Fin 3]]\<rparr>"
  have "split_onoff (first_is_on (D1 [Fin 1, Fin 0])) ?A
          = (\<lparr>ncols = 1, rows = [[Fin 5]]\<rparr>, \<lparr>ncols = 1, rows = [[Fin 3]]\<rparr>)"
    by (simp add: split_onoff_def even_rows_def odd_rows_def fmean_def fl_ops_def)
  from press_do_bkg_then_acquire [OF _ _ _ this, of ?s "[(''cam'', D2 ?A), (''sig'', D1 [Fin 1, Fin 0])]"
         "[''sig'']" "[''cam'']" True]
  show ?thesis by (simp add: dr_params_def dte_get_def mean0_def col_def fmean_def)
qed

text \<open>
  C20. \<open>ini_model\<close> on a host with no 2D data raises \<open>IndexError\<close> at \<open>data_list2D[0]\<close>
  after the camera's choices are emptied, and on a host with 2D data but no 1D data it
  raises at \<open>data_list1D[0]\<close> after the camera is set; in both cases the background
  and the capture flag are not reset (lines 29--31 are not reached).
\<close>

theorem ini_model_index_errors:
  "ini_model list1D [] s = Inl (IndexError, s\<lparr>camera_limits := []\<rparr>) \<and>
   (list2D \<noteq> [] \<longrightarrow> ini_model [] list2D s =
      Inl (IndexError, s\<lparr>camera_limits := list2D, set_camera := Some (hd list2D), on_off_limits := []\<rparr>))"
  by (simp add: ini_model_def update_data_list_def)

theorem ini_model_index_errors_witness:
  "ini_model [''sig''] [] (dr_params\<lparr>bkg_pon := Some [Fin 1], bkg_poff := Some [Fin 2], doing_bkg := True\<rparr>)
     = Inl (IndexError, dr_params\<lparr>bkg_pon := Some [Fin 1], bkg_poff := Some [Fin 2], doing_bkg := True\<rparr>) \<and>
   ini_model [] [''cam''] dr_params = Inl (IndexError, dr_params\<lparr>set_camera := Some ''cam'', camera_limits := [''cam'']\<rparr>)"
  using ini_model_index_errors [of "[''sig'']" "dr_params\<lparr>bkg_pon := Some [Fin 1], bkg_poff := Some [Fin 2], doing_bkg := True\<rparr>" "[''cam'']"]
        ini_model_index_errors [of "[]" dr_params "[''cam'']"]
  by (simp_all add: dr_params_def)

end
