(* ===== verification/Plugin.thy ===== *)
theory Plugin
  imports Simulator
begin

text \<open>
  The host's data types as the viewer plugins build them: an \<open>Axis\<close> over
  \<open>np.arange(n)\<close> (its label, its length and the data axis it describes) and a
  \<open>DataFromPlugins\<close> (name, arrays, dimensionality, labels, axes). What a plugin emits
  with \<open>dte_signal.emit(DataToExport(name, data=...))\<close> is the pair of the name and the
  list. An attribute that is \<open>None\<close> or not yet set is an option; reading it raises
  \<open>AttributeError\<close>.
\<close>

record axis =
  ax_label :: string
  ax_len :: nat
  ax_index :: nat

record dfp =
  dfp_name :: string
  dfp_data :: "nd list"
  dfp_dim :: string
  dfp_labels :: "string list"
  dfp_axes :: "axis list"

type_synonym emitted = "string \<times> dfp list"

definition attr :: "'a option \<Rightarrow> 'a result" where
  "attr x = (case x of None \<Rightarrow> Inl AttributeError | Some a \<Rightarrow> Inr a)"

text \<open>\<open>np.arange(n)\<close> of a Python int: empty for \<open>n \<le> 0\<close>.\<close>

definition arange_len :: "int \<Rightarrow> nat" where
  "arange_len n = nat n"

text \<open>The length of a 1D or 2D array along one of its axes.\<close>

fun nd_size :: "nd \<Rightarrow> nat \<Rightarrow> nat option" where
  "nd_size (D1 v) i = (if i = 0 then Some (length v) else None)"
| "nd_size (D2 A) i = (if i = 0 then Some (nrows A) else if i = 1 then Some (ncols A) else None)"

text \<open>An emitted block whose every axis matches the length of every array along it.\<close>

definition axes_match :: "dfp \<Rightarrow> bool" where
  "axes_match d \<longleftrightarrow>
     list_all (\<lambda>a. list_all (\<lambda>x. nd_size x (ax_index a) = Some (ax_len a)) (dfp_data d)) (dfp_axes d)"

text \<open>
  The legacy keywords \<open>x_axis=\<close> and \<open>y_axis=\<close> of \<open>DataFromPlugins\<close>, which the 2D
  viewers use: the host attaches the \<open>x\<close> axis to the last dimension of the data
  (\<open>ndim - 1\<close>) and the \<open>y\<close> axis to dimension 0, whatever index the \<open>Axis\<close> object was
  built with. This is the host's behaviour as assumed here, not a translation of its code;
  the \<open>axes=\<close> keyword of the 1D viewer keeps each axis's own index.
\<close>

definition x_axis_kw :: "nat \<Rightarrow> axis \<Rightarrow> axis" where
  "x_axis_kw ndim a = a\<lparr>ax_index := ndim - 1\<rparr>"

definition y_axis_kw :: "axis \<Rightarrow> axis" where
  "y_axis_kw a = a\<lparr>ax_index := 0\<rparr>"

lemma attr_simps [simp]: "attr None = Inl AttributeError" "attr (Some a) = Inr a"
  by (simp_all add: attr_def)

end
