(* ===== verification/Viewers2D.thy ===== *)
theory Viewers2D
  imports Plugin
begin

text \<open>
  The two 2D viewer plugins over the shot simulator:
  \<open>DAQ_2DViewer_MockCMOS\<close> (\<open>daq_2Dviewer_MockCMOS.py\<close>), the single-shot XUV camera, and
  \<open>DAQ_2DViewer_MockStabCamera\<close> (\<open>daq_2Dviewer_MockStabCamera.py\<close>), the
  stabilisation camera whose image carries the on/off signal. Each keeps its controller
  (\<open>None\<close> until \<open>ini_detector\<close>), its settings and the two axes \<open>set_axes\<close> builds.
  A master viewer builds its own \<open>Mock_SingleShot\<close>; a slave gets its master's. The
  random draws of a grab are inputs: the simulator's coin and the noise samples.
\<close>

section \<open>The CMOS camera viewer\<close>

record cmos_settings =
  cm_chunk_size :: int
  cm_sleep_time :: int
  cm_amp_noise :: real
  cm_twod_image :: bool
  cm_dRoverR :: bool
  cm_ponoff :: bool
  cm_gas_off :: bool

definition cmos_params :: cmos_settings where
  "cmos_params = \<lparr>cm_chunk_size = 100, cm_sleep_time = 10, cm_amp_noise = 1000,
     cm_twod_image = True, cm_dRoverR = False, cm_ponoff = False, cm_gas_off = False\<rparr>"

record cmos_viewer =
  cm_controller :: "mock_singleshot option"
  cm_settings :: cmos_settings
  cm_x_axis :: "axis option"
  cm_y_axis :: "axis option"

text \<open>\<open>ini_attributes\<close>: no controller yet, no axes yet.\<close>

definition cmos_ini_attributes :: "cmos_settings \<Rightarrow> cmos_viewer" where
  "cmos_ini_attributes st = \<lparr>cm_controller = None, cm_settings = st, cm_x_axis = None, cm_y_axis = None\<rparr>"

text \<open>\<open>set_axes\<close>: pixels along axis 1, \<open>chunk_size\<close> shots along axis 0.\<close>

definition cmos_set_axes :: "cmos_viewer \<Rightarrow> (cmos_viewer, unit) outcome" where
  "cmos_set_axes v =
     (case attr (cm_controller v) of Inl e \<Rightarrow> Inl (e, v) | Inr c \<Rightarrow>
      Inr ((), v\<lparr>cm_x_axis := Some \<lparr>ax_label = ''Pixels'', ax_len = length (pon c), ax_index = 1\<rparr>,
                 cm_y_axis := Some \<lparr>ax_label = ''Shot'', ax_len = arange_len (cm_chunk_size (cm_settings v)),
                                    ax_index = 0\<rparr>\<rparr>))"

text \<open>
  \<open>ini_detector(controller)\<close>: a slave takes the given controller, a master builds
  \<open>Mock_SingleShot()\<close> from the loaded file; then \<open>set_axes\<close>.
\<close>

definition cmos_ini_detector ::
  "mock_singleshot option \<Rightarrow> arr2 \<Rightarrow> bool \<Rightarrow> cmos_viewer \<Rightarrow> (cmos_viewer, string \<times> bool) outcome" where
  "cmos_ini_detector slave data coin v =
     (case (case slave of Some c \<Rightarrow> Inr c | None \<Rightarrow> Mock_SingleShot_init ''ponoff_transient.npy'' data coin) of
        Inl e \<Rightarrow> Inl (e, v)
      | Inr c \<Rightarrow> (case cmos_set_axes (v\<lparr>cm_controller := Some c\<rparr>) of
                   Inl (e, v') \<Rightarrow> Inl (e, v')
                 | Inr (_, v') \<Rightarrow> Inr ((''Whatever info you want to log'', True), v')))"

text \<open>
  \<open>commit_settings(param)\<close>: only the template's placeholder name has a branch, and it
  calls a method \<open>Mock_SingleShot\<close> does not have; every real setting changes nothing
  (in particular \<open>set_axes\<close> is not called again).
\<close>

definition cmos_commit_settings :: "string \<Rightarrow> cmos_viewer \<Rightarrow> (cmos_viewer, unit) outcome" where
  "cmos_commit_settings pname v =
     (if pname = ''a_parameter_you've_added_in_self.params'' then Inl (AttributeError, v) else Inr ((), v))"

text \<open>
  \<open>grab_data\<close>: \<open>chunk_size // 2\<close> pairs from \<open>grab_XUV\<close>, noise added in place, the
  even rows taken as pump-on and the odd rows as pump-off, \<open>dR = (pon - poff)/poff\<close>,
  and the blocks the three flags select, in this order. The controller's new phase is
  kept even when the grab raises.
\<close>

definition cmos_grab_data ::
  "bool \<Rightarrow> (nat \<Rightarrow> nat \<Rightarrow> real) \<Rightarrow> cmos_viewer \<Rightarrow> (cmos_viewer, emitted) outcome" where
  "cmos_grab_data coin rnd v =
     (let st = cm_settings v in
      case attr (cm_controller v) of Inl e \<Rightarrow> Inl (e, v) | Inr c \<Rightarrow>
      case grab_XUV c (cm_chunk_size st div 2) (cm_gas_off st) coin of
        Inl (e, c') \<Rightarrow> Inl (e, v\<lparr>cm_controller := Some c'\<rparr>)
      | Inr (tot, c') \<Rightarrow>
          (let v' = v\<lparr>cm_controller := Some c'\<rparr>;
               data_tot = add_noise (cm_amp_noise st) rnd tot;
               pon = even_rows data_tot;
               poff = odd_rows data_tot
           in case np_ratio pon poff of
                Inl e \<Rightarrow> Inl (e, v')
              | Inr dR \<Rightarrow>
                  (case (if cm_twod_image st \<or> cm_ponoff st \<or> cm_dRoverR st
                         then rbind (attr (cm_x_axis v)) (\<lambda>x. Inr (Some x)) else Inr None) of
                     Inl e \<Rightarrow> Inl (e, v')
                   | Inr xa \<Rightarrow>
                   (case (if cm_twod_image st then rbind (attr (cm_y_axis v)) (\<lambda>y. Inr (Some y))
                          else Inr None) of
                      Inl e \<Rightarrow> Inl (e, v')
                    | Inr ya \<Rightarrow>
                      Inr ((''CMOS'',
                        (if cm_twod_image st
                         then [\<lparr>dfp_name = ''Image'', dfp_data = [D2 data_tot], dfp_dim = ''Data2D'',
                                dfp_labels = [''label1''], dfp_axes = [x_axis_kw 2 (the xa), y_axis_kw (the ya)]\<rparr>] else [])
                        @ (if cm_ponoff st
                           then [\<lparr>dfp_name = ''POnOff'', dfp_data = [D1 (mean0 poff), D1 (mean0 pon)],
                                  dfp_dim = ''Data1D'', dfp_labels = [''off'', ''on''],
                                  dfp_axes = [x_axis_kw 1 (the xa)]\<rparr>] else [])
                        @ (if cm_dRoverR st
                           then [\<lparr>dfp_name = ''dRoverR'', dfp_data = [D1 (mean0 dR)],
                                  dfp_dim = ''Data1D'', dfp_labels = [''dRoverR''],
                                  dfp_axes = [x_axis_kw 1 (the xa)]\<rparr>] else [])), v')))))"

section \<open>The stabilisation camera viewer\<close>

record stab_settings =
  sc_chunk_size :: int
  sc_sleep_time :: int
  sc_amp_noise :: real

definition stab_params :: stab_settings where
  "stab_params = \<lparr>sc_chunk_size = 100, sc_sleep_time = 10, sc_amp_noise = 0.1\<rparr>"

record stab_viewer =
  sc_controller :: "mock_singleshot option"
  sc_settings :: stab_settings
  sc_x_axis :: "axis option"
  sc_y_axis :: "axis option"

definition stab_ini_attributes :: "stab_settings \<Rightarrow> stab_viewer" where
  "stab_ini_attributes st = \<lparr>sc_controller = None, sc_settings = st, sc_x_axis = None, sc_y_axis = None\<rparr>"

text \<open>\<open>set_axes\<close>: the spectrum's pixels declared on axis 0 and \<open>chunk_size\<close> shots on axis 1.\<close>

definition stab_set_axes :: "stab_viewer \<Rightarrow> (stab_viewer, unit) outcome" where
  "stab_set_axes v =
     (case attr (sc_controller v) of Inl e \<Rightarrow> Inl (e, v) | Inr c \<Rightarrow>
      Inr ((), v\<lparr>sc_x_axis := Some \<lparr>ax_label = ''Pixels'', ax_len = length (pon c), ax_index = 0\<rparr>,
                 sc_y_axis := Some \<lparr>ax_label = ''Shot'', ax_len = arange_len (sc_chunk_size (sc_settings v)),
                                    ax_index = 1\<rparr>\<rparr>))"

definition stab_ini_detector ::
  "mock_singleshot option \<Rightarrow> arr2 \<Rightarrow> bool \<Rightarrow> stab_viewer \<Rightarrow> (stab_viewer, string \<times> bool) outcome" where
  "stab_ini_detector slave data coin v =
     (case (case slave of Some c \<Rightarrow> Inr c | None \<Rightarrow> Mock_SingleShot_init ''ponoff_transient.npy'' data coin) of
        Inl e \<Rightarrow> Inl (e, v)
      | Inr c \<Rightarrow> (case stab_set_axes (v\<lparr>sc_controller := Some c\<rparr>) of
                   Inl (e, v') \<Rightarrow> Inl (e, v')
                 | Inr (_, v') \<Rightarrow> Inr ((''Whatever info you want to log'', True), v')))"

definition stab_commit_settings :: "string \<Rightarrow> stab_viewer \<Rightarrow> (stab_viewer, unit) outcome" where
  "stab_commit_settings pname v =
     (if pname = ''a_parameter_you've_added_in_self.params'' then Inl (AttributeError, v) else Inr ((), v))"

text \<open>\<open>grab_data\<close>: \<open>chunk_size // 2\<close> pairs from \<open>grab_stab\<close>, noise added, one image block.\<close>

definition stab_grab_data ::
  "(nat \<Rightarrow> nat \<Rightarrow> real) \<Rightarrow> stab_viewer \<Rightarrow> (stab_viewer, emitted) outcome" where
  "stab_grab_data rnd v =
     (let st = sc_settings v in
      case attr (sc_controller v) of Inl e \<Rightarrow> Inl (e, v) | Inr c \<Rightarrow>
      case grab_stab c (sc_chunk_size st div 2) of Inl e \<Rightarrow> Inl (e, v) | Inr tot \<Rightarrow>
      (let data_tot = add_noise (sc_amp_noise st) rnd tot in
       (case (attr (sc_x_axis v), attr (sc_y_axis v)) of
          (Inr x, Inr y) \<Rightarrow>
            Inr ((''CMOS'', [\<lparr>dfp_name = ''Camera'', dfp_data = [D2 data_tot], dfp_dim = ''Data2D'',
                              dfp_labels = [''label1''], dfp_axes = [x_axis_kw 2 x, y_axis_kw y]\<rparr>]), v)
        | _ \<Rightarrow> Inl (AttributeError, v))))"


section \<open>The CMOS viewer's burst\<close>

text \<open>
  With no noise, a grab of \<open>chunk_size \<ge> 2\<close> returns \<open>chunk_size // 2\<close> pairs of the shot
  drawn first (\<open>a\<close>) and the other (\<open>b\<close>); the viewer labels \<open>a\<close> as pump-on whatever
  the coin says.
\<close>

lemma cmos_grab_data_burst:
  fixes coin :: bool
  assumes "cm_controller v = Some c" "sim_inv c" "cm_x_axis v = Some xa" "cm_y_axis v = Some ya"
    "cm_amp_noise (cm_settings v) = 0" "2 \<le> cm_chunk_size (cm_settings v)"
  defines "on \<equiv> if cm_gas_off (cm_settings v) then bkg_on c else pon c"
    and "off \<equiv> if cm_gas_off (cm_settings v) then bkg_off c else poff c"
    and "k \<equiv> nat (cm_chunk_size (cm_settings v) div 2)"
  defines "a \<equiv> if coin then on else off" and "b \<equiv> if coin then off else on"
  shows "cmos_grab_data coin rnd v = Inr ((''CMOS'',
     (if cm_twod_image (cm_settings v)
      then [\<lparr>dfp_name = ''Image'', dfp_data = [D2 \<lparr>ncols = length on, rows = concat (replicate k [a, b])\<rparr>],
             dfp_dim = ''Data2D'', dfp_labels = [''label1''], dfp_axes = [x_axis_kw 2 xa, y_axis_kw ya]\<rparr>] else [])
     @ (if cm_ponoff (cm_settings v)
        then [\<lparr>dfp_name = ''POnOff'', dfp_data = [D1 b, D1 a], dfp_dim = ''Data1D'',
               dfp_labels = [''off'', ''on''], dfp_axes = [x_axis_kw 1 xa]\<rparr>] else [])
     @ (if cm_dRoverR (cm_settings v)
        then [\<lparr>dfp_name = ''dRoverR'', dfp_data = [D1 (map2 (\<lambda>x y. (x - y) / y) a b)],
               dfp_dim = ''Data1D'', dfp_labels = [''dRoverR''], dfp_axes = [x_axis_kw 1 xa]\<rparr>] else [])),
     v\<lparr>cm_controller := Some (c\<lparr>FirstShotIsPumpOn := coin\<rparr>)\<rparr>)"
proof -
  let ?T = "\<lparr>ncols = length on, rows = concat (replicate k [a, b])\<rparr>"
  have k: "0 < k" using assms(6) by (simp add: k_def)
  have len: "length a = length on" "length b = length on"
    using assms(2) by (auto simp: a_def b_def on_def off_def sim_inv_def)
  have "grab_XUV c (cm_chunk_size (cm_settings v) div 2) (cm_gas_off (cm_settings v)) coin
          = Inr (?T, c\<lparr>FirstShotIsPumpOn := coin\<rparr>)"
    using grab_XUV_rows [OF assms(2), of "cm_chunk_size (cm_settings v) div 2"] assms(6)
    by (simp add: on_def off_def k_def a_def b_def)
  moreover have sl: "even_rows ?T = \<lparr>ncols = length on, rows = replicate k a\<rparr>"
      "odd_rows ?T = \<lparr>ncols = length on, rows = replicate k b\<rparr>"
    by (simp_all add: even_rows_def odd_rows_def slice_simps)
  moreover obtain R where "np_ratio \<lparr>ncols = length on, rows = replicate k a\<rparr>
      \<lparr>ncols = length on, rows = replicate k b\<rparr> = Inr R" "mean0 R = map2 (\<lambda>x y. (x - y) / y) a b"
    using np_ratio_replicate [OF len k] by blast
  ultimately show ?thesis
    using assms(1,3-5) k len by (simp add: cmos_grab_data_def Let_def mean0_replicate)
qed


text \<open>
  With any noise, a grab of \<open>chunk_size \<ge> 0\<close> succeeds: \<open>2 (chunk_size // 2)\<close> noisy
  shots \<open>N\<close> of the spectrum's width, the column means of their odd and even rows and
  the column means of their ratio \<open>R\<close>, in the blocks the three flags select.
\<close>

lemma cmos_grab_data_blocks:
  assumes "cm_controller v = Some c" "sim_inv c" "cm_x_axis v = Some xa" "cm_y_axis v = Some ya"
    "0 \<le> cm_chunk_size (cm_settings v)"
  obtains N R where "cmos_grab_data coin rnd v = Inr ((''CMOS'',
      (if cm_twod_image (cm_settings v)
       then [\<lparr>dfp_name = ''Image'', dfp_data = [D2 N], dfp_dim = ''Data2D'', dfp_labels = [''label1''],
              dfp_axes = [x_axis_kw 2 xa, y_axis_kw ya]\<rparr>] else [])
      @ (if cm_ponoff (cm_settings v)
         then [\<lparr>dfp_name = ''POnOff'', dfp_data = [D1 (mean0 (odd_rows N)), D1 (mean0 (even_rows N))],
                dfp_dim = ''Data1D'', dfp_labels = [''off'', ''on''], dfp_axes = [x_axis_kw 1 xa]\<rparr>] else [])
      @ (if cm_dRoverR (cm_settings v)
         then [\<lparr>dfp_name = ''dRoverR'', dfp_data = [D1 (mean0 R)],
                dfp_dim = ''Data1D'', dfp_labels = [''dRoverR''], dfp_axes = [x_axis_kw 1 xa]\<rparr>] else [])),
      v\<lparr>cm_controller := Some (c\<lparr>FirstShotIsPumpOn := coin\<rparr>)\<rparr>)"
    "wf_arr N" "nrows N = 2 * nat (cm_chunk_size (cm_settings v) div 2)" "ncols N = length (pon c)"
    "ncols R = length (pon c)"
proof -
  let ?g = "cm_gas_off (cm_settings v)" and ?n = "cm_chunk_size (cm_settings v) div 2"
  let ?on = "if ?g then bkg_on c else pon c" and ?off = "if ?g then bkg_off c else poff c"
  let ?T = "\<lparr>ncols = length ?on, rows = concat (replicate (nat ?n) (if coin then [?on, ?off] else [?off, ?on]))\<rparr>"
  let ?N = "add_noise (cm_amp_noise (cm_settings v)) rnd ?T"
  have len: "length ?on = length (pon c)" "length ?off = length (pon c)"
    using assms(2) by (simp_all add: sim_inv_def)
  have g: "grab_XUV c ?n ?g coin = Inr (?T, c\<lparr>FirstShotIsPumpOn := coin\<rparr>)"
    using grab_XUV_rows [OF assms(2), of ?n] assms(5) by simp
  have rN: "nrows ?N = 2 * nat ?n"
    by (simp only: add_noise_shape) (simp add: nrows_def)
  have wf: "wf_arr ?N" "ncols ?N = length (pon c)"
    using len by (simp_all add: wf_arr_replicate_pair)
  have "wf_arr (even_rows ?N)" "wf_arr (odd_rows ?N)" "nrows (even_rows ?N) = nrows (odd_rows ?N)"
      "ncols (even_rows ?N) = ncols (odd_rows ?N)"
    using wf rN by simp_all
  then obtain R where R: "np_ratio (even_rows ?N) (odd_rows ?N) = Inr R" "ncols R = ncols (even_rows ?N)"
    by (rule np_ratio_same_shape) blast
  from g R(1) assms(1,3,4) have "cmos_grab_data coin rnd v = Inr ((''CMOS'',
      (if cm_twod_image (cm_settings v)
       then [\<lparr>dfp_name = ''Image'', dfp_data = [D2 ?N], dfp_dim = ''Data2D'', dfp_labels = [''label1''],
              dfp_axes = [x_axis_kw 2 xa, y_axis_kw ya]\<rparr>] else [])
      @ (if cm_ponoff (cm_settings v)
         then [\<lparr>dfp_name = ''POnOff'', dfp_data = [D1 (mean0 (odd_rows ?N)), D1 (mean0 (even_rows ?N))],
                dfp_dim = ''Data1D'', dfp_labels = [''off'', ''on''], dfp_axes = [x_axis_kw 1 xa]\<rparr>] else [])
      @ (if cm_dRoverR (cm_settings v)
         then [\<lparr>dfp_name = ''dRoverR'', dfp_data = [D1 (mean0 R)],
                dfp_dim = ''Data1D'', dfp_labels = [''dRoverR''], dfp_axes = [x_axis_kw 1 xa]\<rparr>] else [])),
      v\<lparr>cm_controller := Some (c\<lparr>FirstShotIsPumpOn := coin\<rparr>)\<rparr>)"
    by (simp add: cmos_grab_data_def Let_def)
  moreover have "ncols R = length (pon c)" using R(2) wf(2) by simp
  ultimately show ?thesis using wf(1) rN wf(2) that by blast
qed

text \<open>With the image selected, the first block is the image.\<close>

lemma cmos_grab_data_image:
  assumes "cm_controller v = Some c" "sim_inv c" "cm_x_axis v = Some xa" "cm_y_axis v = Some ya"
    "0 \<le> cm_chunk_size (cm_settings v)" "cm_twod_image (cm_settings v)"
  obtains N rest where "cmos_grab_data coin rnd v = Inr ((''CMOS'',
      \<lparr>dfp_name = ''Image'', dfp_data = [D2 N], dfp_dim = ''Data2D'', dfp_labels = [''label1''],
       dfp_axes = [x_axis_kw 2 xa, y_axis_kw ya]\<rparr> # rest), v\<lparr>cm_controller := Some (c\<lparr>FirstShotIsPumpOn := coin\<rparr>)\<rparr>)"
    "nrows N = 2 * nat (cm_chunk_size (cm_settings v) div 2)" "ncols N = length (pon c)"
proof -
  obtain N R where "cmos_grab_data coin rnd v = Inr ((''CMOS'',
      (if cm_twod_image (cm_settings v)
       then [\<lparr>dfp_name = ''Image'', dfp_data = [D2 N], dfp_dim = ''Data2D'', dfp_labels = [''label1''],
              dfp_axes = [x_axis_kw 2 xa, y_axis_kw ya]\<rparr>] else [])
      @ (if cm_ponoff (cm_settings v)
         then [\<lparr>dfp_name = ''POnOff'', dfp_data = [D1 (mean0 (odd_rows N)), D1 (mean0 (even_rows N))],
                dfp_dim = ''Data1D'', dfp_labels = [''off'', ''on''], dfp_axes = [x_axis_kw 1 xa]\<rparr>] else [])
      @ (if cm_dRoverR (cm_settings v)
         then [\<lparr>dfp_name = ''dRoverR'', dfp_data = [D1 (mean0 R)],
                dfp_dim = ''Data1D'', dfp_labels = [''dRoverR''], dfp_axes = [x_axis_kw 1 xa]\<rparr>] else [])),
      v\<lparr>cm_controller := Some (c\<lparr>FirstShotIsPumpOn := coin\<rparr>)\<rparr>)"
    "nrows N = 2 * nat (cm_chunk_size (cm_settings v) div 2)" "ncols N = length (pon c)"
    using cmos_grab_data_blocks [OF assms(1-5), of coin rnd] by blast
  with assms(6) show ?thesis using that by simp
qed


section \<open>Initialisation and the image axes\<close>

lemma cmos_ini_detector_Inr:
  assumes "cmos_ini_detector slave data coin v = Inr (r, v')"
  obtains c where "slave = Some c \<or> slave = None \<and> Mock_SingleShot_init ''ponoff_transient.npy'' data coin = Inr c"
    "v' = v\<lparr>cm_controller := Some c,
             cm_x_axis := Some \<lparr>ax_label = ''Pixels'', ax_len = length (pon c), ax_index = 1\<rparr>,
             cm_y_axis := Some \<lparr>ax_label = ''Shot'', ax_len = arange_len (cm_chunk_size (cm_settings v)),
                                ax_index = 0\<rparr>\<rparr>"
  using assms that
  by (auto simp: cmos_ini_detector_def cmos_set_axes_def split: option.splits sum.splits)

lemma twice_half_nat: "0 \<le> n \<Longrightarrow> (2 * nat (n div 2) = nat n) = even n"
  by (cases "even n") (auto elim!: evenE oddE simp: nat_mult_distrib)


text \<open>
  C10. With no noise and only \<open>dRoverR\<close> selected, the CMOS viewer emits
  \<open>(pon - poff)/poff\<close> when the simulator's coin puts the pump-on shot first, and
  \<open>(poff - pon)/pon\<close> when it puts it second: \<open>grab_data\<close> takes the even shots as pump-on
  without reading \<open>FirstShotIsPumpOn\<close>.
\<close>

theorem cmos_dRoverR_phase:
  fixes coin :: bool
  assumes "cm_controller v = Some c" "sim_inv c" "cm_x_axis v = Some xa" "cm_y_axis v = Some ya"
    "cm_amp_noise (cm_settings v) = 0" "2 \<le> cm_chunk_size (cm_settings v)"
    "\<not> cm_gas_off (cm_settings v)" "\<not> cm_twod_image (cm_settings v)" "\<not> cm_ponoff (cm_settings v)"
    "cm_dRoverR (cm_settings v)"
  shows "cmos_grab_data coin rnd v = Inr ((''CMOS'',
           [\<lparr>dfp_name = ''dRoverR'',
             dfp_data = [D1 (if coin then map2 (\<lambda>x y. (x - y) / y) (pon c) (poff c)
                             else map2 (\<lambda>x y. (x - y) / y) (poff c) (pon c))],
             dfp_dim = ''Data1D'', dfp_labels = [''dRoverR''], dfp_axes = [x_axis_kw 1 xa]\<rparr>]),
           v\<lparr>cm_controller := Some (c\<lparr>FirstShotIsPumpOn := coin\<rparr>)\<rparr>)"
  using cmos_grab_data_burst [OF assms(1-6), of coin rnd] assms(7-10) by simp

theorem cmos_dRoverR_phase_witness:
  "cmos_grab_data False (\<lambda>i j. 0)
      \<lparr>cm_controller = Some \<lparr>filename = ''ponoff_transient.npy'', pon = [Fin 4], poff = [Fin 2],
          bkg_on = [Fin 4000], bkg_off = [Fin 2000], stabpoff = replicate 1024 (Fin 0),
          stabpon = replicate 1024 (Fin 1), FirstShotIsPumpOn = True\<rparr>,
       cm_settings = cmos_params\<lparr>cm_amp_noise := 0, cm_twod_image := False, cm_dRoverR := True\<rparr>,
       cm_x_axis = Some \<lparr>ax_label = ''Pixels'', ax_len = 1, ax_index = 1\<rparr>,
       cm_y_axis = Some \<lparr>ax_label = ''Shot'', ax_len = 100, ax_index = 0\<rparr>\<rparr>
   = Inr ((''CMOS'', [\<lparr>dfp_name = ''dRoverR'', dfp_data = [D1 [Fin (- 1 / 2)]],
             dfp_dim = ''Data1D'', dfp_labels = [''dRoverR''],
             dfp_axes = [\<lparr>ax_label = ''Pixels'', ax_len = 1, ax_index = 0\<rparr>]\<rparr>]),
      \<lparr>cm_controller = Some \<lparr>filename = ''ponoff_transient.npy'', pon = [Fin 4], poff = [Fin 2],
          bkg_on = [Fin 4000], bkg_off = [Fin 2000], stabpoff = replicate 1024 (Fin 0),
          stabpon = replicate 1024 (Fin 1), FirstShotIsPumpOn = False\<rparr>,
       cm_settings = cmos_params\<lparr>cm_amp_noise := 0, cm_twod_image := False, cm_dRoverR := True\<rparr>,
       cm_x_axis = Some \<lparr>ax_label = ''Pixels'', ax_len = 1, ax_index = 1\<rparr>,
       cm_y_axis = Some \<lparr>ax_label = ''Shot'', ax_len = 100, ax_index = 0\<rparr>\<rparr>)"
  (is "cmos_grab_data False ?rnd ?v = _")
proof -
  let ?c = "\<lparr>filename = ''ponoff_transient.npy'', pon = [Fin 4], poff = [Fin 2],
          bkg_on = [Fin 4000], bkg_off = [Fin 2000], stabpoff = replicate 1024 (Fin 0),
          stabpon = replicate 1024 (Fin 1), FirstShotIsPumpOn = True\<rparr>"
  have "sim_inv ?c" by (simp add: sim_inv_def)
  from cmos_dRoverR_phase [where v = ?v and c = ?c and coin = False and rnd = ?rnd, OF _ this]
  show ?thesis by (simp add: cmos_params_def x_axis_kw_def)
qed


text \<open>
  C11. After \<open>ini_detector\<close> as master with the image selected, every grab succeeds and
  its image block carries the two axes of \<open>set_axes\<close>; they match the image's shape
  exactly when \<open>chunk_size\<close> is even: the image has \<open>2 (chunk_size // 2)\<close> shots and the
  \<open>Shot\<close> axis \<open>chunk_size\<close> entries.
\<close>

theorem cmos_image_axes_even:
  assumes "cmos_ini_detector None data coin0 (cmos_ini_attributes st) = Inr (r, v)" "wf_arr data"
    "cm_twod_image st" "0 \<le> cm_chunk_size st"
  shows "\<exists>b rest v'. cmos_grab_data coin rnd v = Inr ((''CMOS'', b # rest), v') \<and>
           dfp_name b = ''Image'' \<and> (axes_match b \<longleftrightarrow> even (cm_chunk_size st))"
proof -
  obtain c where c: "Mock_SingleShot_init ''ponoff_transient.npy'' data coin0 = Inr c"
    and v: "v = (cmos_ini_attributes st)\<lparr>cm_controller := Some c,
             cm_x_axis := Some \<lparr>ax_label = ''Pixels'', ax_len = length (pon c), ax_index = 1\<rparr>,
             cm_y_axis := Some \<lparr>ax_label = ''Shot'', ax_len = arange_len (cm_chunk_size st), ax_index = 0\<rparr>\<rparr>"
    using cmos_ini_detector_Inr [OF assms(1)] by (auto simp: cmos_ini_attributes_def)
  have inv: "sim_inv c" using assms(2) c by (rule Mock_SingleShot_init_inv)
  obtain N rest where G: "cmos_grab_data coin rnd v = Inr ((''CMOS'',
      \<lparr>dfp_name = ''Image'', dfp_data = [D2 N], dfp_dim = ''Data2D'', dfp_labels = [''label1''],
       dfp_axes = [x_axis_kw 2 \<lparr>ax_label = ''Pixels'', ax_len = length (pon c), ax_index = 1\<rparr>,
                   y_axis_kw \<lparr>ax_label = ''Shot'', ax_len = arange_len (cm_chunk_size st), ax_index = 0\<rparr>]\<rparr> # rest),
      v\<lparr>cm_controller := Some (c\<lparr>FirstShotIsPumpOn := coin\<rparr>)\<rparr>)"
    "nrows N = 2 * nat (cm_chunk_size st div 2)" "ncols N = length (pon c)"
    by (rule cmos_grab_data_image [OF _ inv, of v])
       (use v assms(3,4) in \<open>simp_all add: cmos_ini_attributes_def\<close>)
  then show ?thesis
    using assms(4) by (simp add: axes_match_def arange_len_def twice_half_nat x_axis_kw_def y_axis_kw_def)
qed

theorem cmos_image_axes_even_witness:
  "\<exists>b rest v'. cmos_grab_data True (\<lambda>i j. 0)
      \<lparr>cm_controller = Some \<lparr>filename = ''ponoff_transient.npy'', pon = [Fin 4], poff = [Fin 2],
          bkg_on = [Fin 4000], bkg_off = [Fin 2000], stabpoff = replicate 1024 (Fin 0),
          stabpon = replicate 1024 (Fin 1), FirstShotIsPumpOn = True\<rparr>,
       cm_settings = cmos_params\<lparr>cm_chunk_size := 101\<rparr>,
       cm_x_axis = Some \<lparr>ax_label = ''Pixels'', ax_len = 1, ax_index = 1\<rparr>,
       cm_y_axis = Some \<lparr>ax_label = ''Shot'', ax_len = 101, ax_index = 0\<rparr>\<rparr>
     = Inr ((''CMOS'', b # rest), v') \<and> dfp_name b = ''Image'' \<and> \<not> axes_match b"
proof -
  have "cmos_ini_detector None \<lparr>ncols = 1, rows = [[Fin 2], [Fin 4]]\<rparr> True
          (cmos_ini_attributes (cmos_params\<lparr>cm_chunk_size := 101\<rparr>))
        = Inr ((''Whatever info you want to log'', True),
      \<lparr>cm_controller = Some \<lparr>filename = ''ponoff_transient.npy'', pon = [Fin 4], poff = [Fin 2],
          bkg_on = [Fin 4000], bkg_off = [Fin 2000], stabpoff = replicate 1024 (Fin 0),
          stabpon = replicate 1024 (Fin 1), FirstShotIsPumpOn = True\<rparr>,
       cm_settings = cmos_params\<lparr>cm_chunk_size := 101\<rparr>,
       cm_x_axis = Some \<lparr>ax_label = ''Pixels'', ax_len = 1, ax_index = 1\<rparr>,
       cm_y_axis = Some \<lparr>ax_label = ''Shot'', ax_len = 101, ax_index = 0\<rparr>\<rparr>)"
    by (simp add: cmos_ini_detector_def Mock_SingleShot_init_def cmos_ini_attributes_def
                  cmos_set_axes_def cmos_params_def arange_len_def nrows_def)
  from cmos_image_axes_even [OF this] show ?thesis
    by (simp add: wf_arr_def cmos_params_def)
qed


section \<open>The stabilisation camera's image and axes\<close>

lemma stab_ini_detector_Inr:
  assumes "stab_ini_detector slave data coin v = Inr (r, v')"
  obtains c where "slave = Some c \<or> slave = None \<and> Mock_SingleShot_init ''ponoff_transient.npy'' data coin = Inr c"
    "v' = v\<lparr>sc_controller := Some c,
             sc_x_axis := Some \<lparr>ax_label = ''Pixels'', ax_len = length (pon c), ax_index = 0\<rparr>,
             sc_y_axis := Some \<lparr>ax_label = ''Shot'', ax_len = arange_len (sc_chunk_size (sc_settings v)),
                                ax_index = 1\<rparr>\<rparr>"
  using assms that
  by (auto simp: stab_ini_detector_def stab_set_axes_def split: option.splits sum.splits)

text \<open>
  With any noise and \<open>chunk_size \<ge> 0\<close>, a grab succeeds with one image of
  \<open>2 (chunk_size // 2)\<close> shots of 1024 pixels, emitted with the two axes of \<open>set_axes\<close>.
\<close>

lemma stab_grab_data_camera:
  assumes "sc_controller v = Some c" "sim_inv c" "sc_x_axis v = Some xa" "sc_y_axis v = Some ya"
    "0 \<le> sc_chunk_size (sc_settings v)"
  obtains N where "stab_grab_data rnd v = Inr ((''CMOS'',
      [\<lparr>dfp_name = ''Camera'', dfp_data = [D2 N], dfp_dim = ''Data2D'', dfp_labels = [''label1''],
        dfp_axes = [x_axis_kw 2 xa, y_axis_kw ya]\<rparr>]), v)"
    "nrows N = 2 * nat (sc_chunk_size (sc_settings v) div 2)" "ncols N = 1024"
    "N = add_noise (sc_amp_noise (sc_settings v)) rnd
           \<lparr>ncols = 1024, rows = concat (replicate (nat (sc_chunk_size (sc_settings v) div 2))
             (if FirstShotIsPumpOn c then [stabpon c, stabpoff c] else [stabpoff c, stabpon c]))\<rparr>"
proof -
  let ?n = "sc_chunk_size (sc_settings v) div 2"
  let ?T = "\<lparr>ncols = 1024, rows = concat (replicate (nat ?n)
             (if FirstShotIsPumpOn c then [stabpon c, stabpoff c] else [stabpoff c, stabpon c]))\<rparr>"
  have "grab_stab c ?n = Inr ?T"
    using grab_stab_rows [OF assms(2), of ?n] assms(5) by simp
  then have "stab_grab_data rnd v = Inr ((''CMOS'',
      [\<lparr>dfp_name = ''Camera'', dfp_data = [D2 (add_noise (sc_amp_noise (sc_settings v)) rnd ?T)],
        dfp_dim = ''Data2D'', dfp_labels = [''label1''], dfp_axes = [x_axis_kw 2 xa, y_axis_kw ya]\<rparr>]), v)"
    using assms(1,3,4) by (simp add: stab_grab_data_def Let_def)
  moreover have "nrows (add_noise (sc_amp_noise (sc_settings v)) rnd ?T) = 2 * nat ?n"
    by (simp only: add_noise_shape) (simp add: nrows_def)
  ultimately show ?thesis using that by simp
qed


text \<open>
  C12. After \<open>ini_detector\<close> as master, every grab of the stabilisation camera with
  \<open>chunk_size \<ge> 0\<close> succeeds with one image, and its axes (passed as \<open>x_axis=\<close>, placed
  on the pixel dimension, and \<open>y_axis=\<close>, placed on the shot dimension) match its shape
  exactly when \<open>chunk_size\<close> is even and the loaded spectrum has 1024 pixels: the image is
  \<open>2 (chunk_size // 2)\<close> shots of the 1024 stabilisation pixels, while \<open>set_axes\<close> sizes
  the \<open>Pixels\<close> axis by the spectrum and the \<open>Shot\<close> axis by \<open>chunk_size\<close>.
\<close>

theorem stab_camera_axes:
  assumes "stab_ini_detector None data coin0 (stab_ini_attributes st) = Inr (r, v)" "wf_arr data"
    "0 \<le> sc_chunk_size st"
  shows "\<exists>b. stab_grab_data rnd v = Inr ((''CMOS'', [b]), v) \<and>
           (axes_match b \<longleftrightarrow> even (sc_chunk_size st) \<and> ncols data = 1024)"
proof -
  obtain c where c: "Mock_SingleShot_init ''ponoff_transient.npy'' data coin0 = Inr c"
    and v: "v = (stab_ini_attributes st)\<lparr>sc_controller := Some c,
             sc_x_axis := Some \<lparr>ax_label = ''Pixels'', ax_len = length (pon c), ax_index = 0\<rparr>,
             sc_y_axis := Some \<lparr>ax_label = ''Shot'', ax_len = arange_len (sc_chunk_size st), ax_index = 1\<rparr>\<rparr>"
    using stab_ini_detector_Inr [OF assms(1)] by (auto simp: stab_ini_attributes_def)
  have inv: "sim_inv c" using assms(2) c by (rule Mock_SingleShot_init_inv)
  have pon: "length (pon c) = ncols data"
    using assms(2) c by (auto simp: Mock_SingleShot_init_def Let_def wf_arr_nth split: if_splits)
  obtain N where G: "stab_grab_data rnd v = Inr ((''CMOS'',
      [\<lparr>dfp_name = ''Camera'', dfp_data = [D2 N], dfp_dim = ''Data2D'', dfp_labels = [''label1''],
        dfp_axes = [x_axis_kw 2 \<lparr>ax_label = ''Pixels'', ax_len = length (pon c), ax_index = 0\<rparr>,
                    y_axis_kw \<lparr>ax_label = ''Shot'', ax_len = arange_len (sc_chunk_size st), ax_index = 1\<rparr>]\<rparr>]), v)"
    "nrows N = 2 * nat (sc_chunk_size st div 2)" "ncols N = 1024"
    by (rule stab_grab_data_camera [OF _ inv, of v])
       (use v assms(3) in \<open>simp_all add: stab_ini_attributes_def\<close>)
  have "(length (pon c) = 1024 \<and> 2 * nat (sc_chunk_size st div 2) = nat (sc_chunk_size st))
        \<longleftrightarrow> even (sc_chunk_size st) \<and> ncols data = 1024"
    using twice_half_nat [OF assms(3)] pon by auto
  with G show ?thesis by (simp add: axes_match_def arange_len_def x_axis_kw_def y_axis_kw_def)
qed

theorem stab_camera_axes_witness:
  "\<exists>b. stab_grab_data (\<lambda>i j. 0)
      \<lparr>sc_controller = Some \<lparr>filename = ''ponoff_transient.npy'', pon = [Fin 4], poff = [Fin 2],
          bkg_on = [Fin 4000], bkg_off = [Fin 2000], stabpoff = replicate 1024 (Fin 0),
          stabpon = replicate 1024 (Fin 1), FirstShotIsPumpOn = True\<rparr>,
       sc_settings = stab_params,
       sc_x_axis = Some \<lparr>ax_label = ''Pixels'', ax_len = 1, ax_index = 0\<rparr>,
       sc_y_axis = Some \<lparr>ax_label = ''Shot'', ax_len = 100, ax_index = 1\<rparr>\<rparr>
     = Inr ((''CMOS'', [b]),
      \<lparr>sc_controller = Some \<lparr>filename = ''ponoff_transient.npy'', pon = [Fin 4], poff = [Fin 2],
          bkg_on = [Fin 4000], bkg_off = [Fin 2000], stabpoff = replicate 1024 (Fin 0),
          stabpon = replicate 1024 (Fin 1), FirstShotIsPumpOn = True\<rparr>,
       sc_settings = stab_params,
       sc_x_axis = Some \<lparr>ax_label = ''Pixels'', ax_len = 1, ax_index = 0\<rparr>,
       sc_y_axis = Some \<lparr>ax_label = ''Shot'', ax_len = 100, ax_index = 1\<rparr>\<rparr>) \<and> \<not> axes_match b"
proof -
  have "stab_ini_detector None \<lparr>ncols = 1, rows = [[Fin 2], [Fin 4]]\<rparr> True (stab_ini_attributes stab_params)
        = Inr ((''Whatever info you want to log'', True),
      \<lparr>sc_controller = Some \<lparr>filename = ''ponoff_transient.npy'', pon = [Fin 4], poff = [Fin 2],
          bkg_on = [Fin 4000], bkg_off = [Fin 2000], stabpoff = replicate 1024 (Fin 0),
          stabpon = replicate 1024 (Fin 1), FirstShotIsPumpOn = True\<rparr>,
       sc_settings = stab_params,
       sc_x_axis = Some \<lparr>ax_label = ''Pixels'', ax_len = 1, ax_index = 0\<rparr>,
       sc_y_axis = Some \<lparr>ax_label = ''Shot'', ax_len = 100, ax_index = 1\<rparr>\<rparr>)"
    by (simp add: stab_ini_detector_def Mock_SingleShot_init_def stab_ini_attributes_def
                  stab_set_axes_def stab_params_def arange_len_def nrows_def)
  from stab_camera_axes [OF this] show ?thesis
    by (simp add: wf_arr_def stab_params_def)
qed


text \<open>
  C17. \<open>commit_settings\<close> does not rebuild the axes: after \<open>ini_detector\<close> as master
  with the image selected, changing \<open>chunk_size\<close> to an even \<open>n \<ge> 0\<close> (the host sets
  the value, then calls \<open>commit_settings\<close>) leaves a \<open>Shot\<close> axis that matches the next
  image only if \<open>n\<close> is the size the axis was built with.
\<close>

theorem cmos_chunk_change_stale_axis:
  assumes "cmos_ini_detector None data coin0 (cmos_ini_attributes st) = Inr (r, v)" "wf_arr data"
    "cm_twod_image st" "0 \<le> cm_chunk_size st" "0 \<le> n" "even n"
    "cmos_commit_settings ''chunk_size'' (v\<lparr>cm_settings := (cm_settings v)\<lparr>cm_chunk_size := n\<rparr>\<rparr>) = Inr ((), v')"
  shows "\<exists>b rest v''. cmos_grab_data coin rnd v' = Inr ((''CMOS'', b # rest), v'') \<and>
           dfp_name b = ''Image'' \<and> (axes_match b \<longleftrightarrow> n = cm_chunk_size st)"
proof -
  obtain c where c: "Mock_SingleShot_init ''ponoff_transient.npy'' data coin0 = Inr c"
    and v: "v = (cmos_ini_attributes st)\<lparr>cm_controller := Some c,
             cm_x_axis := Some \<lparr>ax_label = ''Pixels'', ax_len = length (pon c), ax_index = 1\<rparr>,
             cm_y_axis := Some \<lparr>ax_label = ''Shot'', ax_len = arange_len (cm_chunk_size st), ax_index = 0\<rparr>\<rparr>"
    using cmos_ini_detector_Inr [OF assms(1)] by (auto simp: cmos_ini_attributes_def)
  have v': "v' = v\<lparr>cm_settings := (cm_settings v)\<lparr>cm_chunk_size := n\<rparr>\<rparr>"
    using assms(7) by (simp add: cmos_commit_settings_def)
  have inv: "sim_inv c" using assms(2) c by (rule Mock_SingleShot_init_inv)
  obtain N rest where G: "cmos_grab_data coin rnd v' = Inr ((''CMOS'',
      \<lparr>dfp_name = ''Image'', dfp_data = [D2 N], dfp_dim = ''Data2D'', dfp_labels = [''label1''],
       dfp_axes = [x_axis_kw 2 \<lparr>ax_label = ''Pixels'', ax_len = length (pon c), ax_index = 1\<rparr>,
                   y_axis_kw \<lparr>ax_label = ''Shot'', ax_len = arange_len (cm_chunk_size st), ax_index = 0\<rparr>]\<rparr> # rest),
      v'\<lparr>cm_controller := Some (c\<lparr>FirstShotIsPumpOn := coin\<rparr>)\<rparr>)"
    "nrows N = 2 * nat (n div 2)" "ncols N = length (pon c)"
    by (rule cmos_grab_data_image [OF _ inv, of v'])
       (use v v' assms(3,5) in \<open>simp_all add: cmos_ini_attributes_def\<close>)
  have "2 * nat (n div 2) = nat n" using assms(5,6) twice_half_nat by blast
  then have "nrows N = ax_len \<lparr>ax_label = ''Shot'', ax_len = arange_len (cm_chunk_size st), ax_index = 0\<rparr>
               \<longleftrightarrow> n = cm_chunk_size st"
    using G(2) assms(4,5) by (auto simp: arange_len_def)
  with G show ?thesis by (simp add: axes_match_def x_axis_kw_def y_axis_kw_def)
qed

theorem cmos_chunk_change_stale_axis_witness:
  "\<exists>b rest v''. cmos_grab_data True (\<lambda>i j. 0)
      \<lparr>cm_controller = Some \<lparr>filename = ''ponoff_transient.npy'', pon = [Fin 4], poff = [Fin 2],
          bkg_on = [Fin 4000], bkg_off = [Fin 2000], stabpoff = replicate 1024 (Fin 0),
          stabpon = replicate 1024 (Fin 1), FirstShotIsPumpOn = True\<rparr>,
       cm_settings = cmos_params\<lparr>cm_chunk_size := 50\<rparr>,
       cm_x_axis = Some \<lparr>ax_label = ''Pixels'', ax_len = 1, ax_index = 1\<rparr>,
       cm_y_axis = Some \<lparr>ax_label = ''Shot'', ax_len = 100, ax_index = 0\<rparr>\<rparr>
     = Inr ((''CMOS'', b # rest), v'') \<and> dfp_name b = ''Image'' \<and> \<not> axes_match b"
proof -
  let ?v = "\<lparr>cm_controller = Some \<lparr>filename = ''ponoff_transient.npy'', pon = [Fin 4], poff = [Fin 2],
          bkg_on = [Fin 4000], bkg_off = [Fin 2000], stabpoff = replicate 1024 (Fin 0),
          stabpon = replicate 1024 (Fin 1), FirstShotIsPumpOn = True\<rparr>,
       cm_settings = cmos_params,
       cm_x_axis = Some \<lparr>ax_label = ''Pixels'', ax_len = 1, ax_index = 1\<rparr>,
       cm_y_axis = Some \<lparr>ax_label = ''Shot'', ax_len = 100, ax_index = 0\<rparr>\<rparr>"
  have i: "cmos_ini_detector None \<lparr>ncols = 1, rows = [[Fin 2], [Fin 4]]\<rparr> True (cmos_ini_attributes cmos_params)
        = Inr ((''Whatever info you want to log'', True), ?v)"
    by (simp add: cmos_ini_detector_def Mock_SingleShot_init_def cmos_ini_attributes_def
                  cmos_set_axes_def cmos_params_def arange_len_def nrows_def)
  have c: "cmos_commit_settings ''chunk_size'' (?v\<lparr>cm_settings := (cm_settings ?v)\<lparr>cm_chunk_size := 50\<rparr>\<rparr>)
        = Inr ((), ?v\<lparr>cm_settings := cmos_params\<lparr>cm_chunk_size := 50\<rparr>\<rparr>)"
    by (simp add: cmos_commit_settings_def)
  from cmos_chunk_change_stale_axis [OF i _ _ _ _ _ c, of True "\<lambda>i j. 0"]
  show ?thesis by (simp add: wf_arr_def cmos_params_def)
qed




lemma cmos_ini_master:
  assumes "cmos_ini_detector None data coin0 (cmos_ini_attributes st) = Inr (r, v)" "wf_arr data"
  obtains c where "cm_controller v = Some c" "sim_inv c"
    "cm_x_axis v = Some \<lparr>ax_label = ''Pixels'', ax_len = ncols data, ax_index = 1\<rparr>"
    "cm_y_axis v = Some \<lparr>ax_label = ''Shot'', ax_len = arange_len (cm_chunk_size st), ax_index = 0\<rparr>"
    "length (pon c) = ncols data" "cm_settings v = st"
proof -
  obtain c where c: "Mock_SingleShot_init ''ponoff_transient.npy'' data coin0 = Inr c"
    and v: "v = (cmos_ini_attributes st)\<lparr>cm_controller := Some c,
             cm_x_axis := Some \<lparr>ax_label = ''Pixels'', ax_len = length (pon c), ax_index = 1\<rparr>,
             cm_y_axis := Some \<lparr>ax_label = ''Shot'', ax_len = arange_len (cm_chunk_size st), ax_index = 0\<rparr>\<rparr>"
    using cmos_ini_detector_Inr [OF assms(1)] by (auto simp: cmos_ini_attributes_def)
  have inv: "sim_inv c" using assms(2) c by (rule Mock_SingleShot_init_inv)
  have pon: "length (pon c) = ncols data"
    using assms(2) c by (auto simp: Mock_SingleShot_init_def Let_def wf_arr_nth split: if_splits)
  show ?thesis
    by (rule that [OF _ inv _ _ pon]) (use v pon in \<open>simp_all add: cmos_ini_attributes_def\<close>)
qed

text \<open>
  C24. After \<open>ini_detector\<close> as master on a well-formed file array, every grab with
  \<open>chunk_size \<ge> 0\<close> succeeds whatever the flags and the random draws, every array it
  emits is well-formed and as wide as the spectrum (the 2D image) or of the spectrum's
  length (the 1D vectors), and every 1D block carries the single pixel axis of that length
  (the \<open>x_axis=\<close> keyword places it on the vector's only dimension), which matches it.
\<close>

theorem cmos_grab_well_formed:
  assumes "cmos_ini_detector None data coin0 (cmos_ini_attributes st) = Inr (r, v)" "wf_arr data"
    "0 \<le> cm_chunk_size st"
  shows "\<exists>bs v'. cmos_grab_data coin rnd v = Inr ((''CMOS'', bs), v') \<and>
           (\<forall>b \<in> set bs. list_all (\<lambda>x. case x of D1 u \<Rightarrow> length u = ncols data
                                              | D2 N \<Rightarrow> wf_arr N \<and> ncols N = ncols data) (dfp_data b)) \<and>
           (\<forall>b \<in> set bs. dfp_dim b = ''Data1D'' \<longrightarrow>
              dfp_axes b = [\<lparr>ax_label = ''Pixels'', ax_len = ncols data, ax_index = 0\<rparr>] \<and> axes_match b)"
proof -
  obtain c where c: "cm_controller v = Some c" "sim_inv c"
    "cm_x_axis v = Some \<lparr>ax_label = ''Pixels'', ax_len = ncols data, ax_index = 1\<rparr>"
    "cm_y_axis v = Some \<lparr>ax_label = ''Shot'', ax_len = arange_len (cm_chunk_size st), ax_index = 0\<rparr>"
    "length (pon c) = ncols data" "cm_settings v = st"
    by (rule cmos_ini_master [OF assms(1,2)])
  have ch: "0 \<le> cm_chunk_size (cm_settings v)" using c(6) assms(3) by simp
  show ?thesis
    by (rule cmos_grab_data_blocks [OF c(1-4) ch, of coin rnd])
       (use c(5) in \<open>auto simp: x_axis_kw_def axes_match_def\<close>)
qed

theorem cmos_grab_well_formed_witness:
  "\<exists>bs v'. cmos_grab_data True (\<lambda>i j. 0)
      \<lparr>cm_controller = Some \<lparr>filename = ''ponoff_transient.npy'', pon = [Fin 4], poff = [Fin 2],
          bkg_on = [Fin 4000], bkg_off = [Fin 2000], stabpoff = replicate 1024 (Fin 0),
          stabpon = replicate 1024 (Fin 1), FirstShotIsPumpOn = True\<rparr>,
       cm_settings = cmos_params\<lparr>cm_ponoff := True, cm_dRoverR := True\<rparr>,
       cm_x_axis = Some \<lparr>ax_label = ''Pixels'', ax_len = 1, ax_index = 1\<rparr>,
       cm_y_axis = Some \<lparr>ax_label = ''Shot'', ax_len = 100, ax_index = 0\<rparr>\<rparr>
     = Inr ((''CMOS'', bs), v') \<and>
     (\<forall>b \<in> set bs. list_all (\<lambda>x. case x of D1 u \<Rightarrow> length u = 1 | D2 N \<Rightarrow> wf_arr N \<and> ncols N = 1) (dfp_data b)) \<and>
     (\<forall>b \<in> set bs. dfp_dim b = ''Data1D'' \<longrightarrow>
        dfp_axes b = [\<lparr>ax_label = ''Pixels'', ax_len = 1, ax_index = 0\<rparr>] \<and> axes_match b)"
proof -
  have ini: "cmos_ini_detector None \<lparr>ncols = 1, rows = [[Fin 2], [Fin 4]]\<rparr> True
          (cmos_ini_attributes (cmos_params\<lparr>cm_ponoff := True, cm_dRoverR := True\<rparr>))
        = Inr ((''Whatever info you want to log'', True),
      \<lparr>cm_controller = Some \<lparr>filename = ''ponoff_transient.npy'', pon = [Fin 4], poff = [Fin 2],
          bkg_on = [Fin 4000], bkg_off = [Fin 2000], stabpoff = replicate 1024 (Fin 0),
          stabpon = replicate 1024 (Fin 1), FirstShotIsPumpOn = True\<rparr>,
       cm_settings = cmos_params\<lparr>cm_ponoff := True, cm_dRoverR := True\<rparr>,
       cm_x_axis = Some \<lparr>ax_label = ''Pixels'', ax_len = 1, ax_index = 1\<rparr>,
       cm_y_axis = Some \<lparr>ax_label = ''Shot'', ax_len = 100, ax_index = 0\<rparr>\<rparr>)"
    by (simp add: cmos_ini_detector_def Mock_SingleShot_init_def cmos_ini_attributes_def
                  cmos_set_axes_def cmos_params_def arange_len_def nrows_def)
  have wf: "wf_arr \<lparr>ncols = 1, rows = [[Fin 2], [Fin 4]]\<rparr>" by (simp add: wf_arr_def)
  have ch: "0 \<le> cm_chunk_size (cmos_params\<lparr>cm_ponoff := True, cm_dRoverR := True\<rparr>)"
    by (simp add: cmos_params_def)
  show ?thesis
    using cmos_grab_well_formed [OF ini wf ch, of True "\<lambda>i j. 0", unfolded arr2.select_convs] by simp
qed



end
