(* ===== verification/Spectrum1D.thy ===== *)
theory Spectrum1D
  imports Plugin
begin

text \<open>
  The 1D viewer \<open>DAQ_1DViewer_XUVSpectrum\<close> (\<open>plugins_1D/daq_1Dviewer_XUVSpectrum.py\<close>)
  over the file loader \<open>HHG_Spectrum\<close> (\<open>hardware/hhg_spectrum.py\<close>). The loader's
  state is the spectrum it reads (an input of the model: the HDF5 read is not modelled),
  as real numbers. A grab adds uniform noise to the spectrum and moves it along the pixel
  axis by a random shift with \<open>np.interp\<close>, modelled here as numpy's piecewise-linear
  interpolation with constant extension beyond the sample points. The random draws are
  inputs: the noise samples and the one normal sample of the shift.
\<close>

section \<open>The spectrum loader\<close>

record hhg_spectrum =
  hhg_filename :: string
  hhg_data :: "real list"

definition HHG_Spectrum_init :: "string \<Rightarrow> real list \<Rightarrow> hhg_spectrum" where
  "HHG_Spectrum_init fn data = \<lparr>hhg_filename = fn, hhg_data = data\<rparr>"

section \<open>np.interp\<close>

text \<open>
  The value at \<open>x\<close> of the polyline through the sample points \<open>(xp_j, fp_j)\<close>, for
  \<open>x\<close> at or right of the first point: the segment that holds \<open>x\<close>, or the last value
  right of the last point.
\<close>

fun interp_seg :: "real \<Rightarrow> (real \<times> real) list \<Rightarrow> real" where
  "interp_seg x [] = 0"
| "interp_seg x [(a, fa)] = fa"
| "interp_seg x ((a, fa) # (b, fb) # ps) =
     (if x < b then fa + (x - a) * (fb - fa) / (b - a) else interp_seg x ((b, fb) # ps))"

definition interp_at :: "real \<Rightarrow> real list \<Rightarrow> real list \<Rightarrow> real" where
  "interp_at x xp fp = (if x < hd xp then hd fp else interp_seg x (zip xp fp))"

text \<open>\<open>np.interp(x, xp, fp)\<close>: a \<open>ValueError\<close> for no sample points or lists of different lengths.\<close>

definition np_interp :: "real list \<Rightarrow> real list \<Rightarrow> real list \<Rightarrow> real list result" where
  "np_interp x xp fp =
     (if xp = [] \<or> length xp \<noteq> length fp then Inl ValueError else Inr (map (\<lambda>t. interp_at t xp fp) x))"

section \<open>The viewer\<close>

record xuv_settings =
  xs_amp_noise :: real
  xs_shift_noise :: real

definition xuv_params :: xuv_settings where
  "xuv_params = \<lparr>xs_amp_noise = 2000, xs_shift_noise = 5\<rparr>"

record xuv_viewer =
  xv_background :: "fl list"
  xv_controller :: "hhg_spectrum option"
  xv_x_axis :: "axis option"
  xv_settings :: xuv_settings

text \<open>\<open>ini_attributes\<close>: an empty background, no controller; \<open>x_axis\<close> is not set yet.\<close>

definition xuv_ini_attributes :: "xuv_settings \<Rightarrow> xuv_viewer" where
  "xuv_ini_attributes st = \<lparr>xv_background = [], xv_controller = None, xv_x_axis = None, xv_settings = st\<rparr>"

text \<open>
  \<open>ini_detector(controller)\<close>: the slave's controller or a new \<open>HHG_Spectrum()\<close>, a
  pixel axis over the spectrum, and one emission of the spectrum. In the source the
  \<open>dim\<close>, \<open>labels\<close> and \<open>axes\<close> arguments close over \<open>DataToExport\<close>, not over
  \<open>DataFromPlugins\<close>: the emitted block carries no label and no axis.
\<close>

definition xuv_ini_detector ::
  "hhg_spectrum option \<Rightarrow> real list \<Rightarrow> xuv_viewer \<Rightarrow> (xuv_viewer, (string \<times> bool) \<times> emitted) outcome" where
  "xuv_ini_detector slave data v =
     (let c = (case slave of Some c \<Rightarrow> c | None \<Rightarrow> HHG_Spectrum_init ''HHG_20240402_Numerobis.h5'' data);
          xa = \<lparr>ax_label = ''Pixels'', ax_len = length (hhg_data c), ax_index = 0\<rparr>
      in Inr (((''Whatever info you want to log'', True),
               (''HHG'', [\<lparr>dfp_name = ''Mock1'', dfp_data = [D1 (map Fin (hhg_data c))], dfp_dim = ''Data1D'',
                          dfp_labels = [], dfp_axes = []\<rparr>])),
              v\<lparr>xv_controller := Some c, xv_x_axis := Some xa\<rparr>))"

text \<open>\<open>take_background\<close>: a background of 5.5 on every pixel, stored and emitted.\<close>

definition xuv_take_background :: "xuv_viewer \<Rightarrow> (xuv_viewer, emitted) outcome" where
  "xuv_take_background v =
     (case attr (xv_x_axis v) of Inl e \<Rightarrow> Inl (e, v) | Inr xa \<Rightarrow>
      (let bkg = replicate (ax_len xa) (Fin (55 / 10)) in
       Inr ((''HHG'', [\<lparr>dfp_name = ''Mock1'', dfp_data = [D1 bkg], dfp_dim = ''Data1D'',
                         dfp_labels = [''background''], dfp_axes = [xa]\<rparr>]),
            v\<lparr>xv_background := bkg\<rparr>)))"

definition xuv_commit_settings :: "string \<Rightarrow> xuv_viewer \<Rightarrow> (xuv_viewer, emitted list) outcome" where
  "xuv_commit_settings pname v =
     (if pname = ''take_background'' then
        (case xuv_take_background v of Inl (e, v') \<Rightarrow> Inl (e, v') | Inr (out, v') \<Rightarrow> Inr ([out], v'))
      else Inr ([], v))"

text \<open>
  \<open>grab_data\<close>: the spectrum plus \<open>amp_noise\<close> times uniform samples (broadcast against
  the axis length), then \<open>np.interp(x, x + shift_noise * g, data_tot)\<close> over the pixel
  positions \<open>x = arange(n)\<close>, \<open>g\<close> the normal sample.
\<close>

definition xuv_grab_data :: "(nat \<Rightarrow> real) \<Rightarrow> real \<Rightarrow> xuv_viewer \<Rightarrow> (xuv_viewer, emitted) outcome" where
  "xuv_grab_data rnd g v =
     (let st = xv_settings v in
      case attr (xv_controller v) of Inl e \<Rightarrow> Inl (e, v) | Inr c \<Rightarrow>
      case attr (xv_x_axis v) of Inl e \<Rightarrow> Inl (e, v) | Inr xa \<Rightarrow>
      (let d = hhg_data c; n = ax_len xa in
       case bdim (length d) n of None \<Rightarrow> Inl (BroadcastError, v) | Some r \<Rightarrow>
       (let data_tot = map (\<lambda>i. d ! bidx (length d) i + xs_amp_noise st * rnd (bidx n i)) [0..<r];
            x = map real [0..<n];
            xp = map (\<lambda>t. t + xs_shift_noise st * g) x
        in case np_interp x xp data_tot of
             Inl e \<Rightarrow> Inl (e, v)
           | Inr out \<Rightarrow>
               Inr ((''HHG'', [\<lparr>dfp_name = ''Mock1'', dfp_data = [D1 (map Fin out)], dfp_dim = ''Data1D'',
                                 dfp_labels = [''data''], dfp_axes = [xa]\<rparr>]), v))))"


section \<open>Lemmas on np.interp\<close>

lemma interp_seg_exact:
  "sorted_wrt (<) (map fst ps) \<Longrightarrow> i < length ps \<Longrightarrow> x = fst (ps ! i) \<Longrightarrow> interp_seg x ps = snd (ps ! i)"
proof (induction x ps arbitrary: i rule: interp_seg.induct)
  case (3 x a fa b fb ps)
  show ?case
  proof (cases i)
    case 0
    with "3.prems" show ?thesis by simp
  next
    case (Suc j)
    have "b \<le> x"
    proof (cases j)
      case (Suc j')
      with "3.prems" \<open>i = Suc j\<close> show ?thesis by (auto simp: less_imp_le)
    qed (use "3.prems" \<open>i = Suc j\<close> in simp)
    with "3.IH" [of j] "3.prems" Suc show ?thesis by simp
  qed
qed auto

lemma interp_seg_right:
  "sorted_wrt (<) (map fst ps) \<Longrightarrow> ps \<noteq> [] \<Longrightarrow> fst (last ps) \<le> x \<Longrightarrow> interp_seg x ps = snd (last ps)"
proof (induction x ps rule: interp_seg.induct)
  case (3 x a fa b fb ps)
  have "b \<le> fst (last ((b, fb) # ps))"
    using "3.prems"(1) by (cases ps rule: rev_cases) auto
  with "3.prems" "3.IH" show ?case by simp
qed auto

text \<open>A point of a segment lies between the bounds of its two ends.\<close>

lemma segment_bounds:
  fixes lo hi fa fb a b x :: real
  assumes "lo \<le> fa" "fa \<le> hi" "lo \<le> fb" "fb \<le> hi" "a \<le> x" "x < b"
  shows "lo \<le> fa + (x - a) * (fb - fa) / (b - a) \<and> fa + (x - a) * (fb - fa) / (b - a) \<le> hi"
proof -
  define t where "t = (x - a) / (b - a)"
  have t: "0 \<le> t" "t \<le> 1" using assms(5,6) by (simp_all add: t_def)
  have "fa + (x - a) * (fb - fa) / (b - a) = fa + t * (fb - fa)"
    by (simp add: t_def)
  also have "\<dots> = (1 - t) * fa + t * fb"
    by (simp add: algebra_simps)
  finally have eq: "fa + (x - a) * (fb - fa) / (b - a) = (1 - t) * fa + t * fb" .
  have "(1 - t) * lo + t * lo \<le> (1 - t) * fa + t * fb"
    using t assms(1,3) by (intro add_mono mult_left_mono) simp_all
  moreover have "(1 - t) * fa + t * fb \<le> (1 - t) * hi + t * hi"
    using t assms(2,4) by (intro add_mono mult_left_mono) simp_all
  ultimately show ?thesis unfolding eq by (simp add: algebra_simps)
qed

lemma interp_seg_bounds:
  "sorted_wrt (<) (map fst ps) \<Longrightarrow> ps \<noteq> [] \<Longrightarrow> fst (hd ps) \<le> x \<Longrightarrow>
   (\<And>p. p \<in> set ps \<Longrightarrow> lo \<le> snd p \<and> snd p \<le> hi) \<Longrightarrow> lo \<le> interp_seg x ps \<and> interp_seg x ps \<le> hi"
proof (induction x ps rule: interp_seg.induct)
  case (3 x a fa b fb ps)
  show ?case
  proof (cases "x < b")
    case True
    from "3.prems"(4) [of "(a, fa)"] "3.prems"(4) [of "(b, fb)"]
    have "lo \<le> fa" "fa \<le> hi" "lo \<le> fb" "fb \<le> hi" by simp_all
    with True "3.prems"(3) show ?thesis by (simp add: segment_bounds)
  next
    case False
    with "3.prems" "3.IH" show ?thesis by simp
  qed
qed auto


text \<open>
  Interpolating the pixel positions \<open>0, \<dots>, n - 1\<close> on sample points moved by a whole
  number \<open>s\<close> of pixels reads the sample \<open>s\<close> pixels to the left, clamped to the first
  and the last sample.
\<close>

lemma interp_at_shift:
  assumes "length fp = n" "0 < n"
  shows "interp_at (real i) (map (\<lambda>j. real j + of_int s) [0..<n]) fp
           = fp ! nat (min (max (int i - s) 0) (int n - 1))"
proof -
  let ?xp = "map (\<lambda>j. real j + of_int s) [0..<n]"
  let ?ps = "zip ?xp fp"
  have srt: "sorted_wrt (<) (map fst ?ps)"
    using assms(1) by (simp add: map_fst_zip sorted_wrt_map sorted_wrt_upt)
  have nth: "fst (?ps ! k) = real k + of_int s" "snd (?ps ! k) = fp ! k" if "k < n" for k
    using that assms(1) by simp_all
  have hd: "hd ?xp = of_int s" using assms(2) by (simp add: hd_map upt_conv_Cons)
  consider (left) "int i < s" | (mid) "s \<le> int i" "int i - s \<le> int n - 1" | (right) "int n - 1 < int i - s"
    by linarith
  then show ?thesis
  proof cases
    case left
    then have "real i < of_int s" by linarith
    moreover have "fp \<noteq> []" using assms by auto
    ultimately show ?thesis using hd by (simp add: interp_at_def hd_conv_nth)
  next
    case mid
    define k where "k = nat (int i - s)"
    have k: "k < n" "real i = real k + of_int s" using mid by (simp_all add: k_def)
    then have "interp_seg (real i) ?ps = fp ! k"
      using interp_seg_exact [OF srt, of k] nth assms(1) by simp
    with k(2) hd mid show ?thesis by (simp add: interp_at_def k_def)
  next
    case right
    have ne: "?ps \<noteq> []" and len: "length ?ps = n" using assms by auto
    have last: "last ?ps = ?ps ! (n - 1)" using ne len by (simp add: last_conv_nth)
    have "fst (last ?ps) \<le> real i" using right assms(2) by (simp add: last nth)
    then have "interp_seg (real i) ?ps = fp ! (n - 1)"
      using interp_seg_right [OF srt ne] last nth assms(2) by simp
    moreover have "\<not> real i < of_int s" using right assms(2) by linarith
    ultimately have "interp_at (real i) ?xp fp = fp ! (n - 1)" using hd by (simp add: interp_at_def)
    moreover have "nat (min (max (int i - s) 0) (int n - 1)) = n - 1" using right by linarith
    ultimately show ?thesis by (simp only:)
  qed
qed


lemma interp_at_bounds:
  assumes "sorted_wrt (<) xp" "length xp = length fp" "fp \<noteq> []"
  shows "Min (set fp) \<le> interp_at x xp fp \<and> interp_at x xp fp \<le> Max (set fp)"
proof (cases "x < hd xp")
  case True
  with assms(3) show ?thesis by (simp add: interp_at_def)
next
  case False
  let ?ps = "zip xp fp"
  have "xp \<noteq> []" using assms(2,3) by auto
  then have "?ps \<noteq> []" "fst (hd ?ps) = hd xp" using assms(2,3)
    by (auto simp: neq_Nil_conv)
  moreover have "sorted_wrt (<) (map fst ?ps)" using assms(1,2) by (simp add: map_fst_zip)
  moreover have "Min (set fp) \<le> snd p \<and> snd p \<le> Max (set fp)" if "p \<in> set ?ps" for p
  proof -
    obtain a b where "p = (a, b)" by fastforce
    with that have "snd p \<in> set fp" by (auto dest: set_zip_rightD)
    then show ?thesis by simp
  qed
  ultimately show ?thesis using False interp_seg_bounds [of ?ps x "Min (set fp)" "Max (set fp)"]
    by (simp add: interp_at_def)
qed

section \<open>The viewer's operations\<close>

lemma xuv_ini_master:
  "xuv_ini_detector None d v = Inr (r, v') \<Longrightarrow>
   v' = v\<lparr>xv_controller := Some \<lparr>hhg_filename = ''HHG_20240402_Numerobis.h5'', hhg_data = d\<rparr>,
          xv_x_axis := Some \<lparr>ax_label = ''Pixels'', ax_len = length d, ax_index = 0\<rparr>\<rparr>"
  by (simp add: xuv_ini_detector_def HHG_Spectrum_init_def)

text \<open>
  With the axis built over the spectrum, a grab emits the interpolated noisy spectrum:
  pixel \<open>i\<close> is \<open>np.interp\<close> at \<open>i\<close> on the sample points \<open>j + shift_noise g\<close>.
\<close>

lemma xuv_grab_data_eq:
  fixes rnd :: "nat \<Rightarrow> real"
  assumes "xv_controller v = Some c" "xv_x_axis v = Some xa" "ax_len xa = length (hhg_data c)"
    "hhg_data c \<noteq> []"
  defines "n \<equiv> length (hhg_data c)"
  defines "tot \<equiv> map (\<lambda>i. hhg_data c ! i + xs_amp_noise (xv_settings v) * rnd i) [0..<n]"
  shows "xuv_grab_data rnd g v = Inr ((''HHG'',
           [\<lparr>dfp_name = ''Mock1'',
             dfp_data = [D1 (map (\<lambda>i. Fin (interp_at (real i)
                          (map (\<lambda>j. real j + xs_shift_noise (xv_settings v) * g) [0..<n]) tot)) [0..<n])],
             dfp_dim = ''Data1D'', dfp_labels = [''data''], dfp_axes = [xa]\<rparr>]), v)"
proof -
  have "map (\<lambda>i. hhg_data c ! bidx n i + xs_amp_noise (xv_settings v) * rnd (bidx n i)) [0..<n] = tot"
    by (simp add: tot_def)
  moreover have "length tot = n" "n \<noteq> 0" using assms(4) by (simp_all add: tot_def n_def)
  ultimately show ?thesis using assms(1-3)
    by (simp add: xuv_grab_data_def Let_def np_interp_def bdim_def n_def comp_def)
qed

lemma xuv_grab_data_background:
  "xuv_grab_data rnd g (v\<lparr>xv_background := b\<rparr>) =
     (case xuv_grab_data rnd g v of Inl (e, w) \<Rightarrow> Inl (e, w\<lparr>xv_background := b\<rparr>)
      | Inr (out, w) \<Rightarrow> Inr (out, w\<lparr>xv_background := b\<rparr>))"
  by (simp add: xuv_grab_data_def Let_def split: sum.split option.split)


section \<open>Properties of the viewer\<close>

text \<open>
  C14. After \<open>ini_detector\<close> as master on a non-empty spectrum \<open>d\<close>, a grab whose random
  shift \<open>shift_noise \<times> g\<close> is a whole number \<open>s\<close> of pixels emits the noisy spectrum moved
  \<open>s\<close> pixels to the right, the first (for \<open>s > 0\<close>) or last (for \<open>s < 0\<close>) value repeated at
  the edge; with \<open>s = 0\<close> it is the noisy spectrum itself.
\<close>

theorem xuv_grab_whole_pixel_shift:
  fixes rnd :: "nat \<Rightarrow> real"
  assumes "xuv_ini_detector None d (xuv_ini_attributes st) = Inr (r, v)" "d \<noteq> []"
    "xs_shift_noise st * g = of_int s"
  defines "tot \<equiv> map (\<lambda>i. d ! i + xs_amp_noise st * rnd i) [0..<length d]"
  shows "xuv_grab_data rnd g v = Inr ((''HHG'',
           [\<lparr>dfp_name = ''Mock1'',
             dfp_data = [D1 (map (\<lambda>i. Fin (tot ! nat (min (max (int i - s) 0) (int (length d) - 1))))
                                [0..<length d])],
             dfp_dim = ''Data1D'', dfp_labels = [''data''],
             dfp_axes = [\<lparr>ax_label = ''Pixels'', ax_len = length d, ax_index = 0\<rparr>]\<rparr>]), v)"
proof -
  note v = xuv_ini_master [OF assms(1)]
  have "xuv_grab_data rnd g v = Inr ((''HHG'',
           [\<lparr>dfp_name = ''Mock1'',
             dfp_data = [D1 (map (\<lambda>i. Fin (interp_at (real i)
                          (map (\<lambda>j. real j + of_int s) [0..<length d]) tot)) [0..<length d])],
             dfp_dim = ''Data1D'', dfp_labels = [''data''],
             dfp_axes = [\<lparr>ax_label = ''Pixels'', ax_len = length d, ax_index = 0\<rparr>]\<rparr>]), v)"
    using xuv_grab_data_eq [of v _ _ rnd g] v assms(2,3) by (simp add: tot_def xuv_ini_attributes_def)
  moreover have "length tot = length d" "0 < length d" using assms(2) by (simp_all add: tot_def)
  ultimately show ?thesis by (simp add: interp_at_shift)
qed

theorem xuv_grab_whole_pixel_shift_witness:
  "xuv_grab_data (\<lambda>i. 0) (1 / 5)
     \<lparr>xv_background = [], xv_controller = Some \<lparr>hhg_filename = ''HHG_20240402_Numerobis.h5'', hhg_data = [1, 2, 3]\<rparr>,
      xv_x_axis = Some \<lparr>ax_label = ''Pixels'', ax_len = 3, ax_index = 0\<rparr>, xv_settings = xuv_params\<rparr>
   = Inr ((''HHG'', [\<lparr>dfp_name = ''Mock1'', dfp_data = [D1 [Fin 1, Fin 1, Fin 2]], dfp_dim = ''Data1D'',
             dfp_labels = [''data''], dfp_axes = [\<lparr>ax_label = ''Pixels'', ax_len = 3, ax_index = 0\<rparr>]\<rparr>]),
      \<lparr>xv_background = [], xv_controller = Some \<lparr>hhg_filename = ''HHG_20240402_Numerobis.h5'', hhg_data = [1, 2, 3]\<rparr>,
       xv_x_axis = Some \<lparr>ax_label = ''Pixels'', ax_len = 3, ax_index = 0\<rparr>, xv_settings = xuv_params\<rparr>)"
proof -
  have "xuv_ini_detector None [1, 2, 3] (xuv_ini_attributes xuv_params)
        = Inr (((''Whatever info you want to log'', True),
                (''HHG'', [\<lparr>dfp_name = ''Mock1'', dfp_data = [D1 (map Fin [1, 2, 3])], dfp_dim = ''Data1D'',
                           dfp_labels = [], dfp_axes = []\<rparr>])),
      \<lparr>xv_background = [], xv_controller = Some \<lparr>hhg_filename = ''HHG_20240402_Numerobis.h5'', hhg_data = [1, 2, 3]\<rparr>,
       xv_x_axis = Some \<lparr>ax_label = ''Pixels'', ax_len = 3, ax_index = 0\<rparr>, xv_settings = xuv_params\<rparr>)"
    by (simp add: xuv_ini_detector_def xuv_ini_attributes_def HHG_Spectrum_init_def)
  from xuv_grab_whole_pixel_shift [OF this, of "1 / 5" 1 "\<lambda>i. 0"]
  show ?thesis by (simp add: xuv_params_def upt_rec)
qed


text \<open>
  C15. After \<open>ini_detector\<close> as master on a non-empty spectrum, every grab succeeds
  whatever the random draws, emits one value per pixel, and every emitted value lies
  between the least and the greatest value of the noisy spectrum: the random shift
  interpolates and clamps, it never extrapolates.
\<close>

theorem xuv_grab_bounds:
  fixes rnd :: "nat \<Rightarrow> real"
  assumes "xuv_ini_detector None d (xuv_ini_attributes st) = Inr (r, v)" "d \<noteq> []"
  defines "tot \<equiv> map (\<lambda>i. d ! i + xs_amp_noise st * rnd i) [0..<length d]"
  shows "\<exists>out. xuv_grab_data rnd g v = Inr ((''HHG'',
           [\<lparr>dfp_name = ''Mock1'', dfp_data = [D1 (map Fin out)], dfp_dim = ''Data1D'',
             dfp_labels = [''data''], dfp_axes = [\<lparr>ax_label = ''Pixels'', ax_len = length d, ax_index = 0\<rparr>]\<rparr>]), v)
         \<and> length out = length d \<and> (\<forall>y \<in> set out. Min (set tot) \<le> y \<and> y \<le> Max (set tot))"
proof -
  note v = xuv_ini_master [OF assms(1)]
  let ?xp = "map (\<lambda>j. real j + xs_shift_noise st * g) [0..<length d]"
  let ?out = "map (\<lambda>i. interp_at (real i) ?xp tot) [0..<length d]"
  have "xuv_grab_data rnd g v = Inr ((''HHG'',
           [\<lparr>dfp_name = ''Mock1'', dfp_data = [D1 (map Fin ?out)], dfp_dim = ''Data1D'',
             dfp_labels = [''data''], dfp_axes = [\<lparr>ax_label = ''Pixels'', ax_len = length d, ax_index = 0\<rparr>]\<rparr>]), v)"
    using xuv_grab_data_eq [of v _ _ rnd g] v assms(2) by (simp add: tot_def xuv_ini_attributes_def comp_def)
  moreover have "Min (set tot) \<le> y \<and> y \<le> Max (set tot)" if "y \<in> set ?out" for y
  proof -
    have srt: "sorted_wrt (<) ?xp" by (simp add: sorted_wrt_map sorted_wrt_upt)
    have len: "length ?xp = length tot" "tot \<noteq> []" using assms(2) by (simp_all add: tot_def)
    from that obtain i where "y = interp_at (real i) ?xp tot" by auto
    with interp_at_bounds [OF srt len] show ?thesis by simp
  qed
  ultimately show ?thesis by (intro exI [of _ ?out]) simp
qed

theorem xuv_grab_bounds_witness:
  "\<exists>out. xuv_grab_data (\<lambda>i. 1 / 2) (1 / 10)
     \<lparr>xv_background = [], xv_controller = Some \<lparr>hhg_filename = ''HHG_20240402_Numerobis.h5'', hhg_data = [1, 2, 3]\<rparr>,
      xv_x_axis = Some \<lparr>ax_label = ''Pixels'', ax_len = 3, ax_index = 0\<rparr>, xv_settings = xuv_params\<rparr>
   = Inr ((''HHG'', [\<lparr>dfp_name = ''Mock1'', dfp_data = [D1 (map Fin out)], dfp_dim = ''Data1D'',
             dfp_labels = [''data''], dfp_axes = [\<lparr>ax_label = ''Pixels'', ax_len = 3, ax_index = 0\<rparr>]\<rparr>]),
      \<lparr>xv_background = [], xv_controller = Some \<lparr>hhg_filename = ''HHG_20240402_Numerobis.h5'', hhg_data = [1, 2, 3]\<rparr>,
       xv_x_axis = Some \<lparr>ax_label = ''Pixels'', ax_len = 3, ax_index = 0\<rparr>, xv_settings = xuv_params\<rparr>)
   \<and> length out = 3 \<and> (\<forall>y \<in> set out. 1001 \<le> y \<and> y \<le> 1003)"
proof -
  have "xuv_ini_detector None [1, 2, 3] (xuv_ini_attributes xuv_params)
        = Inr (((''Whatever info you want to log'', True),
                (''HHG'', [\<lparr>dfp_name = ''Mock1'', dfp_data = [D1 (map Fin [1, 2, 3])], dfp_dim = ''Data1D'',
                           dfp_labels = [], dfp_axes = []\<rparr>])),
      \<lparr>xv_background = [], xv_controller = Some \<lparr>hhg_filename = ''HHG_20240402_Numerobis.h5'', hhg_data = [1, 2, 3]\<rparr>,
       xv_x_axis = Some \<lparr>ax_label = ''Pixels'', ax_len = 3, ax_index = 0\<rparr>, xv_settings = xuv_params\<rparr>)"
    by (simp add: xuv_ini_detector_def xuv_ini_attributes_def HHG_Spectrum_init_def)
  from xuv_grab_bounds [OF this, of "\<lambda>i. 1 / 2" "1 / 10"]
  show ?thesis by (simp add: xuv_params_def upt_rec numeral_3_eq_3)
qed

text \<open>
  C16. The background that \<open>take_background\<close> stores is never read: after
  \<open>ini_detector\<close> and a \<open>take_background\<close> from \<open>commit_settings\<close>, the background is
  5.5 on every pixel, and a grab emits exactly what it emits without it.
\<close>

theorem xuv_background_unused:
  assumes "xuv_ini_detector None d (xuv_ini_attributes st) = Inr (r, v)"
    "xuv_commit_settings ''take_background'' v = Inr (outs, v')"
  shows "xv_background v' = replicate (length d) (Fin (55 / 10)) \<and>
         xuv_grab_data rnd g v' =
           (case xuv_grab_data rnd g v of Inl (e, _) \<Rightarrow> Inl (e, v') | Inr (out, _) \<Rightarrow> Inr (out, v'))"
proof -
  note v = xuv_ini_master [OF assms(1)]
  have v': "v' = v\<lparr>xv_background := replicate (length d) (Fin (55 / 10))\<rparr>"
    using assms(2) v by (simp add: xuv_commit_settings_def xuv_take_background_def Let_def)
  have "outcome_state (xuv_grab_data rnd g v) = v"
    by (simp add: xuv_grab_data_def Let_def split: sum.split option.split)
  then show ?thesis
    unfolding v' xuv_grab_data_background by (auto split: sum.split)
qed

theorem xuv_background_unused_witness:
  "xv_background (outcome_state (xuv_commit_settings ''take_background''
      (outcome_state (xuv_ini_detector None [1, 2] (xuv_ini_attributes xuv_params))))) = [Fin (55 / 10), Fin (55 / 10)]"
proof -
  let ?v = "outcome_state (xuv_ini_detector None [1, 2] (xuv_ini_attributes xuv_params))"
  let ?v' = "outcome_state (xuv_commit_settings ''take_background'' ?v)"
  have i: "xuv_ini_detector None [1, 2] (xuv_ini_attributes xuv_params)
             = Inr (fst (projr (xuv_ini_detector None [1, 2] (xuv_ini_attributes xuv_params))), ?v)"
    by (simp add: xuv_ini_detector_def Let_def)
  have c: "xuv_commit_settings ''take_background'' ?v
             = Inr (fst (projr (xuv_commit_settings ''take_background'' ?v)), ?v')"
    by (simp add: xuv_ini_detector_def xuv_commit_settings_def xuv_take_background_def Let_def)
  from xuv_background_unused [OF i c, of "\<lambda>i. 0" 0]
  show ?thesis by (simp add: numeral_2_eq_2)
qed

end
