(* ===== verification/EngineSpec.thy ===== *)
theory EngineSpec
  imports DeltaR
begin

text \<open>
  The contract of the specification's two components, the Shot Labeler and the
  Differential Ratio Engine with its capture state machine \<open>{Idle, CapturingNext}\<close>, as
  plain definitions over sequences of frames, and the refinement of it by the model
  \<open>DataMixerModelDeltaR\<close> of \<open>DeltaR\<close>: the abstraction \<open>eng_of\<close> forgets the settings and
  the acquisitions requested and keeps the capture flag and the background.
  The labeler reads the frames of the on/off signal, as the code does; the
  specification lets it read the burst itself. The refinement is stated per step (C21)
  and over every run of host events (C25): the requests a run makes of the engine
  (\<open>dr_trace\<close>), executed by \<open>eng_run\<close> from the abstract state, give the abstraction
  of the final state and the ratios the model emitted.
\<close>

section \<open>The specification\<close>

record engine =
  eng_capturing :: bool
  eng_bkg :: "(fl list \<times> fl list) option"   \<comment> \<open>\<open>(bkg_on, bkg_off)\<close>\<close>

text \<open>The labeler: the even-indexed frames are pump-on when their mean is the larger.\<close>

definition spec_first_is_on :: "fl list list \<Rightarrow> bool" where
  "spec_first_is_on frames \<longleftrightarrow> fmean (concat (py_odds frames)) < fmean (concat (py_evens frames))"

definition spec_classify :: "bool \<Rightarrow> fl list list \<Rightarrow> fl list list \<times> fl list list" where
  "spec_classify fio frames = (if fio then (py_evens frames, py_odds frames) else (py_odds frames, py_evens frames))"

text \<open>Channel-wise means over the frames, the values \<open>captureBackground\<close> stores.\<close>

definition spec_means :: "nat \<Rightarrow> fl list list \<Rightarrow> fl list" where
  "spec_means m frames = map (\<lambda>j. fmean (map (\<lambda>f. f ! j) frames)) [0..<m]"

text \<open>
  \<open>computeRatio\<close>: per channel, the mean over the shot pairs of \<open>(on - off)/off\<close>, each
  frame first corrected by its half of the background when one is held.
\<close>

definition spec_compute_ratio ::
  "nat \<Rightarrow> fl list list \<Rightarrow> fl list list \<Rightarrow> (fl list \<times> fl list) option \<Rightarrow> fl list" where
  "spec_compute_ratio m on off bkg =
     map (\<lambda>j. fmean (map2 (\<lambda>a b. case bkg of
                                None \<Rightarrow> (a - b) / b
                              | Some (bon, boff) \<Rightarrow> ((a - bon ! j) - (b - boff ! j)) / (b - boff ! j))
                     (map (\<lambda>f. f ! j) on) (map (\<lambda>f. f ! j) off))) [0..<m]"

text \<open>A take-background request: \<open>Idle \<rightarrow> CapturingNext\<close>.\<close>

definition eng_take_background :: "engine \<Rightarrow> engine" where
  "eng_take_background e = e\<lparr>eng_capturing := True\<rparr>"

text \<open>
  One burst of \<open>m\<close>-channel frames, labeled from the frames \<open>sig\<close>: consumed by
  \<open>captureBackground\<close> in \<open>CapturingNext\<close> (no ratio surfaced), or its ratio in \<open>Idle\<close>.
\<close>

definition eng_burst :: "engine \<Rightarrow> nat \<Rightarrow> fl list list \<Rightarrow> fl list list \<Rightarrow> engine \<times> fl list option" where
  "eng_burst e m sig burst =
     (let (on, off) = spec_classify (spec_first_is_on sig) burst in
      if eng_capturing e
      then (\<lparr>eng_capturing = False, eng_bkg = Some (spec_means m on, spec_means m off)\<rparr>, None)
      else (e, Some (spec_compute_ratio m on off (eng_bkg e))))"

text \<open>
  The requests the engine serves, and a run of them with the ratios it outputs in order;
  \<open>ESkip\<close> is an event that is not a request (an acquisition that raises, for one).
\<close>

datatype eng_event = ETake | EBurst nat "fl list list" "fl list list" | ESkip

fun eng_exec :: "engine \<Rightarrow> eng_event \<Rightarrow> engine \<times> fl list list" where
  "eng_exec e ETake = (eng_take_background e, [])"
| "eng_exec e (EBurst m sig burst) =
     (case eng_burst e m sig burst of (e', None) \<Rightarrow> (e', []) | (e', Some r) \<Rightarrow> (e', [r]))"
| "eng_exec e ESkip = (e, [])"

fun eng_run :: "engine \<Rightarrow> eng_event list \<Rightarrow> engine \<times> fl list list" where
  "eng_run e [] = (e, [])"
| "eng_run e (a # as) =
     (let (e1, os1) = eng_exec e a; (e2, os2) = eng_run e1 as in (e2, os1 @ os2))"

section \<open>The abstraction of the model\<close>

definition eng_of :: "drmodel \<Rightarrow> engine" where
  "eng_of s = \<lparr>eng_capturing = doing_bkg s,
               eng_bkg = (case (bkg_pon s, bkg_poff s) of (Some on, Some off) \<Rightarrow> Some (on, off) | _ \<Rightarrow> None)\<rparr>"

text \<open>The frames of a 1D signal are its single values.\<close>

fun nd_frames :: "nd \<Rightarrow> fl list list" where
  "nd_frames (D1 v) = map (\<lambda>x. [x]) v"
| "nd_frames (D2 A) = rows A"


text \<open>Merging two subsequences back, alternately from each, the rest of the longer one last.\<close>

fun interleave :: "'a list \<Rightarrow> 'a list \<Rightarrow> 'a list" where
  "interleave (x # xs) (y # ys) = x # y # interleave xs ys"
| "interleave [] ys = ys"
| "interleave xs [] = xs"

text \<open>The host driving the model through a sequence of events.\<close>

fun dr_run :: "drmodel \<Rightarrow> dr_event list \<Rightarrow> drmodel" where
  "dr_run s [] = s"
| "dr_run s (ev # evs) = dr_run (dr_event_step s ev) evs"

text \<open>
  The burst and the on/off signal an acquisition hands to the two branches of
  \<open>process_dte\<close> (lines 63--72), when it reaches them.
\<close>

definition acq_frames :: "drmodel \<Rightarrow> (string \<times> nd) list \<Rightarrow> (arr2 \<times> nd) option" where
  "acq_frames s dte =
     (if set_camera s = Some '''' then None else
      case (dte_get dte (set_camera s), dte_get dte (set_on_off_signal s)) of
        (Inr (D2 A), Inr sig) \<Rightarrow> Some (A, sig)
      | _ \<Rightarrow> None)"

text \<open>The request a host event makes of the engine, and the ratios the model emits on it.\<close>

fun dr_event_abs :: "drmodel \<Rightarrow> dr_event \<Rightarrow> eng_event" where
  "dr_event_abs s (Press p list1D list2D) = (if p = ''do_bkg'' then ETake else ESkip)"
| "dr_event_abs s (Acquire echo dte) =
     (case acq_frames s dte of None \<Rightarrow> ESkip | Some (A, sig) \<Rightarrow> EBurst (ncols A) (nd_frames sig) (rows A))"

fun dr_event_out :: "drmodel \<Rightarrow> dr_event \<Rightarrow> fl list list" where
  "dr_event_out s (Press p list1D list2D) = []"
| "dr_event_out s (Acquire echo dte) =
     (case process_dte echo dte s of Inl _ \<Rightarrow> [] | Inr (out, _) \<Rightarrow> map snd out)"

text \<open>Along a run of host events: the engine's requests and the ratios emitted.\<close>

fun dr_trace :: "drmodel \<Rightarrow> dr_event list \<Rightarrow> eng_event list \<times> fl list list" where
  "dr_trace s [] = ([], [])"
| "dr_trace s (ev # evs) =
     (let (as, os) = dr_trace (dr_event_step s ev) evs in (dr_event_abs s ev # as, dr_event_out s ev @ os))"

text \<open>
  The runs the refinement covers: every burst an acquisition reaches the branches with
  is well formed, of an even number of shots and of width \<open>n\<close>.
\<close>

fun acq_ok :: "nat \<Rightarrow> drmodel \<Rightarrow> dr_event \<Rightarrow> bool" where
  "acq_ok n s (Press p list1D list2D) = True"
| "acq_ok n s (Acquire echo dte) =
     (case acq_frames s dte of None \<Rightarrow> True | Some (A, sig) \<Rightarrow> wf_arr A \<and> even (nrows A) \<and> ncols A = n)"

fun run_ok :: "nat \<Rightarrow> drmodel \<Rightarrow> dr_event list \<Rightarrow> bool" where
  "run_ok n s [] = True"
| "run_ok n s (ev # evs) = (acq_ok n s ev \<and> run_ok n (dr_event_step s ev) evs)"

definition bkg_width :: "nat \<Rightarrow> drmodel \<Rightarrow> bool" where
  "bkg_width n s = (case bkg_pon s of None \<Rightarrow> True | Some b \<Rightarrow> length b = n)"

section \<open>The labeler and the engine's operations in the model\<close>

lemma first_is_on_spec: "first_is_on sig = spec_first_is_on (nd_frames sig)"
  by (cases sig) (simp_all add: spec_first_is_on_def mean_all_def even_rows_def odd_rows_def)

lemma split_onoff_spec:
  "split_onoff fio A = (\<lparr>ncols = ncols A, rows = fst (spec_classify fio (rows A))\<rparr>,
                        \<lparr>ncols = ncols A, rows = snd (spec_classify fio (rows A))\<rparr>)"
  by (cases A) (simp add: split_onoff_def spec_classify_def even_rows_def odd_rows_def)

lemma mean0_spec: "mean0 A = spec_means (ncols A) (rows A)"
  by (simp add: mean0_def spec_means_def col_def)

lemma eng_of_capture:
  "eng_of (capture_bkg echo fio A s) =
     \<lparr>eng_capturing = False,
      eng_bkg = Some (spec_means (ncols A) (fst (spec_classify fio (rows A))),
                      spec_means (ncols A) (snd (spec_classify fio (rows A))))\<rparr>"
  by (simp add: capture_bkg_eq [OF split_onoff_spec] eng_of_def mean0_spec)

lemma doing_bkg_update_settings:
  "doing_bkg (outcome_state (update_settings p list1D list2D s)) = (p = ''do_bkg'' \<or> doing_bkg s)"
  by (simp add: update_settings_def update_data_list_def do_bkg_def Let_def split: sum.split)

lemma eng_of_update_settings:
  "eng_of (outcome_state (update_settings p list1D list2D s)) =
     (if p = ''do_bkg'' then eng_take_background (eng_of s) else eng_of s)"
  by (simp add: eng_of_def eng_take_background_def doing_bkg_update_settings)

text \<open>The ratio the model computes is \<open>computeRatio\<close> of the labeled halves.\<close>

lemma mean0_ratio_spec:
  assumes "ncols R = ncols A" "split_onoff fio A = (on, off)"
    "\<And>j. j < ncols A \<Longrightarrow> col R j = map2 (h j) (col on j) (col off j)"
  shows "mean0 R = map (\<lambda>j. fmean (map2 (h j) (map (\<lambda>f. f ! j) (fst (spec_classify fio (rows A))))
                                             (map (\<lambda>f. f ! j) (snd (spec_classify fio (rows A)))))) [0..<ncols A]"
proof -
  from split_onoff_spec [of fio A] assms(2)
  have "rows on = fst (spec_classify fio (rows A))" "rows off = snd (spec_classify fio (rows A))"
    by auto
  with assms(1,3) show ?thesis by (intro mean0_cols) (simp_all add: col_def)
qed


text \<open>
  On an even, well-formed burst and a background of the burst's width (or none), the
  ratio branch computes \<open>computeRatio\<close> with the background the engine holds.
\<close>

lemma ratio_frames_spec:
  assumes "dr_inv s" "wf_arr A" "even (nrows A)" "\<And>b. bkg_pon s = Some b \<Longrightarrow> length b = ncols A"
  obtains R where "ratio_frames fio A s = Inr R"
    "mean0 R = spec_compute_ratio (ncols A) (fst (spec_classify fio (rows A))) (snd (spec_classify fio (rows A)))
                 (eng_bkg (eng_of s))"
proof -
  obtain on off where sp: "split_onoff fio A = (on, off)" by fastforce
  consider (none) "bkg_pon s = None" "bkg_poff s = None"
    | (both) bon boff where "bkg_pon s = Some bon" "bkg_poff s = Some boff" "length boff = length bon"
    using assms(1) by (auto simp: dr_inv_def split: option.splits)
  then show ?thesis
  proof cases
    case none
    obtain R where R: "ratio_frames fio A s = Inr R" "ncols R = ncols A"
        "\<And>j. j < ncols A \<Longrightarrow> col R j = map2 (\<lambda>a b. (a - b) / b) (col on j) (col off j)"
      using ratio_frames_nobkg [OF assms(2,3) none(1) sp] by blast
    from mean0_ratio_spec [OF R(2) sp R(3)] none R(1) show ?thesis
      by (intro that) (simp_all add: spec_compute_ratio_def eng_of_def)
  next
    case both
    have len: "length boff = ncols A" "length bon = ncols A" using both assms(4) by simp_all
    obtain R where R: "ratio_frames fio A s = Inr R" "ncols R = ncols A"
        "\<And>j. j < ncols A \<Longrightarrow>
           col R j = map2 (\<lambda>a b. ((a - bon ! j) - (b - boff ! j)) / (b - boff ! j)) (col on j) (col off j)"
      using ratio_frames_bkg [OF assms(2,3) both(2,1) len sp] by blast
    from mean0_ratio_spec [OF R(2) sp R(3)] both R(1) show ?thesis
      by (intro that) (simp_all add: spec_compute_ratio_def eng_of_def)
  qed
qed

text \<open>A press of a button is a take-background request or leaves the engine's state.\<close>

lemma eng_of_press:
  "eng_of (dr_event_step s (Press p list1D list2D)) =
     (if p = ''do_bkg'' then eng_take_background (eng_of s) else eng_of s)"
proof -
  have "eng_of (s\<lparr>set_do_bkg := True\<rparr>) = eng_of s" by (simp add: eng_of_def)
  then show ?thesis by (simp add: eng_of_update_settings)
qed

text \<open>An acquisition of a valid even burst is a burst of the engine, with its output.\<close>

lemma acquire_refines:
  assumes "dr_inv s" "set_camera s \<noteq> Some ''''"
    "dte_get dte (set_camera s) = Inr (D2 A)" "dte_get dte (set_on_off_signal s) = Inr sig"
    "wf_arr A" "even (nrows A)" "\<And>b. bkg_pon s = Some b \<Longrightarrow> length b = ncols A"
  shows "\<exists>out s'. process_dte echo dte s = Inr (out, s') \<and>
           eng_of s' = fst (eng_burst (eng_of s) (ncols A) (nd_frames sig) (rows A)) \<and>
           out = (case snd (eng_burst (eng_of s) (ncols A) (nd_frames sig) (rows A)) of
                    None \<Rightarrow> [] | Some r \<Rightarrow> [(''dR over R'', r)])"
proof -
  let ?fio = "first_is_on sig"
  have burst: "eng_burst (eng_of s) (ncols A) (nd_frames sig) (rows A) =
     (if doing_bkg s
      then (\<lparr>eng_capturing = False, eng_bkg = Some (spec_means (ncols A) (fst (spec_classify ?fio (rows A))),
                                                    spec_means (ncols A) (snd (spec_classify ?fio (rows A))))\<rparr>, None)
      else (eng_of s, Some (spec_compute_ratio (ncols A) (fst (spec_classify ?fio (rows A)))
                              (snd (spec_classify ?fio (rows A))) (eng_bkg (eng_of s)))))"
    by (simp add: eng_burst_def first_is_on_spec split_def eng_of_def Let_def)
  show ?thesis
  proof (cases "doing_bkg s")
    case True
    then show ?thesis using assms(2-4) burst by (simp add: process_dte_valid eng_of_capture)
  next
    case False
    obtain R where "ratio_frames ?fio A s = Inr R"
        "mean0 R = spec_compute_ratio (ncols A) (fst (spec_classify ?fio (rows A)))
                     (snd (spec_classify ?fio (rows A))) (eng_bkg (eng_of s))"
      using ratio_frames_spec [OF assms(1,5-7)] by blast
    with False show ?thesis using assms(2-4) burst by (simp add: process_dte_valid)
  qed
qed

section \<open>The refinement\<close>

text \<open>
  C21. Under the model's invariant, \<open>DataMixerModelDeltaR\<close> implements the engine of the
  specification step by step, through \<open>eng_of\<close>: a press of \<open>do_bkg\<close> is the
  take-background request (other presses change neither the flag nor the background),
  and an acquisition with an even, well-formed burst (and a background of its width, if
  one is held) succeeds with the engine's next state and output: in \<open>CapturingNext\<close> the
  burst's labeled means become the background and nothing is output, in \<open>Idle\<close> the
  output is \<open>computeRatio\<close> of the labeled halves and the state is kept.
\<close>

theorem dr_model_refines_engine:
  assumes "dr_inv s" "set_camera s \<noteq> Some ''''"
    "dte_get dte (set_camera s) = Inr (D2 A)" "dte_get dte (set_on_off_signal s) = Inr sig"
    "wf_arr A" "even (nrows A)" "\<And>b. bkg_pon s = Some b \<Longrightarrow> length b = ncols A"
  shows "eng_of (dr_event_step s (Press p list1D list2D)) =
           (if p = ''do_bkg'' then eng_take_background (eng_of s) else eng_of s) \<and>
         (\<exists>out s'. process_dte echo dte s = Inr (out, s') \<and>
            eng_of s' = fst (eng_burst (eng_of s) (ncols A) (nd_frames sig) (rows A)) \<and>
            out = (case snd (eng_burst (eng_of s) (ncols A) (nd_frames sig) (rows A)) of
                     None \<Rightarrow> [] | Some r \<Rightarrow> [(''dR over R'', r)]))"
  by (rule conjI [OF eng_of_press acquire_refines [OF assms]])

theorem dr_model_refines_engine_witness:
  "eng_of (dr_event_step (dr_params\<lparr>set_camera := Some ''cam'', set_on_off_signal := Some ''sig''\<rparr>)
            (Press ''do_bkg'' [''sig''] [''cam''])) =
     \<lparr>eng_capturing = True, eng_bkg = None\<rparr> \<and>
   (\<exists>s'. process_dte False
     [(''cam'', D2 \<lparr>ncols = 2, rows = [[Fin 10, Fin 10], [Fin 2, Fin 2], [Fin 10, Fin 10], [Fin 2, Fin 2]]\<rparr>),
      (''sig'', D1 [Fin 1, Fin 0, Fin 1, Fin 0])]
     (dr_params\<lparr>set_camera := Some ''cam'', set_on_off_signal := Some ''sig''\<rparr>)
   = Inr ([(''dR over R'', [Fin 4, Fin 4])], s') \<and> eng_of s' = \<lparr>eng_capturing = False, eng_bkg = None\<rparr>)"
proof -
  let ?s = "dr_params\<lparr>set_camera := Some ''cam'', set_on_off_signal := Some ''sig''\<rparr>"
  let ?A = "\<lparr>ncols = 2, rows = [[Fin 10, Fin 10], [Fin 2, Fin 2], [Fin 10, Fin 10], [Fin 2, Fin 2]]\<rparr>"
  let ?dte = "[(''cam'', D2 ?A), (''sig'', D1 [Fin 1, Fin 0, Fin 1, Fin 0])]"
  have "eng_of (dr_event_step ?s (Press ''do_bkg'' [''sig''] [''cam''])) =
          (if ''do_bkg'' = ''do_bkg'' then eng_take_background (eng_of ?s) else eng_of ?s) \<and>
        (\<exists>out s'. process_dte False ?dte ?s = Inr (out, s') \<and>
            eng_of s' = fst (eng_burst (eng_of ?s) (ncols ?A) (nd_frames (D1 [Fin 1, Fin 0, Fin 1, Fin 0])) (rows ?A)) \<and>
            out = (case snd (eng_burst (eng_of ?s) (ncols ?A) (nd_frames (D1 [Fin 1, Fin 0, Fin 1, Fin 0])) (rows ?A)) of
                     None \<Rightarrow> [] | Some r \<Rightarrow> [(''dR over R'', r)]))"
    by (rule dr_model_refines_engine)
       (simp_all add: dr_params_def dr_inv_def dte_get_def wf_arr_def nrows_def)
  then show ?thesis
    by (auto simp: eng_burst_def eng_of_def eng_take_background_def dr_params_def spec_first_is_on_def
                   spec_classify_def spec_compute_ratio_def fmean_def fl_ops_def Let_def numeral_2_eq_2)
qed


section \<open>The labeler's split loses no shot\<close>

lemma interleave_slices: "interleave (py_evens xs) (py_odds xs) = xs"
  by (induction xs rule: py_evens.induct) auto

text \<open>
  C22. The on and off halves the model takes from a burst (\<open>split_onoff\<close>, lines 81--86),
  merged back alternately starting with the half of the first shot, give the burst: no
  shot is lost, duplicated or moved, for bursts of any length; both halves keep the
  burst's width.
\<close>

theorem split_onoff_interleave:
  "split_onoff fio A = (on, off) \<Longrightarrow>
   ncols on = ncols A \<and> ncols off = ncols A \<and>
   (if fio then interleave (rows on) (rows off) else interleave (rows off) (rows on)) = rows A"
  by (auto simp: split_onoff_def interleave_slices)

theorem split_onoff_interleave_witness:
  "split_onoff False \<lparr>ncols = 1, rows = [[Fin 1], [Fin 2], [Fin 3]]\<rparr>
     = (\<lparr>ncols = 1, rows = [[Fin 2]]\<rparr>, \<lparr>ncols = 1, rows = [[Fin 1], [Fin 3]]\<rparr>) \<and>
   ncols \<lparr>ncols = 1, rows = [[Fin 2]]\<rparr> = 1 \<and> ncols \<lparr>ncols = 1, rows = [[Fin 1], [Fin 3]]\<rparr> = 1 \<and>
   interleave [[Fin 1], [Fin 3]] [[Fin 2]] = [[Fin 1], [Fin 2], [Fin 3]]"
proof -
  have sp: "split_onoff False \<lparr>ncols = 1, rows = [[Fin 1], [Fin 2], [Fin 3]]\<rparr>
     = (\<lparr>ncols = 1, rows = [[Fin 2]]\<rparr>, \<lparr>ncols = 1, rows = [[Fin 1], [Fin 3]]\<rparr>)"
    by (simp add: split_onoff_def even_rows_def odd_rows_def)
  from split_onoff_interleave [OF sp] sp show ?thesis by simp
qed


section \<open>Runs of host events\<close>

lemma acq_frames_Some:
  "acq_frames s dte = Some (A, sig) \<longleftrightarrow>
     set_camera s \<noteq> Some '''' \<and> dte_get dte (set_camera s) = Inr (D2 A) \<and>
     dte_get dte (set_on_off_signal s) = Inr sig"
  by (auto simp: acq_frames_def split: sum.splits nd.splits)

text \<open>An acquisition that does not reach the branches leaves the model and emits nothing.\<close>

lemma process_dte_no_frames:
  assumes "acq_frames s dte = None"
  shows "outcome_state (process_dte echo dte s) = s"
    "(case process_dte echo dte s of Inl _ \<Rightarrow> [] | Inr (out, _) \<Rightarrow> map snd out) = []"
  using assms by (auto simp: acq_frames_def process_dte_def split: if_splits sum.splits nd.splits)

text \<open>Outside a capture, acquisitions leave the model as it was.\<close>

lemma process_dte_idle_state: "\<not> doing_bkg s \<Longrightarrow> outcome_state (process_dte echo dte s) = s"
  by (auto simp: process_dte_def Let_def split: sum.splits)

lemma dr_run_idle:
  "\<not> doing_bkg s \<Longrightarrow> dr_run s (map (\<lambda>(e, d). Acquire e d) ads) = s"
  by (induction ads) (auto simp: process_dte_idle_state)

text \<open>
  C23. A take-background request is pending exactly until the first acquisition whose
  data reaches \<open>process_dte\<close>'s branches (a camera array and an on/off signal under the
  selected names), and that acquisition serves it: over any sequence of acquisitions
  from an armed model, if none reaches the branches the model is left as it was, capture
  request included; otherwise the capture ends disarmed with the means of that first
  burst's labeled halves as the background, whatever acquisitions follow it.
\<close>

theorem capture_served_by_first_burst:
  assumes "doing_bkg s"
  shows "(case find (\<lambda>(e, d). acq_frames s d \<noteq> None) ads of
            None \<Rightarrow> dr_run s (map (\<lambda>(e, d). Acquire e d) ads) = s
          | Some (e, d) \<Rightarrow> (\<exists>A sig. acq_frames s d = Some (A, sig) \<and>
              \<not> doing_bkg (dr_run s (map (\<lambda>(e, d). Acquire e d) ads)) \<and>
              bkg_pon (dr_run s (map (\<lambda>(e, d). Acquire e d) ads)) =
                Some (mean0 (fst (split_onoff (first_is_on sig) A))) \<and>
              bkg_poff (dr_run s (map (\<lambda>(e, d). Acquire e d) ads)) =
                Some (mean0 (snd (split_onoff (first_is_on sig) A)))))"
  using assms
proof (induction ads)
  case Nil
  then show ?case by simp
next
  case (Cons ed ads)
  obtain e d where ed: "ed = (e, d)" by fastforce
  show ?case
  proof (cases "acq_frames s d")
    case None
    then have "dr_event_step s (Acquire e d) = s" by (simp add: process_dte_no_frames)
    with Cons.IH Cons.prems None show ?thesis unfolding ed by (simp cong: option.case_cong)
  next
    case (Some f)
    then obtain A sig where f: "acq_frames s d = Some (A, sig)" by (cases f) auto
    obtain on off where sp: "split_onoff (first_is_on sig) A = (on, off)" by fastforce
    let ?s1 = "capture_bkg e (first_is_on sig) A s"
    have "dr_event_step s (Acquire e d) = ?s1"
      using f Cons.prems by (simp add: acq_frames_Some process_dte_valid)
    moreover have "dr_run ?s1 (map (\<lambda>(e, d). Acquire e d) ads) = ?s1"
      by (rule dr_run_idle) (simp add: capture_bkg_eq [OF sp])
    ultimately show ?thesis using f sp unfolding ed by (simp add: capture_bkg_eq [OF sp] cong: option.case_cong)
  qed
qed

theorem capture_served_by_first_burst_witness:
  "find (\<lambda>(e, d). acq_frames (dr_params\<lparr>set_camera := Some ''cam'', set_on_off_signal := Some ''sig'',
            doing_bkg := True\<rparr>) d \<noteq> None)
     [(False, []), (True, [(''cam'', D1 [Fin 1])]),
      (False, [(''cam'', D2 \<lparr>ncols = 1, rows = [[Fin 5], [Fin 3]]\<rparr>), (''sig'', D1 [Fin 1, Fin 0])]),
      (False, [(''cam'', D2 \<lparr>ncols = 1, rows = [[Fin 7], [Fin 4]]\<rparr>), (''sig'', D1 [Fin 1, Fin 0])])]
   = Some (False, [(''cam'', D2 \<lparr>ncols = 1, rows = [[Fin 5], [Fin 3]]\<rparr>), (''sig'', D1 [Fin 1, Fin 0])]) \<and>
   \<not> doing_bkg (dr_run (dr_params\<lparr>set_camera := Some ''cam'', set_on_off_signal := Some ''sig'',
            doing_bkg := True\<rparr>)
     (map (\<lambda>(e, d). Acquire e d)
     [(False, []), (True, [(''cam'', D1 [Fin 1])]),
      (False, [(''cam'', D2 \<lparr>ncols = 1, rows = [[Fin 5], [Fin 3]]\<rparr>), (''sig'', D1 [Fin 1, Fin 0])]),
      (False, [(''cam'', D2 \<lparr>ncols = 1, rows = [[Fin 7], [Fin 4]]\<rparr>), (''sig'', D1 [Fin 1, Fin 0])])])) \<and>
   bkg_pon (dr_run (dr_params\<lparr>set_camera := Some ''cam'', set_on_off_signal := Some ''sig'',
            doing_bkg := True\<rparr>)
     (map (\<lambda>(e, d). Acquire e d)
     [(False, []), (True, [(''cam'', D1 [Fin 1])]),
      (False, [(''cam'', D2 \<lparr>ncols = 1, rows = [[Fin 5], [Fin 3]]\<rparr>), (''sig'', D1 [Fin 1, Fin 0])]),
      (False, [(''cam'', D2 \<lparr>ncols = 1, rows = [[Fin 7], [Fin 4]]\<rparr>), (''sig'', D1 [Fin 1, Fin 0])])]))
   = Some [Fin 5]"
proof -
  let ?s = "dr_params\<lparr>set_camera := Some ''cam'', set_on_off_signal := Some ''sig'', doing_bkg := True\<rparr>"
  let ?ads = "[(False, []), (True, [(''cam'', D1 [Fin 1])]),
      (False, [(''cam'', D2 \<lparr>ncols = 1, rows = [[Fin 5], [Fin 3]]\<rparr>), (''sig'', D1 [Fin 1, Fin 0])]),
      (False, [(''cam'', D2 \<lparr>ncols = 1, rows = [[Fin 7], [Fin 4]]\<rparr>), (''sig'', D1 [Fin 1, Fin 0])])]"
  have fd: "find (\<lambda>(e, d). acq_frames ?s d \<noteq> None) ?ads
      = Some (False, [(''cam'', D2 \<lparr>ncols = 1, rows = [[Fin 5], [Fin 3]]\<rparr>), (''sig'', D1 [Fin 1, Fin 0])])"
    by (simp add: acq_frames_def dte_get_def dr_params_def)
  have "doing_bkg ?s" by simp
  from capture_served_by_first_burst [OF this, of ?ads] fd show ?thesis
    by (simp add: acq_frames_def dte_get_def dr_params_def split_onoff_def even_rows_def odd_rows_def
                  mean0_def col_def fmean_def fl_ops_def)
qed

lemma bkg_width_step:
  assumes "bkg_width n s" "acq_ok n s ev"
  shows "bkg_width n (dr_event_step s ev)"
proof (cases ev)
  case (Press p list1D list2D)
  with assms(1) show ?thesis by (simp add: bkg_width_def)
next
  case (Acquire echo dte)
  show ?thesis
  proof (cases "acq_frames s dte")
    case None
    with assms(1) Acquire show ?thesis by (simp add: process_dte_no_frames)
  next
    case (Some f)
    then obtain A sig where f: "acq_frames s dte = Some (A, sig)" by (cases f) auto
    with assms(2) Acquire have "ncols A = n" by simp
    with f assms(1) Acquire show ?thesis
      by (auto simp: acq_frames_Some process_dte_valid capture_bkg_eq [OF split_onoff_spec] bkg_width_def
               split: sum.splits)
  qed
qed

text \<open>One host event: the engine's request made by it, from the abstract state, gives the
  abstract state after it and the ratios the model emits on it.\<close>

lemma dr_step_refines:
  assumes "dr_inv s" "bkg_width n s" "acq_ok n s ev"
  shows "eng_exec (eng_of s) (dr_event_abs s ev) = (eng_of (dr_event_step s ev), dr_event_out s ev)"
proof (cases ev)
  case (Press p list1D list2D)
  then show ?thesis by (simp add: eng_of_press del: dr_event_step.simps)
next
  case (Acquire echo dte)
  show ?thesis
  proof (cases "acq_frames s dte")
    case None
    with Acquire show ?thesis by (simp add: process_dte_no_frames)
  next
    case (Some f)
    then obtain A sig where f: "acq_frames s dte = Some (A, sig)" by (cases f) auto
    with assms(3) Acquire have ok: "wf_arr A" "even (nrows A)" "ncols A = n" by simp_all
    have h: "set_camera s \<noteq> Some ''''" "dte_get dte (set_camera s) = Inr (D2 A)"
      "dte_get dte (set_on_off_signal s) = Inr sig"
      using f by (simp_all add: acq_frames_Some)
    have w: "\<And>b. bkg_pon s = Some b \<Longrightarrow> length b = ncols A" using assms(2) ok(3) by (simp add: bkg_width_def)
    obtain out s' where r: "process_dte echo dte s = Inr (out, s')"
      "eng_of s' = fst (eng_burst (eng_of s) (ncols A) (nd_frames sig) (rows A))"
      "out = (case snd (eng_burst (eng_of s) (ncols A) (nd_frames sig) (rows A)) of
                None \<Rightarrow> [] | Some r \<Rightarrow> [(''dR over R'', r)])"
      using acquire_refines [OF assms(1) h ok(1,2) w] by blast
    show ?thesis
      using Acquire f r by (cases "eng_burst (eng_of s) (ncols A) (nd_frames sig) (rows A)") (auto split: option.splits)
  qed
qed

text \<open>
  C25. Over every run of host events whose acquisitions bring even, well-formed bursts of
  one width \<open>n\<close> (from a state satisfying the invariant and holding no background of
  another width), the model is the specification's engine: the requests the events make
  (take-background for \<open>do_bkg\<close>, a burst for every acquisition that reaches the
  branches, nothing otherwise), run from the abstract state, end in the abstraction of
  the model's final state and output exactly the ratios the model emitted, in order.
\<close>

theorem dr_run_refines_engine:
  assumes "dr_inv s" "bkg_width n s" "run_ok n s evs"
  shows "eng_run (eng_of s) (fst (dr_trace s evs)) = (eng_of (dr_run s evs), snd (dr_trace s evs))"
  using assms
proof (induction evs arbitrary: s)
  case Nil
  then show ?case by simp
next
  case (Cons ev evs)
  let ?s1 = "dr_event_step s ev"
  have ok: "acq_ok n s ev" "run_ok n ?s1 evs" using Cons.prems(3) by simp_all
  have step: "eng_exec (eng_of s) (dr_event_abs s ev) = (eng_of ?s1, dr_event_out s ev)"
    by (rule dr_step_refines [OF Cons.prems(1,2) ok(1)])
  have "eng_run (eng_of ?s1) (fst (dr_trace ?s1 evs)) = (eng_of (dr_run ?s1 evs), snd (dr_trace ?s1 evs))"
    by (rule Cons.IH [OF dr_event_step_inv [OF Cons.prems(1)] bkg_width_step [OF Cons.prems(2) ok(1)] ok(2)])
  with step show ?case by (simp add: split_def Let_def)
qed


theorem dr_run_refines_engine_witness:
  "dr_inv (dr_params\<lparr>set_camera := Some ''cam'', set_on_off_signal := Some ''sig''\<rparr>) \<and>
   bkg_width 1 (dr_params\<lparr>set_camera := Some ''cam'', set_on_off_signal := Some ''sig''\<rparr>) \<and>
   run_ok 1 (dr_params\<lparr>set_camera := Some ''cam'', set_on_off_signal := Some ''sig''\<rparr>)
     [Press ''do_bkg'' [''sig''] [''cam''],
      Acquire False [(''cam'', D2 \<lparr>ncols = 1, rows = [[Fin 5], [Fin 3]]\<rparr>), (''sig'', D1 [Fin 1, Fin 0])],
      Acquire False [(''cam'', D2 \<lparr>ncols = 1, rows = [[Fin 7], [Fin 4]]\<rparr>), (''sig'', D1 [Fin 1, Fin 0])]] \<and>
   eng_run (eng_of (dr_params\<lparr>set_camera := Some ''cam'', set_on_off_signal := Some ''sig''\<rparr>))
     (fst (dr_trace (dr_params\<lparr>set_camera := Some ''cam'', set_on_off_signal := Some ''sig''\<rparr>)
       [Press ''do_bkg'' [''sig''] [''cam''],
        Acquire False [(''cam'', D2 \<lparr>ncols = 1, rows = [[Fin 5], [Fin 3]]\<rparr>), (''sig'', D1 [Fin 1, Fin 0])],
        Acquire False [(''cam'', D2 \<lparr>ncols = 1, rows = [[Fin 7], [Fin 4]]\<rparr>), (''sig'', D1 [Fin 1, Fin 0])]]))
   = (eng_of (dr_run (dr_params\<lparr>set_camera := Some ''cam'', set_on_off_signal := Some ''sig''\<rparr>)
       [Press ''do_bkg'' [''sig''] [''cam''],
        Acquire False [(''cam'', D2 \<lparr>ncols = 1, rows = [[Fin 5], [Fin 3]]\<rparr>), (''sig'', D1 [Fin 1, Fin 0])],
        Acquire False [(''cam'', D2 \<lparr>ncols = 1, rows = [[Fin 7], [Fin 4]]\<rparr>), (''sig'', D1 [Fin 1, Fin 0])]]),
      snd (dr_trace (dr_params\<lparr>set_camera := Some ''cam'', set_on_off_signal := Some ''sig''\<rparr>)
       [Press ''do_bkg'' [''sig''] [''cam''],
        Acquire False [(''cam'', D2 \<lparr>ncols = 1, rows = [[Fin 5], [Fin 3]]\<rparr>), (''sig'', D1 [Fin 1, Fin 0])],
        Acquire False [(''cam'', D2 \<lparr>ncols = 1, rows = [[Fin 7], [Fin 4]]\<rparr>), (''sig'', D1 [Fin 1, Fin 0])]]))"
proof -
  let ?s = "dr_params\<lparr>set_camera := Some ''cam'', set_on_off_signal := Some ''sig''\<rparr>"
  let ?evs = "[Press ''do_bkg'' [''sig''] [''cam''],
        Acquire False [(''cam'', D2 \<lparr>ncols = 1, rows = [[Fin 5], [Fin 3]]\<rparr>), (''sig'', D1 [Fin 1, Fin 0])],
        Acquire False [(''cam'', D2 \<lparr>ncols = 1, rows = [[Fin 7], [Fin 4]]\<rparr>), (''sig'', D1 [Fin 1, Fin 0])]]"
  have h1: "dr_inv ?s" by (simp add: dr_inv_def dr_params_def)
  have h2: "bkg_width 1 ?s" by (simp add: bkg_width_def dr_params_def)
  have h3: "run_ok 1 ?s ?evs"
    by (simp add: acq_frames_def dte_get_def dr_params_def update_settings_def do_bkg_def process_dte_def
                  capture_bkg_def reset_do_bkg_def split_onoff_def even_rows_def odd_rows_def wf_arr_def
                  nrows_def Let_def)
  show ?thesis using h1 h2 h3 dr_run_refines_engine [OF h1 h2 h3] by (intro conjI)
qed

end
