(* ===== verification/Spec2Isabelle.thy ===== *)
theory Spec2Isabelle
  imports Simulator DeltaR Viewers2D Spectrum1D EngineSpec
begin

text \<open>
  \<^bold>\<open>A verification model of the Mock_XUV acquisition plugins.\<close>

  \<^emph>\<open>The program.\<close> The repository (\<open>src/src/pymodaq_plugins_MockXUV/\<close>) holds plugins
  for the PyMoDAQ acquisition framework: a simulated single-shot XUV camera
  (\<open>daq_viewer_plugins/plugins_2D/daq_2Dviewer_MockCMOS.py\<close>) and a stabilisation camera
  (\<open>daq_2Dviewer_MockStabCamera.py\<close>), both backed by the shot simulator
  \<open>Mock_SingleShot\<close> (\<open>hardware/cmos_simulator.py\<close>); a 1D spectrum viewer
  (\<open>plugins_1D/daq_1Dviewer_XUVSpectrum.py\<close>) backed by the file loader \<open>HHG_Spectrum\<close>
  (\<open>hardware/hhg_spectrum.py\<close>); and a data-mixer model \<open>DataMixerModelDeltaR\<close>
  (\<open>models/dR_model.py\<close>) that computes the pump-probe signal \<open>(on - off)/off\<close> from a
  camera burst whose shots alternate pump-on and pump-off. The model decides the phase of
  a burst from a second, on/off signal (even-indexed mean against odd-indexed mean), can
  capture a background from one burst (\<open>do_bkg\<close> arms the capture, the next processed
  burst is consumed) and subtracts it from later bursts. The host calls the plugins'
  methods and routes their emitted data to the model. The only state shared between
  components is the simulator object a master camera hands to its slave: \<open>grab_XUV\<close>
  draws its phase flag and \<open>grab_stab\<close> reads it.

  \<^emph>\<open>The library.\<close>
  \<^item> \<open>Prelude\<close>: Python's exceptions as a datatype \<open>err\<close>, the result of a method
    (\<open>'a result\<close>, and \<open>('s, 'a) outcome\<close> which also carries the object's state at a
    raise), and the stride-2 slices \<open>xs[::2]\<close>, \<open>xs[1::2]\<close> with their list lemmas.
  \<^item> \<open>Float64\<close>: numpy's float values (\<open>fl\<close>: finite, \<open>inf\<close>, \<open>-inf\<close>, \<open>nan\<close>) with
    IEEE special-value arithmetic over exact reals, declared as the library's \<open>+ - * / <\<close>,
    and \<open>fmean\<close>, numpy's mean (\<open>nan\<close> on no values).
  \<^item> \<open>NdArray\<close>: 2D arrays with their shape, row slices, \<open>mean(axis=0)\<close>, broadcasting
    (\<open>bcast\<close>) and the ratio \<open>np_ratio on off = (on - off)/off\<close> both the model and the
    CMOS viewer compute, \<open>vstack\<close>, \<open>hstack\<close>, \<open>tile\<close>, \<open>flip\<close>, \<open>roll\<close>, transpose
    and added noise; lemmas on equal shapes, row vectors and pair bursts.
  \<^item> \<open>Simulator\<close>: \<open>Mock_SingleShot\<close> as a record with \<open>Mock_SingleShot_init\<close>,
    \<open>grab_XUV\<close>, \<open>grab_stab\<close>; the invariant \<open>sim_inv\<close> and the exact bursts they return.
    Claim C18: the stabilisation frames a slave grabs are in phase with the master's burst.
  \<^item> \<open>DeltaR\<close>: \<open>DataMixerModelDeltaR\<close> as a record \<open>drmodel\<close> with \<open>ini_model\<close>,
    \<open>update_settings\<close>, \<open>update_data_list\<close>, \<open>do_bkg\<close> and \<open>process_dte\<close> (built from
    \<open>first_is_on\<close>, \<open>split_onoff\<close>, \<open>capture_bkg\<close> and \<open>ratio_frames\<close>, following
    lines 60--96 of \<open>dR_model.py\<close>); the host's use of the model as the step function
    \<open>dr_event_step\<close> and the reachability predicate \<open>dr_reach\<close>. Claims C1--C9: the
    ratio with and without background, the capture, the state kept outside a capture,
    pair bursts, the same burst after its capture, odd bursts, the phase test under
    rotation, and the background invariant of every reachable state; C19, a press of
    \<open>do_bkg\<close> followed by an acquisition, C20, the index errors of \<open>ini_model\<close>, and C26,
    that with a zero background every acquisition gives what it gives with none.
  \<^item> \<open>Plugin\<close>: the host's \<open>Axis\<close> and \<open>DataFromPlugins\<close> as records, attribute reads
    that may raise, the placement of axes passed with the legacy keywords \<open>x_axis=\<close> and
    \<open>y_axis=\<close> (\<open>x_axis_kw\<close>, \<open>y_axis_kw\<close>), and \<open>axes_match\<close>, whether an emitted
    block's axes fit its arrays.
  \<^item> \<open>Viewers2D\<close>: the CMOS and stabilisation viewers (\<open>ini_attributes\<close>,
    \<open>ini_detector\<close>, \<open>set_axes\<close>, \<open>commit_settings\<close>, \<open>grab_data\<close>). Claims C10--C12
    and C17: the CMOS dR/R on each phase, its image axes for odd and for changed chunk
    sizes, and the stabilisation camera's axes; C24, every CMOS grab after a master
    \<open>ini_detector\<close> succeeds with well-formed arrays of the spectrum's width whose 1D
    blocks match their axis; C27, a negative chunk size is accepted by \<open>ini_detector\<close>
    and makes every grab raise.
  \<^item> \<open>Spectrum1D\<close>: \<open>HHG_Spectrum\<close> and the 1D viewer (\<open>ini_detector\<close>,
    \<open>commit_settings\<close>, \<open>take_background\<close>, \<open>grab_data\<close>) with \<open>np.interp\<close> over reals.
    Claims C14--C16: whole-pixel shifts, the bounds of every grab, the unused background.
  \<^item> \<open>EngineSpec\<close>: the specification's Shot Labeler and Differential Ratio Engine
    (the record \<open>engine\<close>: capture flag and background; \<open>spec_classify\<close>,
    \<open>spec_means\<close>, \<open>spec_compute_ratio\<close>, \<open>eng_take_background\<close>, \<open>eng_burst\<close>, and
    runs of engine requests \<open>eng_run\<close>), the abstraction \<open>eng_of\<close> of \<open>drmodel\<close>, and
    runs of host events \<open>dr_run\<close>. Claims C21, that every press and every acquisition of a
    valid even burst is a step of the engine through \<open>eng_of\<close> (a forward simulation);
    C22, that the labeler's split is undone by interleaving the halves; C23, that over any
    sequence of acquisitions an armed capture stays pending exactly until the first
    acquisition whose data reaches \<open>process_dte\<close>'s branches, which it then consumes;
    and C25, over whole runs: the requests a run of host events makes of the engine
    (\<open>dr_trace\<close>: a take-background for \<open>do_bkg\<close>, a burst for every acquisition that
    reaches the branches, nothing otherwise), executed by \<open>eng_run\<close>, end in the
    abstraction of the model's final state and output exactly the ratios it emitted, for
    every run whose bursts are even, well formed and of one width (\<open>run_ok\<close>).
  \<^item> This theory: the rig, the stabilisation camera slaved to the CMOS camera's simulator
    (\<open>rig_grab\<close>), and claim C13, that the model fed both images recovers
    \<open>(pon - poff)/poff\<close> whatever phase the simulator drew.

  \<^emph>\<open>What the claims show about the code.\<close> The model's arithmetic is what the
  specification describes on even bursts with the phase read from the on/off signal,
  and end to end on the rig. The CMOS viewer's own dR/R ignores the phase and is inverted
  on half of the grabs (C10); its image axis disagrees with odd or changed chunk sizes
  (C11, C17); the stabilisation camera sizes its pixel axis by the XUV spectrum rather
  than by its own 1024 pixels (C12); the 1D viewer's background is never used (C16).
  Where the specification asks for errors or flags (odd bursts, division by zero, a
  missing background), the code returns numpy's values or its broadcast error (C5--C7)
  and gives the same result with a zero background as with none (C26). The phase comes
  from a second channel rather than from the burst itself (C21); a negative chunk size,
  which the settings do not forbid, makes every CMOS grab raise (C27).

  \<^emph>\<open>Modelling choices.\<close> Randomness (\<open>random.choice\<close>, \<open>np.random\<close>) is an input of the
  operation that draws it. File loading is the array it returns. Floating point is exact
  real arithmetic with IEEE's special values; rounding and signed zeros are not modelled;
  the 1D spectrum is real-valued. The host's objects are reduced to what the code reads:
  the model's input data is an association list from names to arrays (one channel per
  name), emitted data is a name and a list of blocks, the settings the code reads are
  fields of a record, and whether the host reports a change the model makes to its own
  settings is a flag (\<open>echo\<close>) of the operation that makes it. Two behaviours of the
  host are assumed rather than translated, since its code is not part of the repository:
  the arithmetic of its \<open>DataWithAxes\<close> objects (line 92 of \<open>dR_model.py\<close>) is taken to
  be numpy's broadcasting, which decides the odd-burst error of C7 (the claims on even
  bursts hold under any arithmetic that agrees with numpy on equal shapes); and axes
  passed with \<open>x_axis=\<close>/\<open>y_axis=\<close> are placed on the data's last dimension and on
  dimension 0 (\<open>x_axis_kw\<close>, \<open>y_axis_kw\<close>), which decides C12 and the 1D blocks of C24.
  A master and its slave share one simulator object; \<open>rig_grab\<close> passes the object the
  first grab leaves to the second. No loop of the sources needs fuel: every operation is
  a total function, and \<open>interp_seg\<close> recurses structurally on the sample points.

  \<^emph>\<open>Not modelled.\<close> The GUI parameter trees, plotting, \<open>time.sleep\<close>, the HDF5 and
  numpy file readers, PyMoDAQ's lifecycle code (\<open>ini_detector_init\<close> is reduced to the
  choice of controller), \<open>close\<close> and \<open>stop\<close> (which change nothing) and the unused
  \<open>gaussian_fit\<close> helper.
\<close>

section \<open>The rig: the two cameras on one simulator and the model\<close>

text \<open>
  On the rig the stabilisation camera is the CMOS camera's slave: both viewers hold the
  same \<open>Mock_SingleShot\<close> object. One acquisition grabs the CMOS camera (which draws the
  phase) and then the stabilisation camera, which reads the object the CMOS grab left.
\<close>

definition rig_grab ::
  "bool \<Rightarrow> (nat \<Rightarrow> nat \<Rightarrow> real) \<Rightarrow> (nat \<Rightarrow> nat \<Rightarrow> real) \<Rightarrow> cmos_viewer \<Rightarrow> stab_viewer
   \<Rightarrow> (emitted \<times> emitted \<times> cmos_viewer \<times> stab_viewer) result" where
  "rig_grab coin rnd1 rnd2 cv sv =
     (case cmos_grab_data coin rnd1 cv of
        Inl (e, _) \<Rightarrow> Inl e
      | Inr (o1, cv') \<Rightarrow>
          (case stab_grab_data rnd2 (sv\<lparr>sc_controller := cm_controller cv'\<rparr>) of
             Inl (e, _) \<Rightarrow> Inl e
           | Inr (o2, sv') \<Rightarrow> Inr (o1, o2, cv', sv')))"

lemma concat_replicate_replicate: "concat (replicate k (replicate n x)) = replicate (k * n) x"
  by (induction k) (simp_all add: replicate_add)

text \<open>The model's phase test on the stabilisation image reads the simulator's phase back.\<close>

lemma first_is_on_stab:
  assumes "0 < k"
  shows "first_is_on (D2 \<lparr>ncols = 1024, rows = concat (replicate k
           (if b then [replicate 1024 (Fin 1), replicate 1024 (Fin 0)]
            else [replicate 1024 (Fin 0), replicate 1024 (Fin 1)]))\<rparr>) = b"
  using assms
  by (cases b) (simp_all add: mean_all_def even_rows_def odd_rows_def slice_simps
                              concat_replicate_replicate fl_ops_def)



text \<open>
  C13. On the rig, with no noise, the gas on, the image selected, chunk sizes of at least
  2 and no background held, one acquisition succeeds, and the model fed the CMOS image as
  its camera and the stabilisation image as its on/off signal returns
  \<open>(pon - poff)/poff\<close> of the simulator's spectra whatever phase the simulator drew:
  the stabilisation image carries the phase that the CMOS viewer itself ignores (C10).
\<close>

theorem rig_dR_recovers_ratio:
  fixes coin :: bool
  assumes "cm_controller cv = Some c" "sim_inv c" "cm_x_axis cv = Some xa" "cm_y_axis cv = Some ya"
    "cm_amp_noise (cm_settings cv) = 0" "2 \<le> cm_chunk_size (cm_settings cv)"
    "cm_twod_image (cm_settings cv)" "\<not> cm_gas_off (cm_settings cv)"
    "sc_x_axis sv = Some xs" "sc_y_axis sv = Some ys" "sc_amp_noise (sc_settings sv) = 0"
    "2 \<le> sc_chunk_size (sc_settings sv)"
    "\<not> doing_bkg s" "bkg_pon s = None" "set_camera s = Some ''cam''" "set_on_off_signal s = Some ''sig''"
  shows "\<exists>b1 r1 b2 cv' sv'. rig_grab coin rnd1 rnd2 cv sv = Inr ((''CMOS'', b1 # r1), (''CMOS'', [b2]), cv', sv') \<and>
           process_dte echo [(''cam'', hd (dfp_data b1)), (''sig'', hd (dfp_data b2))] s
             = Inr ([(''dR over R'', map2 (\<lambda>x y. (x - y) / y) (pon c) (poff c))], s)"
proof -
  let ?c' = "c\<lparr>FirstShotIsPumpOn := coin\<rparr>"
  let ?k = "nat (cm_chunk_size (cm_settings cv) div 2)"
  let ?a = "if coin then pon c else poff c" and ?b = "if coin then poff c else pon c"
  let ?I = "\<lparr>ncols = length (pon c), rows = concat (replicate ?k [?a, ?b])\<rparr>"
  have "\<exists>r1. cmos_grab_data coin rnd1 cv = Inr ((''CMOS'',
      \<lparr>dfp_name = ''Image'', dfp_data = [D2 ?I], dfp_dim = ''Data2D'', dfp_labels = [''label1''],
       dfp_axes = [x_axis_kw 2 xa, y_axis_kw ya]\<rparr> # r1), cv\<lparr>cm_controller := Some ?c'\<rparr>)"
    unfolding cmos_grab_data_burst [OF assms(1-6), of coin rnd1] using assms(7,8) by simp
  then obtain r1 where cm: "cmos_grab_data coin rnd1 cv = Inr ((''CMOS'',
      \<lparr>dfp_name = ''Image'', dfp_data = [D2 ?I], dfp_dim = ''Data2D'', dfp_labels = [''label1''],
       dfp_axes = [x_axis_kw 2 xa, y_axis_kw ya]\<rparr> # r1), cv\<lparr>cm_controller := Some ?c'\<rparr>)" ..
  have inv': "sim_inv ?c'" using assms(2) by (simp add: sim_inv_def)
  let ?sv = "sv\<lparr>sc_controller := Some ?c'\<rparr>"
  obtain N where st: "stab_grab_data rnd2 ?sv = Inr ((''CMOS'',
      [\<lparr>dfp_name = ''Camera'', dfp_data = [D2 N], dfp_dim = ''Data2D'', dfp_labels = [''label1''],
        dfp_axes = [x_axis_kw 2 xs, y_axis_kw ys]\<rparr>]), ?sv)"
    and "nrows N = 2 * nat (sc_chunk_size (sc_settings ?sv) div 2)" "ncols N = 1024"
    and N0: "N = add_noise (sc_amp_noise (sc_settings ?sv)) rnd2
           \<lparr>ncols = 1024, rows = concat (replicate (nat (sc_chunk_size (sc_settings ?sv) div 2))
             (if FirstShotIsPumpOn ?c' then [stabpon ?c', stabpoff ?c'] else [stabpoff ?c', stabpon ?c']))\<rparr>"
    by (rule stab_grab_data_camera [of ?sv ?c' xs ys rnd2]) (use inv' assms(9-12) in simp_all)
  have N: "N = \<lparr>ncols = 1024, rows = concat (replicate (nat (sc_chunk_size (sc_settings sv) div 2))
             (if coin then [stabpon c, stabpoff c] else [stabpoff c, stabpon c]))\<rparr>"
    using N0 assms(11) by simp
  have sp: "stabpon c = replicate 1024 (Fin 1)" "stabpoff c = replicate 1024 (Fin 0)"
    using assms(2) by (simp_all add: sim_inv_def)
  have fio: "first_is_on (D2 N) = coin"
    unfolding N sp by (rule first_is_on_stab) (use assms(12) in simp)
  have len: "length ?a = length (pon c)" "length ?b = length (pon c)" "0 < ?k"
    using assms(2,6) by (auto simp: sim_inv_def)
  obtain R where R: "ratio_frames coin ?I s = Inr R"
      "mean0 R = (if coin then map2 (\<lambda>x y. (x - y) / y) ?a ?b else map2 (\<lambda>x y. (x - y) / y) ?b ?a)"
    using ratio_frames_pair_burst [OF assms(14) len] by blast
  have dte: "dte_get [(''cam'', D2 ?I), (''sig'', D2 N)] (set_camera s) = Inr (D2 ?I)"
      "dte_get [(''cam'', D2 ?I), (''sig'', D2 N)] (set_on_off_signal s) = Inr (D2 N)"
    using assms(15,16) by (simp_all add: dte_get_def)
  have "process_dte echo [(''cam'', D2 ?I), (''sig'', D2 N)] s = Inr ([(''dR over R'', mean0 R)], s)"
    using process_dte_valid [OF _ dte] fio R(1) assms(13,15) by simp
  also have "mean0 R = map2 (\<lambda>x y. (x - y) / y) (pon c) (poff c)"
    using R(2) by (cases coin) simp_all
  finally have pd: "process_dte echo [(''cam'', D2 ?I), (''sig'', D2 N)] s
                      = Inr ([(''dR over R'', map2 (\<lambda>x y. (x - y) / y) (pon c) (poff c))], s)" .
  have "rig_grab coin rnd1 rnd2 cv sv = Inr ((''CMOS'',
      \<lparr>dfp_name = ''Image'', dfp_data = [D2 ?I], dfp_dim = ''Data2D'', dfp_labels = [''label1''],
       dfp_axes = [x_axis_kw 2 xa, y_axis_kw ya]\<rparr> # r1), (''CMOS'',
      [\<lparr>dfp_name = ''Camera'', dfp_data = [D2 N], dfp_dim = ''Data2D'', dfp_labels = [''label1''],
        dfp_axes = [x_axis_kw 2 xs, y_axis_kw ys]\<rparr>]), cv\<lparr>cm_controller := Some ?c'\<rparr>, ?sv)"
    using cm st by (simp add: rig_grab_def)
  with pd show ?thesis by fastforce
qed


theorem rig_dR_recovers_ratio_witness:
  "\<exists>b1 r1 b2 cv' sv'.
     rig_grab False (\<lambda>i j. 0) (\<lambda>i j. 0)
       \<lparr>cm_controller = Some \<lparr>filename = ''ponoff_transient.npy'', pon = [Fin 4], poff = [Fin 2],
           bkg_on = [Fin 4000], bkg_off = [Fin 2000], stabpoff = replicate 1024 (Fin 0),
           stabpon = replicate 1024 (Fin 1), FirstShotIsPumpOn = True\<rparr>,
        cm_settings = cmos_params\<lparr>cm_amp_noise := 0\<rparr>,
        cm_x_axis = Some \<lparr>ax_label = ''Pixels'', ax_len = 1, ax_index = 1\<rparr>,
        cm_y_axis = Some \<lparr>ax_label = ''Shot'', ax_len = 100, ax_index = 0\<rparr>\<rparr>
       \<lparr>sc_controller = None, sc_settings = stab_params\<lparr>sc_amp_noise := 0\<rparr>,
        sc_x_axis = Some \<lparr>ax_label = ''Pixels'', ax_len = 1, ax_index = 0\<rparr>,
        sc_y_axis = Some \<lparr>ax_label = ''Shot'', ax_len = 100, ax_index = 1\<rparr>\<rparr>
     = Inr ((''CMOS'', b1 # r1), (''CMOS'', [b2]), cv', sv') \<and>
     process_dte True [(''cam'', hd (dfp_data b1)), (''sig'', hd (dfp_data b2))]
       (dr_params\<lparr>set_camera := Some ''cam'', set_on_off_signal := Some ''sig''\<rparr>)
     = Inr ([(''dR over R'', [Fin 1])], dr_params\<lparr>set_camera := Some ''cam'', set_on_off_signal := Some ''sig''\<rparr>)"
  (is "\<exists>b1 r1 b2 cv' sv'. rig_grab False ?r ?r ?cv ?sv = _ \<and> process_dte True _ ?s = _")
proof -
  let ?c = "\<lparr>filename = ''ponoff_transient.npy'', pon = [Fin 4], poff = [Fin 2],
           bkg_on = [Fin 4000], bkg_off = [Fin 2000], stabpoff = replicate 1024 (Fin 0),
           stabpon = replicate 1024 (Fin 1), FirstShotIsPumpOn = True\<rparr>"
  have "sim_inv ?c" by (simp add: sim_inv_def)
  from rig_dR_recovers_ratio [where coin = False and cv = ?cv and c = ?c and sv = ?sv and s = ?s
         and echo = True
         and xa = "\<lparr>ax_label = ''Pixels'', ax_len = 1, ax_index = 1\<rparr>"
         and ya = "\<lparr>ax_label = ''Shot'', ax_len = 100, ax_index = 0\<rparr>"
         and xs = "\<lparr>ax_label = ''Pixels'', ax_len = 1, ax_index = 0\<rparr>"
         and ys = "\<lparr>ax_label = ''Shot'', ax_len = 100, ax_index = 1\<rparr>", OF _ this]
  show ?thesis by (simp add: cmos_params_def stab_params_def dr_params_def)
qed

end
